theory Spec2Isabelle
  imports Complex_Main "HOL-Library.AList"
begin

section \<open>Blind Surfers: an audio-only endless runner\<close>

text \<open>
  A shallow embedding of the package \<^verbatim>\<open>blind_surfers/\<close> (\<^verbatim>\<open>config.py\<close>,
  \<^verbatim>\<open>models.py\<close>, \<^verbatim>\<open>systems.py\<close>, \<^verbatim>\<open>audio.py\<close>, \<^verbatim>\<open>game.py\<close>) and, where a
  property is also about it, of the standalone script \<^verbatim>\<open>blind_surfers.py\<close>.
  Python's \<^verbatim>\<open>int\<close> is \<^typ>\<open>int\<close>. A Python \<^verbatim>\<open>float\<close> is a binary64 number; its value
  is a \<^typ>\<open>real\<close>. The countdown of the power-up ledger and the arithmetic of the
  mixer round every result to binary64, and the literals the mixer reads are the
  nearest doubles, because properties stated about them depend on the rounding. The
  distances of the entities, the player's timers and the score are computed exactly:
  what is proved about them takes the computed value as it is. Mutation is explicit state
  passing; the calls a function makes on the sound manager, on the speech output and on
  \<^verbatim>\<open>time.sleep\<close> are recorded, in order, as a list of events.
\<close>

subsection \<open>Binary64 arithmetic\<close>

text \<open>
  \<open>double_round\<close> is IEEE 754 round-to-nearest, ties-to-even, to a significand of 53
  bits: a nonzero \<open>x\<close> with \<^verbatim>\<open>2^k <= |x| < 2^(k+1)\<close> is rounded to a multiple of
  \<^verbatim>\<open>2^(k-52)\<close>. The exponent is not bounded (no overflow, no subnormal numbers): the
  values of the game are far from both ends. Python's \<^verbatim>\<open>+\<close>, \<^verbatim>\<open>-\<close>, \<^verbatim>\<open>*\<close> and \<^verbatim>\<open>/\<close> on
  floats are the exact operation followed by this rounding.
\<close>

definition round_even :: "real \<Rightarrow> int" where
  "round_even q =
     (let f = \<lfloor>q\<rfloor>; r = q - of_int f
      in if r < 1 / 2 then f else if 1 / 2 < r then f + 1 else if even f then f else f + 1)"

definition double_round :: "real \<Rightarrow> real" where
  "double_round x =
     (if x = 0 then 0
      else (let ulp = 2 powr (of_int \<lfloor>log 2 \<bar>x\<bar>\<rfloor> - 52)
            in of_int (round_even (x / ulp)) * ulp))"

definition fadd :: "real \<Rightarrow> real \<Rightarrow> real" where
  "fadd a b = double_round (a + b)"

definition fsub :: "real \<Rightarrow> real \<Rightarrow> real" where
  "fsub a b = double_round (a - b)"

definition fmul :: "real \<Rightarrow> real \<Rightarrow> real" where
  "fmul a b = double_round (a * b)"

definition fdiv :: "real \<Rightarrow> real \<Rightarrow> real" where
  "fdiv a b = double_round (a / b)"

subsection \<open>config.py\<close>

record GameConfig =
  screen_width :: int
  screen_height :: int
  fps :: int
  max_distance :: real
  lanes :: "int list"
  lane_pan :: "int \<rightharpoonup> real"

record EconomyConfig =
  powerup_base_duration :: "string \<rightharpoonup> real"
  upgrade_costs :: "string \<rightharpoonup> int"
  mystery_box_cost :: int

record SpawnConfig =
  obstacle_rate :: real
  powerup_rate :: real
  letter_rate :: real
  season_token_rate :: real
  coin_rate :: real

record AudioConfig =
  sound_dir_name :: string
  default_music_volume :: real
  default_sfx_volume :: real
  mixer_channels :: int

record GameplayConfig =
  base_speed :: real
  jump_duration :: real
  super_jump_duration :: real
  roll_duration :: real
  score_rate :: int
  achievement_pause_seconds :: real
  word_hunt_letters :: "string list"

record AppConfig =
  cfg_game :: GameConfig
  cfg_economy :: EconomyConfig
  cfg_spawn :: SpawnConfig
  cfg_audio :: AudioConfig
  cfg_gameplay :: GameplayConfig

definition GameConfig_default :: GameConfig where
  "GameConfig_default = \<lparr> screen_width = 800, screen_height = 600, fps = 60,
     max_distance = 100, lanes = [0, 1, 2],
     lane_pan = [0 \<mapsto> double_round (- (8 / 10)), 1 \<mapsto> 0, 2 \<mapsto> double_round (8 / 10)] \<rparr>"

definition EconomyConfig_default :: EconomyConfig where
  "EconomyConfig_default = \<lparr>
     powerup_base_duration = [''jetpack'' \<mapsto> 10, ''super_sneakers'' \<mapsto> 10,
       ''magnet'' \<mapsto> 10, ''multiplier'' \<mapsto> 10, ''hoverboard'' \<mapsto> 30],
     upgrade_costs = [''jetpack'' \<mapsto> 500, ''super_sneakers'' \<mapsto> 400,
       ''magnet'' \<mapsto> 450, ''multiplier'' \<mapsto> 600, ''hoverboard'' \<mapsto> 700],
     mystery_box_cost = 300 \<rparr>"

definition SpawnConfig_default :: SpawnConfig where
  "SpawnConfig_default = \<lparr> obstacle_rate = 2 / 100, powerup_rate = 1 / 100,
     letter_rate = 8 / 1000, season_token_rate = 5 / 1000, coin_rate = 5 / 100 \<rparr>"

definition AudioConfig_default :: AudioConfig where
  "AudioConfig_default = \<lparr> sound_dir_name = ''sounds'',
     default_music_volume = double_round (8 / 10),
     default_sfx_volume = double_round (9 / 10), mixer_channels = 32 \<rparr>"

definition GameplayConfig_default :: GameplayConfig where
  "GameplayConfig_default = \<lparr> base_speed = 25, jump_duration = 7 / 10,
     super_jump_duration = 1, roll_duration = 7 / 10, score_rate = 10,
     achievement_pause_seconds = 1 / 2,
     word_hunt_letters = [''H'', ''U'', ''N'', ''T''] \<rparr>"

definition AppConfig_default :: AppConfig where
  "AppConfig_default = \<lparr> cfg_game = GameConfig_default, cfg_economy = EconomyConfig_default,
     cfg_spawn = SpawnConfig_default, cfg_audio = AudioConfig_default,
     cfg_gameplay = GameplayConfig_default \<rparr>"

text \<open>\<^verbatim>\<open>d.get(k, default)\<close>\<close>

definition dict_get :: "('k \<rightharpoonup> 'v) \<Rightarrow> 'k \<Rightarrow> 'v \<Rightarrow> 'v" where
  "dict_get d k dflt = (case d k of Some v \<Rightarrow> v | None \<Rightarrow> dflt)"

subsection \<open>models.py: entities and the player\<close>

text \<open>
  A loop tag is a string; the tag \<^verbatim>\<open>f"obstacle_{id}"\<close> of an obstacle is kept as its
  number. \<open>truthy\<close> is Python's truth value of an optional tag.
\<close>

datatype loop_tag = Named_tag string | Obstacle_tag int

fun truthy :: "loop_tag option \<Rightarrow> bool" where
  "truthy None = False"
| "truthy (Some (Named_tag s)) = (s \<noteq> [])"
| "truthy (Some (Obstacle_tag n)) = True"

record Obstacle =
  o_lane :: int
  o_distance :: real
  o_kind :: string
  o_height :: string
  o_active :: bool
  o_sound_tag :: "loop_tag option"
  o_honk_played :: bool

record PowerUp =
  pu_lane :: int
  pu_distance :: real
  pu_kind :: string
  pu_active :: bool

record LetterCollectible =
  l_lane :: int
  l_distance :: real
  l_letter :: string
  l_active :: bool

record CoinCollectible =
  c_lane :: int
  c_distance :: real
  c_active :: bool

record Player =
  lane :: int
  jumping :: bool
  rolling :: bool
  jump_timer :: real
  roll_timer :: real
  super_sneakers :: bool
  jetpack :: bool
  hoverboard_active :: bool
  hoverboard_timer :: real

definition Player_init :: Player where
  "Player_init = \<lparr> lane = 1, jumping = False, rolling = False, jump_timer = 0,
     roll_timer = 0, super_sneakers = False, jetpack = False,
     hoverboard_active = False, hoverboard_timer = 0 \<rparr>"

definition move_left :: "Player \<Rightarrow> Player" where
  "move_left p = (if lane p > 0 then p\<lparr>lane := lane p - 1\<rparr> else p)"

definition move_right :: "Player \<Rightarrow> Player" where
  "move_right p = (if lane p < 2 then p\<lparr>lane := lane p + 1\<rparr> else p)"

definition jump :: "real \<Rightarrow> Player \<Rightarrow> Player" where
  "jump duration p = p\<lparr>jumping := True, jump_timer := duration\<rparr>"

definition roll :: "real \<Rightarrow> Player \<Rightarrow> Player" where
  "roll duration p = p\<lparr>rolling := True, roll_timer := duration\<rparr>"

text \<open>\<^verbatim>\<open>Player.update\<close>: three independent countdowns, one after the other.\<close>

definition update_jump :: "real \<Rightarrow> Player \<Rightarrow> Player" where
  "update_jump delta_seconds p =
     (if jumping p then
        (let p1 = p\<lparr>jump_timer := jump_timer p - delta_seconds\<rparr>
         in if jump_timer p1 \<le> 0 then p1\<lparr>jumping := False\<rparr> else p1)
      else p)"

definition update_roll :: "real \<Rightarrow> Player \<Rightarrow> Player" where
  "update_roll delta_seconds p =
     (if rolling p then
        (let p1 = p\<lparr>roll_timer := roll_timer p - delta_seconds\<rparr>
         in if roll_timer p1 \<le> 0 then p1\<lparr>rolling := False\<rparr> else p1)
      else p)"

definition update_hoverboard :: "real \<Rightarrow> Player \<Rightarrow> Player" where
  "update_hoverboard delta_seconds p =
     (if hoverboard_active p then
        (let p1 = p\<lparr>hoverboard_timer := hoverboard_timer p - delta_seconds\<rparr>
         in if hoverboard_timer p1 \<le> 0 then p1\<lparr>hoverboard_active := False\<rparr> else p1)
      else p)"

definition Player_update :: "real \<Rightarrow> Player \<Rightarrow> Player" where
  "Player_update delta_seconds p =
     update_hoverboard delta_seconds (update_roll delta_seconds (update_jump delta_seconds p))"






subsection \<open>audio.py: the calls on the audio and speech capabilities\<close>

text \<open>
  Each constructor is one call: \<^verbatim>\<open>play_sound(name, lane, distance)\<close>,
  \<^verbatim>\<open>start_loop(tag, name, lane, distance)\<close>, \<^verbatim>\<open>stop_loop(tag)\<close>,
  \<^verbatim>\<open>update_loop(tag, lane, distance)\<close>, \<^verbatim>\<open>update_loop_with_pan(tag, pan, distance)\<close>,
  the script's \<^verbatim>\<open>play_loop(name, lane)\<close>, \<^verbatim>\<open>stop_music()\<close>, \<^verbatim>\<open>tts.say(text)\<close> for a fixed text, the three formatted
  announcements, and \<^verbatim>\<open>time.sleep(seconds)\<close>.
\<close>

datatype achievement = High_Jumper | Gold_Digger | Marathon

datatype event =
    Play_sound string int real
  | Start_loop loop_tag string int real
  | Stop_loop loop_tag
  | Update_loop loop_tag int real
  | Update_loop_with_pan loop_tag real real
  | Play_loop string int
  | Stop_music
  | Say string
  | Say_game_over_score int
  | Say_you_collected string
  | Say_achievement_unlocked achievement
  | Sleep real

datatype py_error = ZeroDivisionError

text \<open>
  \<^verbatim>\<open>SoundManager._pan_to_stereo\<close> and \<^verbatim>\<open>SoundManager._distance_to_volume\<close>. \<^verbatim>\<open>max\<close>
  and \<^verbatim>\<open>min\<close> return one of their arguments and do not round.
\<close>

definition pan_to_stereo :: "real \<Rightarrow> real \<times> real" where
  "pan_to_stereo pan0 =
     (let pan = max (- 1) (min 1 pan0);
          left = fsub 1 (max 0 pan);
          right = fadd 1 (min 0 pan)
      in (max 0 (min 1 left), max 0 (min 1 right)))"

definition distance_to_volume :: "GameConfig \<Rightarrow> real \<Rightarrow> py_error + real" where
  "distance_to_volume cfg distance0 =
     (let distance = max 0 (min (max_distance cfg) distance0)
      in if max_distance cfg = 0 then Inl ZeroDivisionError
         else Inr (max 0 (fsub 1 (fdiv distance (max_distance cfg)))))"

text \<open>
  The pair handed to \<^verbatim>\<open>channel.set_volume\<close> by \<^verbatim>\<open>update_loop_with_pan\<close> (from a pan)
  and by \<^verbatim>\<open>play_sound\<close>, \<^verbatim>\<open>start_loop\<close> and \<^verbatim>\<open>update_loop\<close> (from a lane, through
  the configured \<^verbatim>\<open>lane_pan\<close> with default 0.0).
\<close>

definition pan_volumes :: "GameConfig \<Rightarrow> real \<Rightarrow> real \<Rightarrow> real \<Rightarrow> py_error + real \<times> real" where
  "pan_volumes cfg sfx_volume pan distance =
     (let (left, right) = pan_to_stereo pan
      in case distance_to_volume cfg distance of
           Inl e \<Rightarrow> Inl e
         | Inr v \<Rightarrow> (let volume = fmul v sfx_volume
                    in Inr (fmul left volume, fmul right volume)))"

definition lane_volumes :: "GameConfig \<Rightarrow> real \<Rightarrow> int \<Rightarrow> real \<Rightarrow> py_error + real \<times> real" where
  "lane_volumes cfg sfx_volume lane_no distance =
     pan_volumes cfg sfx_volume (dict_get (lane_pan cfg) lane_no 0) distance"

text \<open>The same two functions in \<^verbatim>\<open>blind_surfers.py\<close>, where \<^verbatim>\<open>MAX_DISTANCE = 100.0\<close>.\<close>

definition MAX_DISTANCE :: real where
  "MAX_DISTANCE = 100"

definition script_pan_to_stereo :: "real \<Rightarrow> real \<times> real" where
  "script_pan_to_stereo pan0 =
     (let pan = max (- 1) (min 1 pan0);
          left = (if pan \<le> 0 then 1 else fsub 1 pan);
          right = (if pan \<ge> 0 then 1 else fadd 1 pan)
      in (left, right))"

definition script_distance_to_volume :: "real \<Rightarrow> real" where
  "script_distance_to_volume distance0 =
     (let distance = max 0 (min MAX_DISTANCE distance0)
      in fsub 1 (fdiv distance MAX_DISTANCE))"

subsection \<open>systems.py: achievements\<close>

text \<open>
  The dictionary \<^verbatim>\<open>unlocked\<close> has the three keys it is built with and no other, so it
  is a total function on the three names; \<^verbatim>\<open>stats\<close> has the keys \<^verbatim>\<open>jumps\<close>,
  \<^verbatim>\<open>total_coins\<close> and \<^verbatim>\<open>score\<close>. \<^verbatim>\<open>unlock\<close> and \<^verbatim>\<open>check\<close> return the name, the
  new table and the calls made.
\<close>

record Stats =
  jumps :: int
  total_coins :: int
  st_score :: int

type_synonym unlocked_table = "achievement \<Rightarrow> bool"

definition unlocked_init :: unlocked_table where
  "unlocked_init = (\<lambda>_. False)"

definition unlock_events :: "achievement \<Rightarrow> event list" where
  "unlock_events name = [Play_sound ''achievement_unlock'' 1 0, Say_achievement_unlocked name]"

definition unlock :: "achievement \<Rightarrow> unlocked_table \<Rightarrow> achievement \<times> unlocked_table \<times> event list" where
  "unlock name u = (name, u(name := True), unlock_events name)"

definition check :: "Stats \<Rightarrow> unlocked_table \<Rightarrow> achievement option \<times> unlocked_table \<times> event list" where
  "check stats u =
     (if \<not> u High_Jumper \<and> jumps stats \<ge> 100 then
        (let (n, u', evs) = unlock High_Jumper u in (Some n, u', evs))
      else if \<not> u Gold_Digger \<and> total_coins stats \<ge> 5000 then
        (let (n, u', evs) = unlock Gold_Digger u in (Some n, u', evs))
      else if \<not> u Marathon \<and> st_score stats \<ge> 100000 then
        (let (n, u', evs) = unlock Marathon u in (Some n, u', evs))
      else (None, u, []))"

subsection \<open>systems.py: the economy\<close>

record Economy =
  e_config :: AppConfig
  coins :: int
  keys :: int
  mystery_boxes :: int
  powerup_durations :: "string \<rightharpoonup> real"

text \<open>The dataclass defaults followed by \<^verbatim>\<open>__post_init__\<close>.\<close>

definition Economy_init :: "AppConfig \<Rightarrow> Economy" where
  "Economy_init c = \<lparr> e_config = c, coins = 0, keys = 0, mystery_boxes = 0,
     powerup_durations = powerup_base_duration (cfg_economy c) \<rparr>"

definition upgrade_cost :: "Economy \<Rightarrow> string \<Rightarrow> int" where
  "upgrade_cost e powerup = dict_get (upgrade_costs (cfg_economy (e_config e))) powerup 0"

definition buy_upgrade :: "string \<Rightarrow> Economy \<Rightarrow> bool \<times> Economy" where
  "buy_upgrade powerup e =
     (let cost = upgrade_cost e powerup in
      if coins e \<ge> cost \<and> cost > 0 then
        (True, e\<lparr>coins := coins e - cost,
                 powerup_durations := (powerup_durations e)
                   (powerup \<mapsto> dict_get (powerup_durations e) powerup 10 + 5)\<rparr>)
      else (False, e))"


text \<open>
  \<^verbatim>\<open>open_mystery_box\<close>: the outcome of \<^verbatim>\<open>random.choice\<close> is the argument \<open>reward\<close>.
\<close>

definition open_mystery_box :: "string \<Rightarrow> Economy \<Rightarrow> string \<times> Economy" where
  "open_mystery_box reward e =
     (if mystery_boxes e \<le> 0 then (''None'', e)
      else
        (let e1 = e\<lparr>mystery_boxes := mystery_boxes e - 1\<rparr> in
         if reward = ''Coins'' then (reward, e1\<lparr>coins := coins e1 + 500\<rparr>)
         else if reward = ''Keys'' then (reward, e1\<lparr>keys := keys e1 + 1\<rparr>)
         else (reward, e1)))"


subsection \<open>systems.py: word hunt and season hunt\<close>

record WordHunt =
  wh_letters :: "string list"
  collected :: "string list"

definition WordHunt_init :: "string list \<Rightarrow> WordHunt" where
  "WordHunt_init ls = \<lparr> wh_letters = ls, collected = [] \<rparr>"

definition next_letter :: "WordHunt \<Rightarrow> string" where
  "next_letter w =
     (if wh_letters w = [] then ''''
      else wh_letters w ! (length (collected w) mod length (wh_letters w)))"

definition WordHunt_collect :: "string \<Rightarrow> WordHunt \<Rightarrow> bool \<times> WordHunt" where
  "WordHunt_collect letter w =
     (let w1 = w\<lparr>collected := collected w @ [letter]\<rparr>
      in if length (collected w1) = length (wh_letters w1)
         then (True, w1\<lparr>collected := []\<rparr>)
         else (False, w1))"

text \<open>Collecting letters one after the other, with the signal of each call.\<close>

fun collect_all :: "string list \<Rightarrow> WordHunt \<Rightarrow> bool list \<times> WordHunt" where
  "collect_all [] w = ([], w)"
| "collect_all (x # xs) w =
     (let (b, w1) = WordHunt_collect x w; (bs, w2) = collect_all xs w1 in (b # bs, w2))"

record SeasonHunt =
  tokens :: int

definition SeasonHunt_collect :: "SeasonHunt \<Rightarrow> SeasonHunt" where
  "SeasonHunt_collect s = s\<lparr>tokens := tokens s + 1\<rparr>"

text \<open>
  The letter pickup of \<^verbatim>\<open>blind_surfers.py\<close> (inside its \<^verbatim>\<open>update_letters\<close>): append,
  compare the whole progress with the target word, clear on equality.
\<close>

definition script_collect_letter :: "string \<Rightarrow> string list \<Rightarrow> string list \<Rightarrow> bool \<times> string list" where
  "script_collect_letter letter word_hunt word_progress =
     (let progress1 = word_progress @ [letter]
      in if progress1 = word_hunt then (True, []) else (False, progress1))"

fun script_collect_all :: "string list \<Rightarrow> string list \<Rightarrow> string list \<Rightarrow> bool list \<times> string list" where
  "script_collect_all [] word_hunt progress = ([], progress)"
| "script_collect_all (x # xs) word_hunt progress =
     (let (b, p1) = script_collect_letter x word_hunt progress;
          (bs, p2) = script_collect_all xs word_hunt p1
      in (b # bs, p2))"

subsection \<open>game.py: the game object\<close>

datatype GameState = MENU | RUNNING | GAME_OVER

text \<open>
  \<^verbatim>\<open>Game.__init__\<close> sets \<^verbatim>\<open>self.config = AppConfig()\<close>, a frozen dataclass that is never
  reassigned, so the configuration of a game is the default one. The fields of the game
  object that the run uses are kept; the menu objects of \<^verbatim>\<open>ui.py\<close>, the clock and the
  display flags are not part of the model. \<open>active_powerups\<close> is a dictionary whose
  iteration order (insertion order) decides the order of the teardowns, so it is an
  association list with \<open>AList.update\<close> for assignment and \<open>AList.delete\<close> for
  \<^verbatim>\<open>del\<close>.
\<close>

definition config :: AppConfig where
  "config = AppConfig_default"

record Game =
  state :: GameState
  player :: Player
  economy :: Economy
  word_hunt :: WordHunt
  season_hunt :: SeasonHunt
  unlocked :: unlocked_table
  running :: bool
  score :: int
  multiplier :: int
  speed :: real
  stats :: Stats
  obstacles :: "Obstacle list"
  powerups :: "PowerUp list"
  letters :: "LetterCollectible list"
  g_coins :: "CoinCollectible list"
  active_powerups :: "(string \<times> real) list"
  obstacle_id :: int
  events :: "event list"

definition Game_init :: Game where
  "Game_init = \<lparr> state = MENU, player = Player_init, economy = Economy_init config,
     word_hunt = WordHunt_init (word_hunt_letters (cfg_gameplay config)),
     season_hunt = \<lparr> tokens = 0 \<rparr>, unlocked = unlocked_init, running = True,
     score = 0, multiplier = 1, speed = base_speed (cfg_gameplay config),
     stats = \<lparr> jumps = 0, total_coins = 0, st_score = 0 \<rparr>,
     obstacles = [], powerups = [], letters = [], g_coins = [],
     active_powerups = [], obstacle_id = 0, events = [] \<rparr>"

definition emit :: "event \<Rightarrow> Game \<Rightarrow> Game" where
  "emit e g = g\<lparr>events := events g @ [e]\<rparr>"

definition reset_run :: "Game \<Rightarrow> Game" where
  "reset_run g =
     emit (Say ''Run started'')
       (g\<lparr>player := Player_init, score := 0, multiplier := 1,
          speed := base_speed (cfg_gameplay config),
          stats := (stats g)\<lparr>jumps := 0, st_score := 0\<rparr>,
          obstacles := [], powerups := [], letters := [], g_coins := [],
          active_powerups := [], state := RUNNING\<rparr>)"

definition handle_collision :: "Obstacle \<Rightarrow> Game \<Rightarrow> Game" where
  "handle_collision obstacle g =
     (if jetpack (player g) then g
      else if hoverboard_active (player g) then
        emit (Play_sound ''hoverboard_break'' (o_lane obstacle) 0)
          (g\<lparr>player := (player g)\<lparr>hoverboard_active := False\<rparr>\<rparr>)
      else
        (let g1 = g\<lparr>state := GAME_OVER\<rparr>;
             g2 = emit (Play_sound ''crash'' (o_lane obstacle) 0) g1;
             g3 = emit Stop_music g2;
             g4 = emit (Say_game_over_score (score g3)) g3
         in if keys (economy g4) > 0
            then emit (Say ''Press K to use a key and continue'') g4
            else g4))"

definition activate_powerup :: "PowerUp \<Rightarrow> Game \<Rightarrow> Game" where
  "activate_powerup powerup g =
     (let duration = dict_get (powerup_durations (economy g)) (pu_kind powerup) 10;
          g1 =
            (if pu_kind powerup = ''jetpack'' then
               emit (Start_loop (Named_tag ''jetpack'') ''jetpack_loop'' 1 0)
                 (g\<lparr>player := (player g)\<lparr>jetpack := True\<rparr>,
                    active_powerups := AList.update ''jetpack'' duration (active_powerups g)\<rparr>)
             else if pu_kind powerup = ''super_sneakers'' then
               g\<lparr>player := (player g)\<lparr>super_sneakers := True\<rparr>,
                 active_powerups := AList.update ''super_sneakers'' duration (active_powerups g)\<rparr>
             else if pu_kind powerup = ''magnet'' then
               emit (Start_loop (Named_tag ''magnet'') ''magnet_loop'' 1 0)
                 (g\<lparr>active_powerups := AList.update ''magnet'' duration (active_powerups g)\<rparr>)
             else if pu_kind powerup = ''multiplier'' then
               emit (Play_sound ''multiplier_on'' 1 0)
                 (g\<lparr>multiplier := 2,
                    active_powerups := AList.update ''multiplier'' duration (active_powerups g)\<rparr>)
             else if pu_kind powerup = ''hoverboard'' then
               emit (Play_sound ''hoverboard_on'' 1 0)
                 (g\<lparr>player := (player g)\<lparr>hoverboard_active := True,
                                          hoverboard_timer := duration\<rparr>\<rparr>)
             else if pu_kind powerup = ''season_token'' then
               emit (Say ''Season token collected'')
                 (g\<lparr>season_hunt := SeasonHunt_collect (season_hunt g)\<rparr>)
             else g)
      in emit (Play_sound ''powerup_collect'' (pu_lane powerup) 0) g1)"

text \<open>
  \<^verbatim>\<open>update_powerups\<close>. Its first loop subtracts the delta from every entry (a float
  subtraction, rounded) and lists
  the kinds whose remaining time is now at most zero (\<open>sweep\<close>); its second loop
  deletes each listed kind and runs the teardown of that kind (\<open>expire\<close> is the body).
\<close>

definition sweep :: "real \<Rightarrow> (string \<times> real) list \<Rightarrow> (string \<times> real) list \<times> string list" where
  "sweep delta_seconds ledger =
     (let ledger1 = map (\<lambda>(kind, remaining). (kind, fsub remaining delta_seconds)) ledger
      in (ledger1, map fst (filter (\<lambda>(kind, remaining). remaining \<le> 0) ledger1)))"

definition expire :: "string \<Rightarrow> Game \<Rightarrow> Game" where
  "expire kind g =
     (let g1 = g\<lparr>active_powerups := AList.delete kind (active_powerups g)\<rparr>
      in if kind = ''jetpack'' then
           emit (Stop_loop (Named_tag ''jetpack'')) (g1\<lparr>player := (player g1)\<lparr>jetpack := False\<rparr>\<rparr>)
         else if kind = ''super_sneakers'' then
           g1\<lparr>player := (player g1)\<lparr>super_sneakers := False\<rparr>\<rparr>
         else if kind = ''magnet'' then
           emit (Stop_loop (Named_tag ''magnet'')) g1
         else if kind = ''multiplier'' then
           g1\<lparr>multiplier := 1\<rparr>
         else g1)"

definition update_powerups :: "real \<Rightarrow> Game \<Rightarrow> Game" where
  "update_powerups delta_seconds g =
     (let (ledger1, expired) = sweep delta_seconds (active_powerups g)
      in fold expire expired (g\<lparr>active_powerups := ledger1\<rparr>))"

text \<open>
  \<^verbatim>\<open>update_obstacles\<close>: \<open>obstacle_step\<close> is the body of the loop for one obstacle,
  made of the sound update (\<open>obstacle_sound\<close>) and of the branch taken at distance
  \<open>\<le> 0\<close> (\<open>obstacle_arrival\<close>, which first stops the obstacle's loop); the loop
  threads the game through the list and the list comprehension keeps the active
  obstacles.
\<close>

definition obstacle_sound :: "Obstacle \<Rightarrow> Game \<Rightarrow> Obstacle \<times> Game" where
  "obstacle_sound obstacle g =
     (case o_sound_tag obstacle of
        None \<Rightarrow> (obstacle, g)
      | Some tag \<Rightarrow>
          if \<not> truthy (Some tag) then (obstacle, g)
          else if o_kind obstacle = ''train'' then
            (let pan = dict_get (lane_pan (cfg_game config)) (o_lane obstacle) 0;
                 progress = 1 - o_distance obstacle / max_distance (cfg_game config);
                 g1 = emit (Update_loop_with_pan tag (pan * progress) (o_distance obstacle)) g
             in if o_distance obstacle \<le> 20 \<and> \<not> o_honk_played obstacle then
                  (obstacle\<lparr>o_honk_played := True\<rparr>,
                   emit (Play_sound ''train_honk'' (o_lane obstacle) (o_distance obstacle)) g1)
                else (obstacle, g1))
          else (obstacle, emit (Update_loop tag (o_lane obstacle) (o_distance obstacle)) g))"

definition stop_obstacle_loop :: "Obstacle \<Rightarrow> Game \<Rightarrow> Game" where
  "stop_obstacle_loop obstacle g =
     (case o_sound_tag obstacle of
        None \<Rightarrow> g
      | Some tag \<Rightarrow> if truthy (Some tag) then emit (Stop_loop tag) g else g)"

definition obstacle_arrival :: "Obstacle \<Rightarrow> Game \<Rightarrow> Obstacle \<times> Game" where
  "obstacle_arrival obstacle g =
     (let o1 = obstacle\<lparr>o_active := False\<rparr>;
          g1 = stop_obstacle_loop o1 g
      in if o_lane o1 = lane (player g1) then
           (if o_height o1 = ''low'' \<and> jumping (player g1) then (o1, g1)
            else if o_height o1 = ''high'' \<and> rolling (player g1) then (o1, g1)
            else (o1, handle_collision o1 g1))
         else (o1, g1))"

definition obstacle_step :: "real \<Rightarrow> Obstacle \<Rightarrow> Game \<Rightarrow> Obstacle \<times> Game" where
  "obstacle_step delta_seconds obstacle g =
     (if \<not> o_active obstacle then (obstacle, g)
      else
        (let o1 = obstacle\<lparr>o_distance := o_distance obstacle - speed g * delta_seconds\<rparr>;
             (o2, g2) = obstacle_sound o1 g
         in if o_distance o2 \<le> 0 then obstacle_arrival o2 g2 else (o2, g2)))"

fun obstacles_loop :: "real \<Rightarrow> Obstacle list \<Rightarrow> Game \<Rightarrow> Obstacle list \<times> Game" where
  "obstacles_loop delta_seconds [] g = ([], g)"
| "obstacles_loop delta_seconds (obstacle # rest) g =
     (let (o1, g1) = obstacle_step delta_seconds obstacle g;
          (rest1, g2) = obstacles_loop delta_seconds rest g1
      in (o1 # rest1, g2))"

definition update_obstacles :: "real \<Rightarrow> Game \<Rightarrow> Game" where
  "update_obstacles delta_seconds g =
     (let (os, g1) = obstacles_loop delta_seconds (obstacles g) g
      in g1\<lparr>obstacles := filter o_active os\<rparr>)"

text \<open>\<^verbatim>\<open>update_powerup_objects\<close>, \<^verbatim>\<open>update_letters\<close> and \<^verbatim>\<open>update_coins\<close>, in the same way.\<close>

definition powerup_step :: "real \<Rightarrow> PowerUp \<Rightarrow> Game \<Rightarrow> PowerUp \<times> Game" where
  "powerup_step delta_seconds powerup g =
     (if \<not> pu_active powerup then (powerup, g)
      else
        (let p1 = powerup\<lparr>pu_distance := pu_distance powerup - speed g * delta_seconds\<rparr>
         in if pu_distance p1 \<le> 0 then
              (let p2 = p1\<lparr>pu_active := False\<rparr>
               in if pu_lane p2 = lane (player g) then (p2, activate_powerup p2 g) else (p2, g))
            else (p1, g)))"

fun powerups_loop :: "real \<Rightarrow> PowerUp list \<Rightarrow> Game \<Rightarrow> PowerUp list \<times> Game" where
  "powerups_loop delta_seconds [] g = ([], g)"
| "powerups_loop delta_seconds (powerup # rest) g =
     (let (p1, g1) = powerup_step delta_seconds powerup g;
          (rest1, g2) = powerups_loop delta_seconds rest g1
      in (p1 # rest1, g2))"

definition update_powerup_objects :: "real \<Rightarrow> Game \<Rightarrow> Game" where
  "update_powerup_objects delta_seconds g =
     (let (ps, g1) = powerups_loop delta_seconds (powerups g) g
      in g1\<lparr>powerups := filter pu_active ps\<rparr>)"

definition letter_step :: "real \<Rightarrow> LetterCollectible \<Rightarrow> Game \<Rightarrow> LetterCollectible \<times> Game" where
  "letter_step delta_seconds letter g =
     (if \<not> l_active letter then (letter, g)
      else
        (let l1 = letter\<lparr>l_distance := l_distance letter - speed g * delta_seconds\<rparr>
         in if l_distance l1 \<le> 0 then
              (let l2 = l1\<lparr>l_active := False\<rparr>
               in if l_lane l2 = lane (player g) then
                    (let (completed, w1) = WordHunt_collect (l_letter l2) (word_hunt g);
                         g1 = emit (Say_you_collected (l_letter l2)) (g\<lparr>word_hunt := w1\<rparr>)
                     in if completed then
                          (let g2 = emit (Say ''Word hunt complete'') g1
                           in (l2, g2\<lparr>economy := (economy g2)\<lparr>coins := coins (economy g2) + 500\<rparr>\<rparr>))
                        else (l2, g1))
                  else (l2, g))
            else (l1, g)))"

fun letters_loop :: "real \<Rightarrow> LetterCollectible list \<Rightarrow> Game \<Rightarrow> LetterCollectible list \<times> Game" where
  "letters_loop delta_seconds [] g = ([], g)"
| "letters_loop delta_seconds (letter # rest) g =
     (let (l1, g1) = letter_step delta_seconds letter g;
          (rest1, g2) = letters_loop delta_seconds rest g1
      in (l1 # rest1, g2))"

definition update_letters :: "real \<Rightarrow> Game \<Rightarrow> Game" where
  "update_letters delta_seconds g =
     (let (ls, g1) = letters_loop delta_seconds (letters g) g
      in g1\<lparr>letters := filter l_active ls\<rparr>)"

definition collect_coin :: "int \<Rightarrow> Game \<Rightarrow> Game" where
  "collect_coin lane_no g =
     emit (Play_sound ''coin_collect'' lane_no 0)
       (g\<lparr>economy := (economy g)\<lparr>coins := coins (economy g) + 1\<rparr>,
          stats := (stats g)\<lparr>total_coins := total_coins (stats g) + 1\<rparr>\<rparr>)"

definition magnet_active :: "Game \<Rightarrow> bool" where
  "magnet_active g = (''magnet'' \<in> fst ` set (active_powerups g))"

definition coin_step :: "real \<Rightarrow> CoinCollectible \<Rightarrow> Game \<Rightarrow> CoinCollectible \<times> Game" where
  "coin_step delta_seconds coin g =
     (if \<not> c_active coin then (coin, g)
      else
        (let c1 = coin\<lparr>c_distance := c_distance coin - speed g * delta_seconds\<rparr>
         in if c_distance c1 \<le> 0 then
              (let c2 = c1\<lparr>c_active := False\<rparr>
               in if c_lane c2 = lane (player g) \<or> magnet_active g
                  then (c2, collect_coin (c_lane c2) g)
                  else (c2, g))
            else (c1, g)))"

fun coins_loop :: "real \<Rightarrow> CoinCollectible list \<Rightarrow> Game \<Rightarrow> CoinCollectible list \<times> Game" where
  "coins_loop delta_seconds [] g = ([], g)"
| "coins_loop delta_seconds (coin # rest) g =
     (let (c1, g1) = coin_step delta_seconds coin g;
          (rest1, g2) = coins_loop delta_seconds rest g1
      in (c1 # rest1, g2))"

definition update_coins :: "real \<Rightarrow> Game \<Rightarrow> Game" where
  "update_coins delta_seconds g =
     (let (cs, g1) = coins_loop delta_seconds (g_coins g) g
      in g1\<lparr>g_coins := filter c_active cs\<rparr>)"

text \<open>Python's \<^verbatim>\<open>int(x)\<close> on a float truncates towards zero.\<close>

definition py_int :: "real \<Rightarrow> int" where
  "py_int x = (if 0 \<le> x then \<lfloor>x\<rfloor> else \<lceil>x\<rceil>)"

definition update_score :: "real \<Rightarrow> Game \<Rightarrow> Game" where
  "update_score delta_seconds g =
     (let s1 = score g +
            py_int (of_int (score_rate (cfg_gameplay config) * multiplier g) * delta_seconds * 60)
      in g\<lparr>score := s1, stats := (stats g)\<lparr>st_score := s1\<rparr>\<rparr>)"

definition continue_run_with_key :: "Game \<Rightarrow> Game" where
  "continue_run_with_key g =
     (if keys (economy g) \<le> 0 then g
      else
        (let g1 = g\<lparr>economy := (economy g)\<lparr>keys := keys (economy g) - 1\<rparr>\<rparr>;
             g2 = g1\<lparr>state := RUNNING\<rparr>;
             g3 = g2\<lparr>player := (player g2)\<lparr>hoverboard_active := True, hoverboard_timer := 3\<rparr>\<rparr>;
             g4 = emit (Play_sound ''hoverboard_on'' 1 0) g3
         in emit (Say ''Continuing run'') g4))"

text \<open>
  The spawn functions. What \<^verbatim>\<open>random.random()\<close> and \<^verbatim>\<open>random.choice\<close> return during
  one frame is an input, the record \<open>Draws\<close>.
\<close>

record Draws =
  obstacle_roll :: real
  obstacle_lane :: int
  obstacle_height :: string
  obstacle_kind :: string
  powerup_roll :: real
  powerup_lane :: int
  powerup_kind :: string
  letter_roll :: real
  letter_lane :: int
  token_roll :: real
  token_lane :: int
  coin_roll :: real
  coin_lane :: int

definition spawn_obstacle :: "Draws \<Rightarrow> Game \<Rightarrow> Game" where
  "spawn_obstacle d g =
     (let lane_no = obstacle_lane d; height = obstacle_height d; kind = obstacle_kind d;
          distance = max_distance (cfg_game config);
          g1 = g\<lparr>obstacle_id := obstacle_id g + 1\<rparr>;
          tag = Obstacle_tag (obstacle_id g1);
          obstacle = \<lparr> o_lane = lane_no, o_distance = distance, o_kind = kind, o_height = height,
                       o_active = True, o_sound_tag = Some tag, o_honk_played = False \<rparr>;
          g2 = g1\<lparr>obstacles := obstacles g1 @ [obstacle]\<rparr>
      in if kind = ''barrier'' then
           (let sound_name = (if height = ''low'' then ''barrier_low'' else ''barrier_high'')
            in emit (Start_loop tag sound_name lane_no distance) g2)
         else emit (Start_loop tag ''train_rumble'' 1 distance) g2)"

definition spawn_powerup :: "Draws \<Rightarrow> Game \<Rightarrow> Game" where
  "spawn_powerup d g =
     emit (Play_sound ''powerup_spawn'' (powerup_lane d) (max_distance (cfg_game config)))
       (g\<lparr>powerups := powerups g @
            [\<lparr> pu_lane = powerup_lane d, pu_distance = max_distance (cfg_game config),
               pu_kind = powerup_kind d, pu_active = True \<rparr>]\<rparr>)"

definition spawn_letter :: "Draws \<Rightarrow> Game \<Rightarrow> Game" where
  "spawn_letter d g =
     (let letter = next_letter (word_hunt g)
      in if letter = [] then g
         else emit (Play_sound ''letter_spawn'' (letter_lane d) (max_distance (cfg_game config)))
                (g\<lparr>letters := letters g @
                     [\<lparr> l_lane = letter_lane d, l_distance = max_distance (cfg_game config),
                        l_letter = letter, l_active = True \<rparr>]\<rparr>))"

definition spawn_coin :: "Draws \<Rightarrow> Game \<Rightarrow> Game" where
  "spawn_coin d g =
     emit (Play_sound ''coin_spawn'' (coin_lane d) (max_distance (cfg_game config)))
       (g\<lparr>g_coins := g_coins g @
            [\<lparr> c_lane = coin_lane d, c_distance = max_distance (cfg_game config),
               c_active = True \<rparr>]\<rparr>)"

definition spawn_season_token :: "Draws \<Rightarrow> Game \<Rightarrow> Game" where
  "spawn_season_token d g =
     emit (Play_sound ''season_token'' (token_lane d) (max_distance (cfg_game config)))
       (g\<lparr>powerups := powerups g @
            [\<lparr> pu_lane = token_lane d, pu_distance = max_distance (cfg_game config),
               pu_kind = ''season_token'', pu_active = True \<rparr>]\<rparr>)"

definition spawns :: "Draws \<Rightarrow> Game \<Rightarrow> Game" where
  "spawns d g =
     (let g1 = (if obstacle_roll d < obstacle_rate (cfg_spawn config) then spawn_obstacle d g else g);
          g2 = (if powerup_roll d < powerup_rate (cfg_spawn config) then spawn_powerup d g1 else g1);
          g3 = (if letter_roll d < letter_rate (cfg_spawn config) then spawn_letter d g2 else g2);
          g4 = (if token_roll d < season_token_rate (cfg_spawn config) then spawn_season_token d g3 else g3)
      in if coin_roll d < coin_rate (cfg_spawn config) then spawn_coin d g4 else g4)"

definition check_achievements :: "Game \<Rightarrow> Game" where
  "check_achievements g =
     (let (name, u1, evs) = check (stats g) (unlocked g);
          g1 = g\<lparr>unlocked := u1, events := events g @ evs\<rparr>
      in if name \<noteq> None
         then emit (Sleep (achievement_pause_seconds (cfg_gameplay config))) g1
         else g1)"

text \<open>\<^verbatim>\<open>Game.update\<close>: one frame.\<close>

definition update :: "real \<Rightarrow> Draws \<Rightarrow> Game \<Rightarrow> Game" where
  "update delta_seconds d g =
     (if state g \<noteq> RUNNING then g
      else
        (let g1 = g\<lparr>player := Player_update delta_seconds (player g)\<rparr>;
             g2 = update_powerups delta_seconds g1;
             g3 = update_obstacles delta_seconds g2;
             g4 = update_powerup_objects delta_seconds g3;
             g5 = update_letters delta_seconds g4;
             g6 = update_coins delta_seconds g5;
             g7 = update_score delta_seconds g6;
             g8 = spawns d g7
         in check_achievements g8))"

text \<open>
  The calls that \<^verbatim>\<open>handle_collision\<close> makes (the shield-break cue, the crash cue,
  stopping the music, the two announcements), as they appear in a log.
\<close>

fun collision_event :: "event \<Rightarrow> bool" where
  "collision_event (Play_sound name lane_no distance) =
     (name = ''crash'' \<or> name = ''hoverboard_break'')"
| "collision_event Stop_music = True"
| "collision_event (Say_game_over_score n) = True"
| "collision_event (Say text) = (text = ''Press K to use a key and continue'')"
| "collision_event e = False"

definition collision_events :: "Game \<Rightarrow> event list" where
  "collision_events g = filter collision_event (events g)"


definition key_hint :: "Game \<Rightarrow> event list" where
  "key_hint g =
     (if 0 < keys (economy g) then [Say ''Press K to use a key and continue''] else [])"

text \<open>Concrete values: a run just started, and a low barrier arriving in the middle lane.\<close>

definition running_game :: Game where
  "running_game = reset_run Game_init"

definition low_barrier :: Obstacle where
  "low_barrier = \<lparr> o_lane = 1, o_distance = 1 / 4, o_kind = ''barrier'', o_height = ''low'',
     o_active = True, o_sound_tag = Some (Obstacle_tag 1), o_honk_played = False \<rparr>"

text \<open>
  A coin arrives in a frame when it is active and the frame's movement brings it to
  distance \<open>\<le> 0\<close>; \<open>coin_collected\<close> is the test \<^verbatim>\<open>update_coins\<close> then applies.
\<close>

definition coin_arrives :: "real \<Rightarrow> Game \<Rightarrow> CoinCollectible \<Rightarrow> bool" where
  "coin_arrives dt g coin = (c_active coin \<and> c_distance coin - speed g * dt \<le> 0)"

definition coin_collected :: "real \<Rightarrow> Game \<Rightarrow> CoinCollectible \<Rightarrow> bool" where
  "coin_collected dt g coin =
     (coin_arrives dt g coin \<and> (c_lane coin = lane (player g) \<or> magnet_active g))"

text \<open>The frame up to the call of \<^verbatim>\<open>update_coins\<close>.\<close>

definition before_coins :: "real \<Rightarrow> Game \<Rightarrow> Game" where
  "before_coins dt g =
     update_letters dt (update_powerup_objects dt (update_obstacles dt
       (update_powerups dt (g\<lparr>player := Player_update dt (player g)\<rparr>))))"

text \<open>What the coin test reads, and the count of collected coins, are the same in two games.\<close>

definition coin_frame :: "Game \<Rightarrow> Game \<Rightarrow> bool" where
  "coin_frame g g' =
     (total_coins (stats g') = total_coins (stats g) \<and> g_coins g' = g_coins g \<and>
      speed g' = speed g \<and> lane (player g') = lane (player g))"

text \<open>
  Successive expiry sweeps, one per delta, and the kinds whose teardown ran during them
  (one entry for each execution of the body of the second loop of
  \<^verbatim>\<open>update_powerups\<close>), in order.
\<close>

fun sweeps :: "real list \<Rightarrow> Game \<Rightarrow> Game" where
  "sweeps [] g = g"
| "sweeps (dt # dts) g = sweeps dts (update_powerups dt g)"

fun teardowns :: "real list \<Rightarrow> Game \<Rightarrow> string list" where
  "teardowns [] g = []"
| "teardowns (dt # dts) g =
     snd (sweep dt (active_powerups g)) @ teardowns dts (update_powerups dt g)"

text \<open>
  The countdown of one entry, as the first loop of \<^verbatim>\<open>update_powerups\<close> computes it:
  \<open>expires_within d dts\<close> says that an entry holding \<open>d\<close> is found at or below zero
  during the sweeps \<open>dts\<close>, and \<open>countdown d dts\<close> is what it holds after them
  otherwise. Each subtraction is rounded.
\<close>

fun expires_within :: "real \<Rightarrow> real list \<Rightarrow> bool" where
  "expires_within d [] = False"
| "expires_within d (dt # dts) = (fsub d dt \<le> 0 \<or> expires_within (fsub d dt) dts)"

fun countdown :: "real \<Rightarrow> real list \<Rightarrow> real" where
  "countdown d [] = d"
| "countdown d (dt # dts) = countdown (fsub d dt) dts"

definition teardown_events :: "string \<Rightarrow> event list" where
  "teardown_events kind =
     (if kind = ''jetpack'' then [Stop_loop (Named_tag ''jetpack'')]
      else if kind = ''magnet'' then [Stop_loop (Named_tag ''magnet'')]
      else [])"

definition ledger_keys :: "Game \<Rightarrow> string set" where
  "ledger_keys g = fst ` set (active_powerups g)"

text \<open>
  The ledger and the effects agree: the jetpack and super-sneakers entries exist exactly
  when the player's flags are set, the multiplier entry exactly when the multiplier is
  2 (it is 1 otherwise), and no kind has two entries. The magnet has no flag: its effect
  on coins is the presence of its entry (\<open>magnet_active\<close>).
\<close>

definition ledger_matches :: "Game \<Rightarrow> bool" where
  "ledger_matches g =
     (((''jetpack'' \<in> ledger_keys g) = jetpack (player g)) \<and>
      ((''super_sneakers'' \<in> ledger_keys g) = super_sneakers (player g)) \<and>
      ((''multiplier'' \<in> ledger_keys g) = (multiplier g = 2)) \<and>
      (multiplier g = 1 \<or> multiplier g = 2) \<and>
      distinct (map fst (active_powerups g)))"

text \<open>
  The key presses of \<^verbatim>\<open>handle_input\<close> during a run, the purchases of
  \<^verbatim>\<open>handle_menu_action\<close>, and the states a game reaches through them, through frames,
  restarts, continuing with a key and leaving a finished run for the menu.
\<close>

definition press_left :: "Game \<Rightarrow> Game" where
  "press_left g =
     (let g1 = g\<lparr>player := move_left (player g)\<rparr>
      in emit (Play_sound ''swoosh'' (lane (player g1)) 0) g1)"

definition press_right :: "Game \<Rightarrow> Game" where
  "press_right g =
     (let g1 = g\<lparr>player := move_right (player g)\<rparr>
      in emit (Play_sound ''swoosh'' (lane (player g1)) 0) g1)"

definition press_up :: "Game \<Rightarrow> Game" where
  "press_up g =
     (let duration = (if super_sneakers (player g)
                      then super_jump_duration (cfg_gameplay config)
                      else jump_duration (cfg_gameplay config));
          g1 = g\<lparr>player := jump duration (player g)\<rparr>;
          g2 = g1\<lparr>stats := (stats g1)\<lparr>jumps := jumps (stats g1) + 1\<rparr>\<rparr>;
          sound = (if super_sneakers (player g2) then ''super_jump'' else ''jump'')
      in emit (Play_sound sound (lane (player g2)) 0) g2)"

definition press_down :: "Game \<Rightarrow> Game" where
  "press_down g =
     (let g1 = g\<lparr>player := roll (roll_duration (cfg_gameplay config)) (player g)\<rparr>
      in emit (Play_sound ''roll'' (lane (player g1)) 0) g1)"

definition handle_upgrade :: "string \<Rightarrow> Game \<Rightarrow> Game" where
  "handle_upgrade powerup g =
     (let (ok, e1) = buy_upgrade powerup (economy g);
          g1 = g\<lparr>economy := e1\<rparr>
      in if ok then emit (Say ''Upgrade purchased'') g1 else emit (Say ''Not enough coins'') g1)"

inductive reachable :: "Game \<Rightarrow> bool" where
  start: "reachable Game_init"
| restart: "reachable g \<Longrightarrow> reachable (reset_run g)"
| frame: "reachable g \<Longrightarrow> reachable (update dt d g)"
| continue: "reachable g \<Longrightarrow> reachable (continue_run_with_key g)"
| to_menu: "reachable g \<Longrightarrow> reachable (g\<lparr>state := MENU\<rparr>)"
| left: "reachable g \<Longrightarrow> reachable (press_left g)"
| right: "reachable g \<Longrightarrow> reachable (press_right g)"
| up: "reachable g \<Longrightarrow> reachable (press_up g)"
| down: "reachable g \<Longrightarrow> reachable (press_down g)"
| upgrade: "reachable g \<Longrightarrow> reachable (handle_upgrade powerup g)"

text \<open>Two games with the same ledger, the same two flags and the same multiplier.\<close>

definition ledger_frame :: "Game \<Rightarrow> Game \<Rightarrow> bool" where
  "ledger_frame g g' =
     (active_powerups g' = active_powerups g \<and>
      jetpack (player g') = jetpack (player g) \<and>
      super_sneakers (player g') = super_sneakers (player g) \<and>
      multiplier g' = multiplier g)"

subsection \<open>blind_surfers.py: the frame update of the standalone script\<close>

text \<open>
  The script has its own \<^verbatim>\<open>Game\<close> class, with the flags \<^verbatim>\<open>in_game\<close> and
  \<^verbatim>\<open>game_over\<close> for the state, no coin entities and no configuration object. Its
  \<^verbatim>\<open>Player\<close>, \<^verbatim>\<open>PowerUp\<close>, \<^verbatim>\<open>LetterCollectible\<close> and \<^verbatim>\<open>AchievementSystem\<close> are those of
  the package; its obstacles have no sound tag.
\<close>

record script_Obstacle =
  so_lane :: int
  so_distance :: real
  so_kind :: string
  so_height :: string
  so_active :: bool

record script_Economy =
  s_coins :: int
  s_keys :: int
  s_mystery_boxes :: int
  s_powerup_durations :: "string \<rightharpoonup> real"

record script_Game =
  s_economy :: script_Economy
  s_player :: Player
  s_running :: bool
  in_game :: bool
  game_over :: bool
  s_score :: int
  s_multiplier :: int
  s_speed :: real
  s_stats :: Stats
  s_obstacles :: "script_Obstacle list"
  s_powerups :: "PowerUp list"
  s_letters :: "LetterCollectible list"
  s_word_hunt :: "string list"
  word_progress :: "string list"
  season_tokens :: int
  s_active_powerups :: "(string \<times> real) list"
  s_unlocked :: unlocked_table
  s_events :: "event list"

definition script_Game_init :: script_Game where
  "script_Game_init = \<lparr>
     s_economy = \<lparr> s_coins = 0, s_keys = 0, s_mystery_boxes = 0,
       s_powerup_durations = [''jetpack'' \<mapsto> 10, ''super_sneakers'' \<mapsto> 10,
         ''magnet'' \<mapsto> 10, ''multiplier'' \<mapsto> 10, ''hoverboard'' \<mapsto> 30] \<rparr>,
     s_player = Player_init, s_running = True, in_game = False, game_over = False,
     s_score = 0, s_multiplier = 1, s_speed = 25,
     s_stats = \<lparr> jumps = 0, total_coins = 0, st_score = 0 \<rparr>,
     s_obstacles = [], s_powerups = [], s_letters = [],
     s_word_hunt = [''H'', ''U'', ''N'', ''T''], word_progress = [], season_tokens = 0,
     s_active_powerups = [], s_unlocked = unlocked_init, s_events = [] \<rparr>"

definition s_emit :: "event \<Rightarrow> script_Game \<Rightarrow> script_Game" where
  "s_emit e g = g\<lparr>s_events := s_events g @ [e]\<rparr>"

definition script_reset_run :: "script_Game \<Rightarrow> script_Game" where
  "script_reset_run g =
     s_emit (Say ''Run started'')
       (g\<lparr>s_player := Player_init, s_score := 0, s_multiplier := 1, s_speed := 25,
          s_stats := (s_stats g)\<lparr>jumps := 0, st_score := 0\<rparr>,
          s_obstacles := [], s_powerups := [], s_letters := [], word_progress := [],
          s_active_powerups := [], game_over := False, in_game := True\<rparr>)"

definition script_handle_collision :: "script_Obstacle \<Rightarrow> script_Game \<Rightarrow> script_Game" where
  "script_handle_collision obstacle g =
     (if jetpack (s_player g) then g
      else if hoverboard_active (s_player g) then
        s_emit (Play_sound ''hoverboard_break'' (so_lane obstacle) 0)
          (g\<lparr>s_player := (s_player g)\<lparr>hoverboard_active := False\<rparr>\<rparr>)
      else
        (let g1 = g\<lparr>game_over := True, in_game := False\<rparr>;
             g2 = s_emit (Play_sound ''crash'' (so_lane obstacle) 0) g1;
             g3 = s_emit Stop_music g2
         in s_emit (Say_game_over_score (s_score g3)) g3))"

definition script_activate_powerup :: "PowerUp \<Rightarrow> script_Game \<Rightarrow> script_Game" where
  "script_activate_powerup powerup g =
     (let duration = dict_get (s_powerup_durations (s_economy g)) (pu_kind powerup) 10;
          g1 =
            (if pu_kind powerup = ''jetpack'' then
               s_emit (Play_loop ''jetpack_loop'' 1)
                 (g\<lparr>s_player := (s_player g)\<lparr>jetpack := True\<rparr>,
                    s_active_powerups := AList.update ''jetpack'' duration (s_active_powerups g)\<rparr>)
             else if pu_kind powerup = ''super_sneakers'' then
               g\<lparr>s_player := (s_player g)\<lparr>super_sneakers := True\<rparr>,
                 s_active_powerups :=
                   AList.update ''super_sneakers'' duration (s_active_powerups g)\<rparr>
             else if pu_kind powerup = ''magnet'' then
               s_emit (Play_loop ''magnet_loop'' 1)
                 (g\<lparr>s_active_powerups := AList.update ''magnet'' duration (s_active_powerups g)\<rparr>)
             else if pu_kind powerup = ''multiplier'' then
               s_emit (Play_sound ''multiplier_on'' 1 0)
                 (g\<lparr>s_multiplier := 2,
                    s_active_powerups := AList.update ''multiplier'' duration (s_active_powerups g)\<rparr>)
             else if pu_kind powerup = ''hoverboard'' then
               s_emit (Play_sound ''hoverboard_on'' 1 0)
                 (g\<lparr>s_player := (s_player g)\<lparr>hoverboard_active := True,
                                              hoverboard_timer := duration\<rparr>\<rparr>)
             else if pu_kind powerup = ''season_token'' then
               s_emit (Say ''Season token collected'') (g\<lparr>season_tokens := season_tokens g + 1\<rparr>)
             else g)
      in s_emit (Play_sound ''powerup_collect'' (pu_lane powerup) 0) g1)"

definition script_expire :: "string \<Rightarrow> script_Game \<Rightarrow> script_Game" where
  "script_expire kind g =
     (let g1 = g\<lparr>s_active_powerups := AList.delete kind (s_active_powerups g)\<rparr>
      in if kind = ''jetpack'' then
           s_emit (Stop_loop (Named_tag ''jetpack_loop''))
             (g1\<lparr>s_player := (s_player g1)\<lparr>jetpack := False\<rparr>\<rparr>)
         else if kind = ''super_sneakers'' then
           g1\<lparr>s_player := (s_player g1)\<lparr>super_sneakers := False\<rparr>\<rparr>
         else if kind = ''magnet'' then
           s_emit (Stop_loop (Named_tag ''magnet_loop'')) g1
         else if kind = ''multiplier'' then
           g1\<lparr>s_multiplier := 1\<rparr>
         else g1)"

definition script_update_powerups :: "real \<Rightarrow> script_Game \<Rightarrow> script_Game" where
  "script_update_powerups dt g =
     (let (ledger1, expired) = sweep dt (s_active_powerups g)
      in fold script_expire expired (g\<lparr>s_active_powerups := ledger1\<rparr>))"

definition script_obstacle_step :: "real \<Rightarrow> script_Obstacle \<Rightarrow> script_Game \<Rightarrow> script_Obstacle \<times> script_Game" where
  "script_obstacle_step dt obstacle g =
     (if \<not> so_active obstacle then (obstacle, g)
      else
        (let o1 = obstacle\<lparr>so_distance := so_distance obstacle - s_speed g * dt\<rparr>;
             g1 =
               (if so_kind o1 = ''barrier'' then
                  (let sound_name = (if so_height o1 = ''low'' then ''barrier_low'' else ''barrier_high'')
                   in s_emit (Play_sound sound_name (so_lane o1) (so_distance o1)) g)
                else
                  (let g0 = s_emit (Play_sound ''train_rumble'' 1 (so_distance o1)) g;
                       pan_lane = (if so_lane o1 = 0 then 0 else 2)
                   in s_emit (Play_sound ''train_honk'' pan_lane (so_distance o1)) g0))
         in if so_distance o1 \<le> 0 then
              (let o2 = o1\<lparr>so_active := False\<rparr>
               in if so_lane o2 = lane (s_player g1) then
                    (if so_height o2 = ''low'' \<and> jumping (s_player g1) then (o2, g1)
                     else if so_height o2 = ''high'' \<and> rolling (s_player g1) then (o2, g1)
                     else (o2, script_handle_collision o2 g1))
                  else (o2, g1))
            else (o1, g1)))"

fun script_obstacles_loop :: "real \<Rightarrow> script_Obstacle list \<Rightarrow> script_Game \<Rightarrow> script_Obstacle list \<times> script_Game" where
  "script_obstacles_loop dt [] g = ([], g)"
| "script_obstacles_loop dt (obstacle # rest) g =
     (let (o1, g1) = script_obstacle_step dt obstacle g;
          (rest1, g2) = script_obstacles_loop dt rest g1
      in (o1 # rest1, g2))"

definition script_update_obstacles :: "real \<Rightarrow> script_Game \<Rightarrow> script_Game" where
  "script_update_obstacles dt g =
     (let (os, g1) = script_obstacles_loop dt (s_obstacles g) g
      in g1\<lparr>s_obstacles := filter so_active os\<rparr>)"

definition script_powerup_step :: "real \<Rightarrow> PowerUp \<Rightarrow> script_Game \<Rightarrow> PowerUp \<times> script_Game" where
  "script_powerup_step dt powerup g =
     (if \<not> pu_active powerup then (powerup, g)
      else
        (let p1 = powerup\<lparr>pu_distance := pu_distance powerup - s_speed g * dt\<rparr>
         in if pu_distance p1 \<le> 0 then
              (let p2 = p1\<lparr>pu_active := False\<rparr>
               in if pu_lane p2 = lane (s_player g)
                  then (p2, script_activate_powerup p2 g) else (p2, g))
            else (p1, g)))"

fun script_powerups_loop :: "real \<Rightarrow> PowerUp list \<Rightarrow> script_Game \<Rightarrow> PowerUp list \<times> script_Game" where
  "script_powerups_loop dt [] g = ([], g)"
| "script_powerups_loop dt (powerup # rest) g =
     (let (p1, g1) = script_powerup_step dt powerup g;
          (rest1, g2) = script_powerups_loop dt rest g1
      in (p1 # rest1, g2))"

definition script_update_powerup_objects :: "real \<Rightarrow> script_Game \<Rightarrow> script_Game" where
  "script_update_powerup_objects dt g =
     (let (ps, g1) = script_powerups_loop dt (s_powerups g) g
      in g1\<lparr>s_powerups := filter pu_active ps\<rparr>)"

definition script_letter_step :: "real \<Rightarrow> LetterCollectible \<Rightarrow> script_Game \<Rightarrow> LetterCollectible \<times> script_Game" where
  "script_letter_step dt letter g =
     (if \<not> l_active letter then (letter, g)
      else
        (let l1 = letter\<lparr>l_distance := l_distance letter - s_speed g * dt\<rparr>
         in if l_distance l1 \<le> 0 then
              (let l2 = l1\<lparr>l_active := False\<rparr>
               in if l_lane l2 = lane (s_player g) then
                    (let (completed, progress1) =
                           script_collect_letter (l_letter l2) (s_word_hunt g) (word_progress g);
                         g1 = s_emit (Say_you_collected (l_letter l2))
                                (g\<lparr>word_progress := word_progress g @ [l_letter l2]\<rparr>)
                     in if completed then
                          (let g2 = s_emit (Say ''Word hunt complete'') g1;
                               g3 = g2\<lparr>s_economy := (s_economy g2)\<lparr>s_coins := s_coins (s_economy g2) + 500\<rparr>\<rparr>
                           in (l2, g3\<lparr>word_progress := progress1\<rparr>))
                        else (l2, g1))
                  else (l2, g))
            else (l1, g)))"

fun script_letters_loop :: "real \<Rightarrow> LetterCollectible list \<Rightarrow> script_Game \<Rightarrow> LetterCollectible list \<times> script_Game" where
  "script_letters_loop dt [] g = ([], g)"
| "script_letters_loop dt (letter # rest) g =
     (let (l1, g1) = script_letter_step dt letter g;
          (rest1, g2) = script_letters_loop dt rest g1
      in (l1 # rest1, g2))"

definition script_update_letters :: "real \<Rightarrow> script_Game \<Rightarrow> script_Game" where
  "script_update_letters dt g =
     (let (ls, g1) = script_letters_loop dt (s_letters g) g
      in g1\<lparr>s_letters := filter l_active ls\<rparr>)"

definition script_update_score :: "real \<Rightarrow> script_Game \<Rightarrow> script_Game" where
  "script_update_score dt g =
     (let s1 = s_score g + py_int (of_int (10 * s_multiplier g) * dt * 60)
      in g\<lparr>s_score := s1, s_stats := (s_stats g)\<lparr>st_score := s1\<rparr>\<rparr>)"

definition script_collect_coin :: "int \<Rightarrow> script_Game \<Rightarrow> script_Game" where
  "script_collect_coin lane_no g =
     s_emit (Play_sound ''coin_collect'' lane_no 0)
       (g\<lparr>s_economy := (s_economy g)\<lparr>s_coins := s_coins (s_economy g) + 1\<rparr>,
          s_stats := (s_stats g)\<lparr>total_coins := total_coins (s_stats g) + 1\<rparr>\<rparr>)"

definition script_spawn_obstacle :: "Draws \<Rightarrow> script_Game \<Rightarrow> script_Game" where
  "script_spawn_obstacle d g =
     (let lane_no = obstacle_lane d; height = obstacle_height d; kind = obstacle_kind d;
          distance = MAX_DISTANCE;
          g1 = g\<lparr>s_obstacles := s_obstacles g @
                 [\<lparr> so_lane = lane_no, so_distance = distance, so_kind = kind,
                    so_height = height, so_active = True \<rparr>]\<rparr>
      in if kind = ''barrier'' then
           (if height = ''low'' then s_emit (Play_sound ''barrier_low'' lane_no distance) g1
            else s_emit (Play_sound ''barrier_high'' lane_no distance) g1)
         else s_emit (Play_sound ''train_rumble'' 1 distance) g1)"

definition script_spawn_powerup :: "Draws \<Rightarrow> script_Game \<Rightarrow> script_Game" where
  "script_spawn_powerup d g =
     s_emit (Play_sound ''powerup_spawn'' (powerup_lane d) MAX_DISTANCE)
       (g\<lparr>s_powerups := s_powerups g @
            [\<lparr> pu_lane = powerup_lane d, pu_distance = MAX_DISTANCE,
               pu_kind = powerup_kind d, pu_active = True \<rparr>]\<rparr>)"

definition script_spawn_letter :: "Draws \<Rightarrow> script_Game \<Rightarrow> script_Game" where
  "script_spawn_letter d g =
     (if s_word_hunt g = [] then g
      else
        (let letter = s_word_hunt g ! (length (word_progress g) mod length (s_word_hunt g))
         in s_emit (Play_sound ''letter_spawn'' (letter_lane d) MAX_DISTANCE)
              (g\<lparr>s_letters := s_letters g @
                   [\<lparr> l_lane = letter_lane d, l_distance = MAX_DISTANCE,
                      l_letter = letter, l_active = True \<rparr>]\<rparr>)))"

definition script_spawn_season_token :: "Draws \<Rightarrow> script_Game \<Rightarrow> script_Game" where
  "script_spawn_season_token d g =
     s_emit (Play_sound ''season_token'' (token_lane d) MAX_DISTANCE)
       (g\<lparr>s_powerups := s_powerups g @
            [\<lparr> pu_lane = token_lane d, pu_distance = MAX_DISTANCE,
               pu_kind = ''season_token'', pu_active = True \<rparr>]\<rparr>)"

definition script_spawns :: "Draws \<Rightarrow> script_Game \<Rightarrow> script_Game" where
  "script_spawns d g =
     (let g1 = (if obstacle_roll d < 2 / 100 then script_spawn_obstacle d g else g);
          g2 = (if powerup_roll d < 1 / 100 then script_spawn_powerup d g1 else g1);
          g3 = (if letter_roll d < 8 / 1000 then script_spawn_letter d g2 else g2)
      in if token_roll d < 5 / 1000 then script_spawn_season_token d g3 else g3)"

definition script_magnet :: "script_Game \<Rightarrow> script_Game" where
  "script_magnet g =
     (if ''magnet'' \<in> fst ` set (s_active_powerups g)
      then script_collect_coin (lane (s_player g)) g else g)"

definition script_check_achievements :: "script_Game \<Rightarrow> script_Game" where
  "script_check_achievements g =
     (let (name, u1, evs) = check (s_stats g) (s_unlocked g);
          g1 = g\<lparr>s_unlocked := u1, s_events := s_events g @ evs\<rparr>
      in if name \<noteq> None then s_emit (Sleep (1 / 2)) g1 else g1)"

text \<open>
  \<^verbatim>\<open>Game.update\<close> of the script: after the spawns, when a magnet is in the ledger, one
  coin is collected in the player's lane, in every frame.
\<close>

definition script_update :: "real \<Rightarrow> Draws \<Rightarrow> script_Game \<Rightarrow> script_Game" where
  "script_update dt d g =
     (if \<not> in_game g then g
      else
        (let g1 = g\<lparr>s_player := Player_update dt (s_player g)\<rparr>;
             g2 = script_update_powerups dt g1;
             g3 = script_update_obstacles dt g2;
             g4 = script_update_powerup_objects dt g3;
             g5 = script_update_letters dt g4;
             g6 = script_update_score dt g5;
             g7 = script_spawns d g6;
             g8 = script_magnet g7
         in script_check_achievements g8))"

text \<open>Concrete values: a frame in which nothing is spawned, and a run with a magnet.\<close>

definition no_spawn :: Draws where
  "no_spawn = \<lparr> obstacle_roll = 1, obstacle_lane = 1, obstacle_height = ''low'',
     obstacle_kind = ''barrier'', powerup_roll = 1, powerup_lane = 1,
     powerup_kind = ''magnet'', letter_roll = 1, letter_lane = 1, token_roll = 1,
     token_lane = 1, coin_roll = 1, coin_lane = 1 \<rparr>"

definition script_magnet_run :: script_Game where
  "script_magnet_run = (script_reset_run script_Game_init)\<lparr>s_active_powerups := [(''magnet'', 10)]\<rparr>"

definition magnet_run :: Game where
  "magnet_run = running_game\<lparr>active_powerups := [(''magnet'', 10)]\<rparr>"

definition left_coin :: CoinCollectible where
  "left_coin = \<lparr> c_lane = 0, c_distance = 1 / 4, c_active = True \<rparr>"

section \<open>Properties\<close>

subsection \<open>Binary64 rounding\<close>

lemma round_even_bounds: "\<lfloor>q\<rfloor> \<le> round_even q" "round_even q \<le> \<lfloor>q\<rfloor> + 1"
  by (simp_all add: round_even_def Let_def)

lemma floor_log2_scaled:
  assumes "2 ^ 52 \<le> \<bar>x\<bar> * 2 ^ n" "\<bar>x\<bar> * 2 ^ n < 2 ^ 53"
  shows "\<lfloor>log 2 \<bar>x\<bar>\<rfloor> = 52 - int n"
proof -
  have pos: "0 < \<bar>x\<bar>" using assms(1) by (smt (verit) mult_not_zero zero_less_power abs_ge_zero)
  have p: "(2::real) powr real_of_int (52 - int n) = 2 ^ 52 / 2 ^ n"
    by (simp add: powr_diff powr_realpow flip: powr_realpow)
  have q: "(2::real) powr real_of_int (52 - int n + 1) = 2 ^ 53 / 2 ^ n"
    by (simp add: powr_diff powr_realpow flip: powr_realpow)
  have a: "2 ^ 52 / 2 ^ n \<le> \<bar>x\<bar>" using assms(1) by (simp add: divide_le_eq)
  have b: "\<bar>x\<bar> < 2 ^ 53 / 2 ^ n" using assms(2) by (simp add: less_divide_eq)
  show ?thesis
    using floor_log_eq_powr_iff [of "\<bar>x\<bar>" 2 "52 - int n"] pos a b p q by simp
qed

lemma double_round_scaled:
  assumes "2 ^ 52 \<le> \<bar>x\<bar> * 2 ^ n" "\<bar>x\<bar> * 2 ^ n < 2 ^ 53"
  shows "double_round x = of_int (round_even (x * 2 ^ n)) / 2 ^ n"
proof -
  have nz: "x \<noteq> 0" using assms(1) by auto
  have u: "(2::real) powr (of_int \<lfloor>log 2 \<bar>x\<bar>\<rfloor> - 52) = 1 / 2 ^ n"
    using floor_log2_scaled [OF assms] by (simp add: powr_minus powr_realpow divide_simps)
  show ?thesis using nz by (simp add: double_round_def Let_def u)
qed


lemma ulp_pos: "0 < (2::real) powr y"
  by simp

lemma floor_log2_le: "0 < x \<Longrightarrow> 2 powr of_int \<lfloor>log 2 x\<rfloor> \<le> x"
proof -
  assume p: "0 < x"
  have "2 powr of_int \<lfloor>log 2 x\<rfloor> \<le> 2 powr log 2 x" by (simp add: powr_mono)
  also have "\<dots> = x" using p by simp
  finally show ?thesis .
qed

lemma double_round_mantissa:
  assumes "x \<noteq> 0"
  shows "2 ^ 52 \<le> \<bar>x\<bar> / 2 powr (of_int \<lfloor>log 2 \<bar>x\<bar>\<rfloor> - 52)"
proof -
  define k where "k = real_of_int \<lfloor>log 2 \<bar>x\<bar>\<rfloor>"
  define c where "c = (2::real) powr 52"
  have c: "c = 2 ^ 52" unfolding c_def using powr_realpow [of "2::real" 52] by simp
  have cpos: "0 < c" unfolding c_def by simp
  have kpos: "0 < (2::real) powr k" by simp
  have le: "2 powr k \<le> \<bar>x\<bar>" unfolding k_def using assms by (simp add: floor_log2_le)
  have u: "(2::real) powr (k - 52) = 2 powr k / c" unfolding c_def by (rule powr_diff)
  have "c = c * (2 powr k / 2 powr k)" using kpos by simp
  also have "\<dots> \<le> c * (\<bar>x\<bar> / 2 powr k)"
    using le cpos kpos by (intro mult_left_mono divide_right_mono) simp_all
  also have "\<dots> = \<bar>x\<bar> / 2 powr (k - 52)" using cpos kpos by (simp add: u)
  finally have "c \<le> \<bar>x\<bar> / 2 powr (k - 52)" .
  then show ?thesis unfolding c k_def .
qed

lemma double_round_pos: "0 < x \<Longrightarrow> 0 < double_round x"
proof -
  assume p: "0 < x"
  let ?u = "(2::real) powr (of_int \<lfloor>log 2 \<bar>x\<bar>\<rfloor> - 52)"
  have M: "(0::int) < 2 ^ 52" by simp
  have "2 ^ 52 \<le> x / ?u" using double_round_mantissa [of x] p by simp
  then have "(2 ^ 52 :: int) \<le> \<lfloor>x / ?u\<rfloor>" by (simp add: le_floor_iff)
  then have "0 < round_even (x / ?u)" using round_even_bounds(1) [of "x / ?u"] M by linarith
  then show ?thesis using p by (simp add: double_round_def Let_def)
qed

lemma double_round_neg: "x < 0 \<Longrightarrow> double_round x < 0"
proof -
  assume p: "x < 0"
  let ?u = "(2::real) powr (of_int \<lfloor>log 2 \<bar>x\<bar>\<rfloor> - 52)"
  have M: "(1::int) < 2 ^ 52" by simp
  have "2 ^ 52 \<le> \<bar>x\<bar> / ?u" using double_round_mantissa [of x] p by simp
  then have "x / ?u \<le> - (2 ^ 52)" using p by simp
  then have "\<lfloor>x / ?u\<rfloor> \<le> - (2 ^ 52)" by (simp add: floor_le_iff)
  then have "round_even (x / ?u) < 0" using round_even_bounds(2) [of "x / ?u"] M by linarith
  then show ?thesis using p by (simp add: double_round_def Let_def mult_neg_pos)
qed

lemma double_round_0 [simp]: "double_round 0 = 0"
  by (simp add: double_round_def)

lemma double_round_le_0_iff: "(double_round x \<le> 0) = (x \<le> 0)"
proof (cases "x \<le> 0")
  case True
  then have "x = 0 \<or> x < 0" by auto
  then have "double_round x \<le> 0" using double_round_neg [of x] by auto
  with True show ?thesis by simp
next
  case False
  then have "0 < double_round x" using double_round_pos [of x] by simp
  with False show ?thesis by simp
qed

lemma double_round_lower: "0 < x \<Longrightarrow> x / 2 < double_round x"
proof -
  assume p: "0 < x"
  define k where "k = real_of_int \<lfloor>log 2 \<bar>x\<bar>\<rfloor>"
  define c where "c = (2::real) powr 52"
  define u where "u = (2::real) powr (k - 52)"
  have c: "c = 2 ^ 52" unfolding c_def using powr_realpow [of "2::real" 52] by simp
  have upos: "0 < u" unfolding u_def by simp
  have m: "c \<le> x / u" using double_round_mantissa [of x] p unfolding c k_def u_def by simp
  have "real_of_int \<lfloor>x / u\<rfloor> \<le> real_of_int (round_even (x / u))"
    using round_even_bounds(1) [of "x / u"] by simp
  moreover have "c \<le> real_of_int \<lfloor>x / u\<rfloor>"
  proof -
    have "(2 ^ 52 :: int) \<le> \<lfloor>x / u\<rfloor>" using m unfolding c by (simp add: le_floor_iff)
    then have "real_of_int (2 ^ 52) \<le> real_of_int \<lfloor>x / u\<rfloor>" by (rule of_int_le_iff [THEN iffD2])
    then show ?thesis unfolding c by simp
  qed
  ultimately have r: "c \<le> real_of_int (round_even (x / u))" by linarith
  have "x < 2 powr (k + 1)"
    using p floor_log_eq_powr_iff [of x 2 "\<lfloor>log 2 \<bar>x\<bar>\<rfloor>"] unfolding k_def by simp
  also have "\<dots> = 2 * (c * u)"
  proof -
    have e1: "c * u = 2 powr (52 + (k - 52))" unfolding c_def u_def by (rule powr_add [symmetric])
    have e2: "(2::real) powr (k + 1) = 2 powr k * 2 powr 1" by (rule powr_add)
    have "52 + (k - 52) = k" by simp
    with e1 have "c * u = 2 powr k" by (simp only:)
    with e2 show ?thesis by simp
  qed
  finally have "x / 2 < c * u" by simp
  also have "\<dots> \<le> real_of_int (round_even (x / u)) * u"
    using r upos by (simp add: mult_right_mono)
  finally show ?thesis using p unfolding u_def k_def by (simp add: double_round_def Let_def)
qed

lemma double_round_upper:
  assumes "0 < x"
  shows "double_round x \<le> 2 powr (of_int \<lfloor>log 2 \<bar>x\<bar>\<rfloor> + 1)"
proof -
  define k where "k = real_of_int \<lfloor>log 2 \<bar>x\<bar>\<rfloor>"
  define c where "c = (2::real) powr 53"
  define u where "u = (2::real) powr (k - 52)"
  have c: "c = 2 ^ 53" unfolding c_def using powr_realpow [of "2::real" 53] by simp
  have upos: "0 < u" unfolding u_def by simp
  have cu: "c * u = 2 powr (k + 1)"
  proof -
    have "c * u = 2 powr (53 + (k - 52))" unfolding c_def u_def by (rule powr_add [symmetric])
    moreover have "53 + (k - 52) = k + 1" by simp
    ultimately show ?thesis by (simp only:)
  qed
  have "x < 2 powr (k + 1)"
    using assms floor_log_eq_powr_iff [of x 2 "\<lfloor>log 2 \<bar>x\<bar>\<rfloor>"] unfolding k_def by simp
  then have "x < c * u" by (simp only: cu)
  then have "x / u < c" using upos by (simp add: divide_less_eq)
  then have "\<lfloor>x / u\<rfloor> < 2 ^ 53" unfolding c by (simp add: floor_less_iff)
  then have "round_even (x / u) \<le> 2 ^ 53" using round_even_bounds(2) [of "x / u"] by linarith
  then have "real_of_int (round_even (x / u)) \<le> real_of_int (2 ^ 53)"
    by (rule of_int_le_iff [THEN iffD2])
  then have "real_of_int (round_even (x / u)) \<le> c" unfolding c by simp
  then have "real_of_int (round_even (x / u)) * u \<le> c * u" using upos by (simp add: mult_right_mono)
  then have e: "real_of_int (round_even (x / u)) * u \<le> 2 powr (k + 1)" by (simp only: cu)
  have "double_round x = real_of_int (round_even (x / u)) * u"
    using assms unfolding u_def k_def by (simp add: double_round_def Let_def)
  with e have "double_round x \<le> 2 powr (k + 1)" by (simp only:)
  then show ?thesis unfolding k_def .
qed

lemma double_round_1 [simp]: "double_round 1 = 1"
  by (simp add: double_round_scaled [where n = 52] round_even_def Let_def)

lemma double_round_ge_0: "0 \<le> x \<Longrightarrow> 0 \<le> double_round x"
  using double_round_pos [of x] by (cases "x = 0") auto

lemma double_round_le_1: "x \<le> 1 \<Longrightarrow> double_round x \<le> 1"
proof -
  assume a: "x \<le> 1"
  consider "x \<le> 0" | "0 < x" "x < 1" | "x = 1" using a by linarith
  then show ?thesis
  proof cases
    case 1
    then have "double_round x \<le> 0" by (simp add: double_round_le_0_iff)
    then show ?thesis by simp
  next
    case 2
    have "log 2 x < 0" using 2 by simp
    then have "\<lfloor>log 2 \<bar>x\<bar>\<rfloor> \<le> - 1" using 2 by (simp add: floor_le_iff)
    then have "real_of_int \<lfloor>log 2 \<bar>x\<bar>\<rfloor> + 1 \<le> 0" by linarith
    then have "(2::real) powr (of_int \<lfloor>log 2 \<bar>x\<bar>\<rfloor> + 1) \<le> 2 powr 0" by (intro powr_mono) simp_all
    with double_round_upper [OF 2(1)] show ?thesis by simp
  next
    case 3
    then show ?thesis by simp
  qed
qed

lemma round_even_error: "\<bar>real_of_int (round_even q) - q\<bar> \<le> 1 / 2"
proof -
  define f where "f = real_of_int \<lfloor>q\<rfloor>"
  have b: "f \<le> q" "q < f + 1" unfolding f_def by linarith+
  have "real_of_int (round_even q) = (if q - f < 1 / 2 then f else if 1 / 2 < q - f then f + 1
      else if even \<lfloor>q\<rfloor> then f else f + 1)"
    unfolding f_def by (simp add: round_even_def Let_def)
  then show ?thesis using b by (simp add: abs_if split: if_splits)
qed

lemma double_round_error: "\<bar>double_round x - x\<bar> \<le> \<bar>x\<bar> / 2 ^ 53"
proof (cases "x = 0")
  case True
  then show ?thesis by simp
next
  case False
  define u where "u = (2::real) powr (of_int \<lfloor>log 2 \<bar>x\<bar>\<rfloor> - 52)"
  define c where "c = (2::real) ^ 52"
  have upos: "0 < u" unfolding u_def by simp
  have cpos: "0 < c" unfolding c_def by simp
  have m: "c \<le> \<bar>x\<bar> / u" using double_round_mantissa [OF False] unfolding u_def c_def .
  then have cu: "c * u \<le> \<bar>x\<bar>" using upos by (simp add: le_divide_eq)
  have dr: "double_round x = real_of_int (round_even (x / u)) * u"
    using False unfolding u_def by (simp add: double_round_def Let_def)
  have "double_round x - x = (real_of_int (round_even (x / u)) - x / u) * u"
    using upos by (simp add: dr left_diff_distrib)
  then have "\<bar>double_round x - x\<bar> = \<bar>real_of_int (round_even (x / u)) - x / u\<bar> * u"
    using upos by (simp add: abs_mult)
  also have "\<dots> \<le> (1 / 2) * u"
    using round_even_error [of "x / u"] upos by (intro mult_right_mono) simp_all
  finally have e: "\<bar>double_round x - x\<bar> \<le> u / 2" by simp
  have "u / 2 = c * u / (2 * c)" using cpos by simp
  also have "\<dots> \<le> \<bar>x\<bar> / (2 * c)" using cu cpos by (intro divide_right_mono) simp_all
  also have "2 * c = 2 ^ 53" unfolding c_def by simp
  finally have "u / 2 \<le> \<bar>x\<bar> / 2 ^ 53" .
  with e show ?thesis by linarith
qed

lemma double_round_unit: "0 \<le> x \<Longrightarrow> x \<le> 1 \<Longrightarrow> 0 \<le> double_round x \<and> double_round x \<le> 1"
  by (simp add: double_round_ge_0 double_round_le_1)

text \<open>The doubles nearest to the decimal literals of the sources, and some exact values.\<close>

lemma double_round_half [simp]: "double_round (1 / 2) = 1 / 2"
  by (simp add: double_round_scaled [where n = 53] round_even_def Let_def)

lemma double_round_quarter [simp]: "double_round (1 / 4) = 1 / 4"
  by (simp add: double_round_scaled [where n = 54] round_even_def Let_def)

lemma double_round_three_quarters [simp]: "double_round (3 / 4) = 3 / 4"
  by (simp add: double_round_scaled [where n = 53] round_even_def Let_def)

lemma double_round_2 [simp]: "double_round 2 = 2"
  by (simp add: double_round_scaled [where n = 51] round_even_def Let_def)

lemma double_round_6 [simp]: "double_round 6 = 6"
  by (simp add: double_round_scaled [where n = 50] round_even_def Let_def)

lemma double_0_8: "double_round (8 / 10) = 7205759403792794 / 2 ^ 53"
  by (simp add: double_round_scaled [where n = 53] round_even_def Let_def)

lemma double_minus_0_8: "double_round (- (8 / 10)) = - (7205759403792794 / 2 ^ 53)"
  by (simp add: double_round_scaled [where n = 53] round_even_def Let_def)

lemma double_0_2: "double_round (2 / 10) = 7205759403792794 / 2 ^ 55"
  by (simp add: double_round_scaled [where n = 55] round_even_def Let_def)

lemma double_0_1: "double_round (1 / 10) = 3602879701896397 / 2 ^ 55"
  by (simp add: double_round_scaled [where n = 56] round_even_def Let_def)

lemma double_0_9: "double_round (9 / 10) = 8106479329266893 / 2 ^ 53"
  by (simp add: double_round_scaled [where n = 53] round_even_def Let_def)

lemma fsub_le_0_iff: "(fsub a b \<le> 0) = (a \<le> b)"
  by (simp add: fsub_def double_round_le_0_iff)

lemma fsub_lower: "b < a \<Longrightarrow> (a - b) / 2 < fsub a b"
  unfolding fsub_def by (rule double_round_lower) simp


subsection \<open>Player timers\<close>










subsection \<open>Achievements\<close>

lemma check_cases:
  "check s u =
     (if \<not> u High_Jumper \<and> 100 \<le> jumps s
      then (Some High_Jumper, u(High_Jumper := True), unlock_events High_Jumper)
      else if \<not> u Gold_Digger \<and> 5000 \<le> total_coins s
      then (Some Gold_Digger, u(Gold_Digger := True), unlock_events Gold_Digger)
      else if \<not> u Marathon \<and> 100000 \<le> st_score s
      then (Some Marathon, u(Marathon := True), unlock_events Marathon)
      else (None, u, []))"
  by (simp add: check_def unlock_def)

lemma check_newly_unlocked:
  "check s u = (Some a, u', evs) \<Longrightarrow> \<not> u a \<and> u' = u(a := True) \<and> evs = unlock_events a"
  by (auto simp: check_cases split: if_splits)

lemma check_never_again:
  "u a \<Longrightarrow> fst (check s u) \<noteq> Some a \<and> fst (snd (check s u)) a"
  by (cases a) (auto simp: check_cases)

lemma check_all_three:
  assumes "100 \<le> jumps s" "5000 \<le> total_coins s" "100000 \<le> st_score s"
    and "\<not> u High_Jumper" "\<not> u Gold_Digger" "\<not> u Marathon"
  shows "check s u = (Some High_Jumper, u(High_Jumper := True), unlock_events High_Jumper)"
    and "check s (fst (snd (check s u))) =
           (Some Gold_Digger, u(High_Jumper := True, Gold_Digger := True),
            unlock_events Gold_Digger)"
    and "check s (fst (snd (check s (fst (snd (check s u)))))) =
           (Some Marathon, u(High_Jumper := True, Gold_Digger := True, Marathon := True),
            unlock_events Marathon)"
    and "check s (fst (snd (check s (fst (snd (check s (fst (snd (check s u))))))))) =
           (None, u(High_Jumper := True, Gold_Digger := True, Marathon := True), [])"
  using assms by (simp_all add: check_cases)

lemma check_high_jumper_first:
  "\<not> u High_Jumper \<and> 100 \<le> jumps s \<longrightarrow>
     check s u = (Some High_Jumper, u(High_Jumper := True), unlock_events High_Jumper)"
  by (simp add: check_cases)

lemma check_gold_digger_second:
  "\<not> (\<not> u High_Jumper \<and> 100 \<le> jumps s) \<and> \<not> u Gold_Digger \<and> 5000 \<le> total_coins s \<longrightarrow>
     check s u = (Some Gold_Digger, u(Gold_Digger := True), unlock_events Gold_Digger)"
  by (simp add: check_cases)

lemma check_marathon_third:
  "\<not> (\<not> u High_Jumper \<and> 100 \<le> jumps s) \<and> \<not> (\<not> u Gold_Digger \<and> 5000 \<le> total_coins s) \<and>
   \<not> u Marathon \<and> 100000 \<le> st_score s \<longrightarrow>
     check s u = (Some Marathon, u(Marathon := True), unlock_events Marathon)"
  by (simp add: check_cases)

lemma check_all_three_imp:
  "100 \<le> jumps s \<and> 5000 \<le> total_coins s \<and> 100000 \<le> st_score s \<and>
   \<not> u High_Jumper \<and> \<not> u Gold_Digger \<and> \<not> u Marathon \<longrightarrow>
     check s u = (Some High_Jumper, u(High_Jumper := True), unlock_events High_Jumper) \<and>
     check s (fst (snd (check s u))) =
       (Some Gold_Digger, u(High_Jumper := True, Gold_Digger := True),
        unlock_events Gold_Digger) \<and>
     check s (fst (snd (check s (fst (snd (check s u)))))) =
       (Some Marathon, u(High_Jumper := True, Gold_Digger := True, Marathon := True),
        unlock_events Marathon) \<and>
     check s (fst (snd (check s (fst (snd (check s (fst (snd (check s u))))))))) =
       (None, u(High_Jumper := True, Gold_Digger := True, Marathon := True), [])"
  using check_all_three[of s u] by blast

lemma check_newly_unlocked_all:
  "\<forall>a u' evs. check s u = (Some a, u', evs) \<longrightarrow>
     \<not> u a \<and> u' = u(a := True) \<and> evs = unlock_events a"
  using check_newly_unlocked by blast

lemma check_never_again_all:
  "\<forall>a. u a \<longrightarrow> fst (check s u) \<noteq> Some a \<and> fst (snd (check s u)) a"
  using check_never_again by blast

text \<open>
  Claim C8. \<^verbatim>\<open>AchievementSystem.check\<close> tests jump count, then coin total, then
  score, and returns at the first achievement that is locked and qualifies. When all
  three thresholds are crossed with nothing unlocked, successive calls unlock High
  Jumper, Gold Digger and Marathon in this order, one per call, and the fourth call
  unlocks nothing. Whatever the other two statistics are, a qualifying locked High
  Jumper is the one unlocked; Gold Digger is unlocked only when High Jumper is not
  newly qualifying, Marathon only when neither is. A call unlocks at most one
  achievement, one that was locked before, with one cue and one announcement; an
  achievement that is unlocked is never returned again and stays unlocked, for any
  statistics.
\<close>

theorem C8_check_priority:
  "(100 \<le> jumps s \<and> 5000 \<le> total_coins s \<and> 100000 \<le> st_score s \<and>
    \<not> u High_Jumper \<and> \<not> u Gold_Digger \<and> \<not> u Marathon \<longrightarrow>
      check s u = (Some High_Jumper, u(High_Jumper := True), unlock_events High_Jumper) \<and>
      check s (fst (snd (check s u))) =
        (Some Gold_Digger, u(High_Jumper := True, Gold_Digger := True),
         unlock_events Gold_Digger) \<and>
      check s (fst (snd (check s (fst (snd (check s u)))))) =
        (Some Marathon, u(High_Jumper := True, Gold_Digger := True, Marathon := True),
         unlock_events Marathon) \<and>
      check s (fst (snd (check s (fst (snd (check s (fst (snd (check s u))))))))) =
        (None, u(High_Jumper := True, Gold_Digger := True, Marathon := True), [])) \<and>
   (\<not> u High_Jumper \<and> 100 \<le> jumps s \<longrightarrow>
      check s u = (Some High_Jumper, u(High_Jumper := True), unlock_events High_Jumper)) \<and>
   (\<not> (\<not> u High_Jumper \<and> 100 \<le> jumps s) \<and> \<not> u Gold_Digger \<and> 5000 \<le> total_coins s \<longrightarrow>
      check s u = (Some Gold_Digger, u(Gold_Digger := True), unlock_events Gold_Digger)) \<and>
   (\<not> (\<not> u High_Jumper \<and> 100 \<le> jumps s) \<and> \<not> (\<not> u Gold_Digger \<and> 5000 \<le> total_coins s) \<and>
    \<not> u Marathon \<and> 100000 \<le> st_score s \<longrightarrow>
      check s u = (Some Marathon, u(Marathon := True), unlock_events Marathon)) \<and>
   (\<forall>a u' evs. check s u = (Some a, u', evs) \<longrightarrow>
      \<not> u a \<and> u' = u(a := True) \<and> evs = unlock_events a) \<and>
   (\<forall>a. u a \<longrightarrow> fst (check s u) \<noteq> Some a \<and> fst (snd (check s u)) a)"
  apply (rule conjI, rule check_all_three_imp)
  apply (rule conjI, rule check_high_jumper_first)
  apply (rule conjI, rule check_gold_digger_second)
  apply (rule conjI, rule check_marathon_third)
  apply (rule conjI, rule check_newly_unlocked_all)
  apply (rule check_never_again_all)
  done

theorem C8_check_priority_witness:
  "check \<lparr>jumps = 100, total_coins = 5000, st_score = 100000\<rparr> unlocked_init =
     (Some High_Jumper, unlocked_init(High_Jumper := True), unlock_events High_Jumper) \<and>
   check \<lparr>jumps = 100, total_coins = 5000, st_score = 100000\<rparr>
     (fst (snd (check \<lparr>jumps = 100, total_coins = 5000, st_score = 100000\<rparr> unlocked_init))) =
     (Some Gold_Digger, unlocked_init(High_Jumper := True, Gold_Digger := True),
      unlock_events Gold_Digger)"
proof -
  have h: "100 \<le> jumps \<lparr>jumps = 100, total_coins = 5000, st_score = 100000\<rparr> \<and>
    5000 \<le> total_coins \<lparr>jumps = 100, total_coins = 5000, st_score = 100000\<rparr> \<and>
    100000 \<le> st_score \<lparr>jumps = 100, total_coins = 5000, st_score = 100000\<rparr> \<and>
    \<not> unlocked_init High_Jumper \<and> \<not> unlocked_init Gold_Digger \<and> \<not> unlocked_init Marathon"
    by (simp add: unlocked_init_def)
  from C8_check_priority [of "\<lparr>jumps = 100, total_coins = 5000, st_score = 100000\<rparr>" unlocked_init,
      THEN conjunct1, rule_format, OF h]
  show ?thesis by blast
qed

subsection \<open>Economy\<close>







subsection \<open>Continuing with a key\<close>

text \<open>
  Claim C10. With no key held, \<^verbatim>\<open>continue_run_with_key\<close> returns the game as it is
  (so a game that is over stays over, and nothing is said or played). With at least
  one key it takes exactly one key, sets the state to RUNNING, switches the hoverboard
  on with a timer of 3.0 seconds whatever the economy's duration table holds, plays
  one cue, makes one announcement, and changes nothing else.
\<close>

theorem C10_continue_run_with_key:
  "(keys (economy g) \<le> 0 \<longrightarrow> continue_run_with_key g = g) \<and>
   (keys (economy g) \<le> 0 \<and> state g = GAME_OVER \<longrightarrow>
      state (continue_run_with_key g) = GAME_OVER) \<and>
   (0 < keys (economy g) \<longrightarrow>
      keys (economy (continue_run_with_key g)) = keys (economy g) - 1 \<and>
      state (continue_run_with_key g) = RUNNING \<and>
      hoverboard_active (player (continue_run_with_key g)) \<and>
      hoverboard_timer (player (continue_run_with_key g)) = 3 \<and>
      continue_run_with_key g =
        g\<lparr>economy := (economy g)\<lparr>keys := keys (economy g) - 1\<rparr>,
          state := RUNNING,
          player := (player g)\<lparr>hoverboard_active := True, hoverboard_timer := 3\<rparr>,
          events := events g @ [Play_sound ''hoverboard_on'' 1 0, Say ''Continuing run'']\<rparr>) \<and>
   (0 < keys (economy g) \<longrightarrow>
      (\<forall>table. hoverboard_timer (player (continue_run_with_key
          (g\<lparr>economy := (economy g)\<lparr>powerup_durations := table\<rparr>\<rparr>))) = 3))"
  by (simp add: continue_run_with_key_def emit_def Let_def)

theorem C10_continue_run_with_key_witness:
  "continue_run_with_key (Game_init\<lparr>state := GAME_OVER\<rparr>) = Game_init\<lparr>state := GAME_OVER\<rparr> \<and>
   state (continue_run_with_key
            (Game_init\<lparr>state := GAME_OVER, economy := (Economy_init config)\<lparr>keys := 2\<rparr>\<rparr>)) = RUNNING \<and>
   keys (economy (continue_run_with_key
            (Game_init\<lparr>state := GAME_OVER, economy := (Economy_init config)\<lparr>keys := 2\<rparr>\<rparr>))) = 1 \<and>
   hoverboard_timer (player (continue_run_with_key
            (Game_init\<lparr>state := GAME_OVER, economy := (Economy_init config)\<lparr>keys := 2\<rparr>\<rparr>))) = 3"
  using C10_continue_run_with_key [of "Game_init\<lparr>state := GAME_OVER\<rparr>"]
    C10_continue_run_with_key
      [of "Game_init\<lparr>state := GAME_OVER, economy := (Economy_init config)\<lparr>keys := 2\<rparr>\<rparr>"]
  by (simp add: Game_init_def Economy_init_def)

subsection \<open>Collision resolution\<close>

lemma handle_collision_jetpack:
  "jetpack (player g) \<Longrightarrow> handle_collision obstacle g = g"
  by (simp add: handle_collision_def)

lemma handle_collision_hoverboard:
  "\<not> jetpack (player g) \<Longrightarrow> hoverboard_active (player g) \<Longrightarrow>
   handle_collision obstacle g =
     g\<lparr>player := (player g)\<lparr>hoverboard_active := False\<rparr>,
       events := events g @ [Play_sound ''hoverboard_break'' (o_lane obstacle) 0]\<rparr>"
  by (simp add: handle_collision_def emit_def)

lemma handle_collision_crash:
  "\<not> jetpack (player g) \<Longrightarrow> \<not> hoverboard_active (player g) \<Longrightarrow>
   handle_collision obstacle g =
     g\<lparr>state := GAME_OVER,
       events := events g @
         [Play_sound ''crash'' (o_lane obstacle) 0, Stop_music, Say_game_over_score (score g)] @
         key_hint g\<rparr>"
  by (simp add: handle_collision_def emit_def Let_def key_hint_def)

text \<open>
  Claim C2. \<^verbatim>\<open>handle_collision\<close> has three cases in this order. With the jetpack
  flag set the game is returned unchanged. Otherwise, with the hoverboard active, only
  that flag is cleared and the shield-break cue is played: the state is what it was, and
  a second collision then ends the run. Otherwise the state becomes GAME_OVER, the
  crash cue, the stopping of the music and the score announcement follow, and the
  key-continue announcement is made exactly when the player holds at least one key.
\<close>

theorem C2_collision_priority:
  "(jetpack (player g) \<longrightarrow> handle_collision obstacle g = g) \<and>
   (\<not> jetpack (player g) \<and> hoverboard_active (player g) \<longrightarrow>
      handle_collision obstacle g =
        g\<lparr>player := (player g)\<lparr>hoverboard_active := False\<rparr>,
          events := events g @ [Play_sound ''hoverboard_break'' (o_lane obstacle) 0]\<rparr> \<and>
      state (handle_collision obstacle g) = state g \<and>
      state (handle_collision obstacle2 (handle_collision obstacle g)) = GAME_OVER) \<and>
   (\<not> jetpack (player g) \<and> \<not> hoverboard_active (player g) \<longrightarrow>
      state (handle_collision obstacle g) = GAME_OVER \<and>
      player (handle_collision obstacle g) = player g \<and>
      economy (handle_collision obstacle g) = economy g \<and>
      events (handle_collision obstacle g) =
        events g @
          [Play_sound ''crash'' (o_lane obstacle) 0, Stop_music, Say_game_over_score (score g)] @
          (if 0 < keys (economy g) then [Say ''Press K to use a key and continue''] else []) \<and>
      ((Say ''Press K to use a key and continue'' \<in>
          set (drop (length (events g)) (events (handle_collision obstacle g)))) =
       (0 < keys (economy g))))"
proof (intro conjI impI)
  assume "jetpack (player g)"
  then show "handle_collision obstacle g = g" by (rule handle_collision_jetpack)
next
  assume h: "\<not> jetpack (player g) \<and> hoverboard_active (player g)"
  then show "handle_collision obstacle g =
        g\<lparr>player := (player g)\<lparr>hoverboard_active := False\<rparr>,
          events := events g @ [Play_sound ''hoverboard_break'' (o_lane obstacle) 0]\<rparr>"
    by (simp add: handle_collision_hoverboard)
  from h show "state (handle_collision obstacle g) = state g"
    by (simp add: handle_collision_hoverboard)
  from h show "state (handle_collision obstacle2 (handle_collision obstacle g)) = GAME_OVER"
    by (simp add: handle_collision_hoverboard handle_collision_crash)
next
  assume h: "\<not> jetpack (player g) \<and> \<not> hoverboard_active (player g)"
  then show "state (handle_collision obstacle g) = GAME_OVER"
    and "player (handle_collision obstacle g) = player g"
    and "economy (handle_collision obstacle g) = economy g"
    by (simp_all add: handle_collision_crash)
  from h show "events (handle_collision obstacle g) =
        events g @
          [Play_sound ''crash'' (o_lane obstacle) 0, Stop_music, Say_game_over_score (score g)] @
          (if 0 < keys (economy g) then [Say ''Press K to use a key and continue''] else [])"
    by (simp add: handle_collision_crash key_hint_def)
  from h show "(Say ''Press K to use a key and continue'' \<in>
          set (drop (length (events g)) (events (handle_collision obstacle g)))) =
       (0 < keys (economy g))"
    by (simp add: handle_collision_crash key_hint_def)
qed

lemma running_game_simps:
  "state running_game = RUNNING" "player running_game = Player_init"
  "keys (economy running_game) = 0" "speed running_game = 25"
  "active_powerups running_game = []" "events running_game = [Say ''Run started'']"
  "score running_game = 0" "multiplier running_game = 1" "g_coins running_game = []"
  "obstacles running_game = []" "coins (economy running_game) = 0"
  "total_coins (stats running_game) = 0"
  by (simp_all add: running_game_def reset_run_def emit_def Game_init_def Economy_init_def
      config_def AppConfig_default_def GameplayConfig_default_def)

theorem C2_collision_priority_witness:
  "handle_collision low_barrier (running_game\<lparr>player := Player_init\<lparr>jetpack := True\<rparr>\<rparr>) =
     running_game\<lparr>player := Player_init\<lparr>jetpack := True\<rparr>\<rparr> \<and>
   state (handle_collision low_barrier
            (running_game\<lparr>player := Player_init\<lparr>hoverboard_active := True\<rparr>\<rparr>)) = RUNNING \<and>
   state (handle_collision low_barrier (handle_collision low_barrier
            (running_game\<lparr>player := Player_init\<lparr>hoverboard_active := True\<rparr>\<rparr>))) = GAME_OVER \<and>
   state (handle_collision low_barrier running_game) = GAME_OVER \<and>
   events (handle_collision low_barrier running_game) =
     [Say ''Run started'', Play_sound ''crash'' 1 0, Stop_music, Say_game_over_score 0]"
proof -
  have j: "jetpack (player (running_game\<lparr>player := Player_init\<lparr>jetpack := True\<rparr>\<rparr>))"
    by simp
  have h: "\<not> jetpack (player (running_game\<lparr>player := Player_init\<lparr>hoverboard_active := True\<rparr>\<rparr>)) \<and>
      hoverboard_active (player (running_game\<lparr>player := Player_init\<lparr>hoverboard_active := True\<rparr>\<rparr>))"
    by (simp add: Player_init_def)
  have c: "\<not> jetpack (player running_game) \<and> \<not> hoverboard_active (player running_game)"
    by (simp add: running_game_simps Player_init_def)
  note a1 = C2_collision_priority [of "running_game\<lparr>player := Player_init\<lparr>jetpack := True\<rparr>\<rparr>"
      low_barrier low_barrier, THEN conjunct1, rule_format, OF j]
  note a2 = C2_collision_priority [of "running_game\<lparr>player := Player_init\<lparr>hoverboard_active := True\<rparr>\<rparr>"
      low_barrier low_barrier, THEN conjunct2, THEN conjunct1, rule_format, OF h]
  note a3 = C2_collision_priority [of running_game low_barrier low_barrier,
      THEN conjunct2, THEN conjunct2, rule_format, OF c]
  from a1 have "handle_collision low_barrier (running_game\<lparr>player := Player_init\<lparr>jetpack := True\<rparr>\<rparr>) =
     running_game\<lparr>player := Player_init\<lparr>jetpack := True\<rparr>\<rparr>" .
  moreover from a2 [THEN conjunct2, THEN conjunct1] have "state (handle_collision low_barrier
            (running_game\<lparr>player := Player_init\<lparr>hoverboard_active := True\<rparr>\<rparr>)) = RUNNING"
    by (simp add: running_game_simps)
  moreover have "state (handle_collision low_barrier (handle_collision low_barrier
            (running_game\<lparr>player := Player_init\<lparr>hoverboard_active := True\<rparr>\<rparr>))) = GAME_OVER"
    by (rule a2 [THEN conjunct2, THEN conjunct2])
  moreover have "state (handle_collision low_barrier running_game) = GAME_OVER"
    by (rule a3 [THEN conjunct1])
  moreover from a3 [THEN conjunct2, THEN conjunct2, THEN conjunct2, THEN conjunct1] have "events (handle_collision low_barrier running_game) =
     [Say ''Run started'', Play_sound ''crash'' 1 0, Stop_music, Say_game_over_score 0]"
    by (simp add: running_game_simps low_barrier_def)
  ultimately show ?thesis by blast
qed

subsection \<open>Obstacles arriving\<close>

lemma emit_fields [simp]:
  "state (emit e g) = state g" "player (emit e g) = player g"
  "economy (emit e g) = economy g" "score (emit e g) = score g"
  "stats (emit e g) = stats g" "speed (emit e g) = speed g"
  "multiplier (emit e g) = multiplier g" "active_powerups (emit e g) = active_powerups g"
  "word_hunt (emit e g) = word_hunt g" "events (emit e g) = events g @ [e]"
  by (simp_all add: emit_def)

lemma collision_events_emit:
  "collision_events (emit e g) = collision_events g @ (if collision_event e then [e] else [])"
  by (simp add: collision_events_def)


lemma stop_obstacle_loop_keeps [simp]:
  "state (stop_obstacle_loop obstacle g) = state g"
  "player (stop_obstacle_loop obstacle g) = player g"
  "economy (stop_obstacle_loop obstacle g) = economy g"
  "score (stop_obstacle_loop obstacle g) = score g"
  "collision_events (stop_obstacle_loop obstacle g) = collision_events g"
  by (cases "o_sound_tag obstacle"; simp add: stop_obstacle_loop_def collision_events_emit)+














subsection \<open>Stereo gain and distance volume\<close>

lemma fsub_1_0 [simp]: "fsub 1 0 = 1"
  by (simp add: fsub_def)

lemma fadd_1_0 [simp]: "fadd 1 0 = 1"
  by (simp add: fadd_def)

lemma fsub_1_1 [simp]: "fsub 1 1 = 0"
  by (simp add: fsub_def)

lemma fmul_0 [simp]: "fmul 0 x = 0" "fmul x 0 = 0"
  by (simp_all add: fmul_def)

lemma fdiv_self [simp]: "x \<noteq> 0 \<Longrightarrow> fdiv x x = 1"
  by (simp add: fdiv_def)

lemma fdiv_0 [simp]: "fdiv 0 x = 0"
  by (simp add: fdiv_def)

lemma fsub_1_unit: "0 \<le> x \<Longrightarrow> x \<le> 1 \<Longrightarrow> 0 \<le> fsub 1 x \<and> fsub 1 x \<le> 1"
  unfolding fsub_def by (rule double_round_unit) simp_all

lemma fadd_1_unit: "- 1 \<le> x \<Longrightarrow> x \<le> 0 \<Longrightarrow> 0 \<le> fadd 1 x \<and> fadd 1 x \<le> 1"
  unfolding fadd_def by (rule double_round_unit) simp_all

lemma pan_to_stereo_in_range:
  assumes "- 1 \<le> pan" "pan \<le> 1"
  shows "pan_to_stereo pan = (fsub 1 (max 0 pan), fadd 1 (min 0 pan))"
proof -
  have l: "0 \<le> fsub 1 (max 0 pan) \<and> fsub 1 (max 0 pan) \<le> 1"
    using assms by (intro fsub_1_unit) simp_all
  have r: "0 \<le> fadd 1 (min 0 pan) \<and> fadd 1 (min 0 pan) \<le> 1"
    using assms by (intro fadd_1_unit) simp_all
  have c: "max (- 1) (min 1 pan) = pan" using assms by simp
  show ?thesis using l r by (simp add: pan_to_stereo_def Let_def c)
qed

lemma script_pan_to_stereo_in_range:
  assumes "- 1 \<le> pan" "pan \<le> 1"
  shows "script_pan_to_stereo pan = (fsub 1 (max 0 pan), fadd 1 (min 0 pan))"
proof -
  have c: "max (- 1) (min 1 pan) = pan" using assms by simp
  have "script_pan_to_stereo pan =
      (if pan \<le> 0 then 1 else fsub 1 pan, if pan \<ge> 0 then 1 else fadd 1 pan)"
    by (simp only: script_pan_to_stereo_def Let_def c)
  then show ?thesis by (simp add: max_def min_def)
qed

lemma clamp_pan: "- 1 \<le> max (- 1) (min 1 (pan :: real))" "max (- 1) (min 1 (pan :: real)) \<le> 1"
  by simp_all

lemma clamp_pan_idem: "max (- 1) (min 1 (max (- 1) (min 1 (pan :: real)))) = max (- 1) (min 1 pan)"
  by simp

lemma pan_to_stereo_clamp: "pan_to_stereo (max (- 1) (min 1 pan)) = pan_to_stereo pan"
  by (simp only: pan_to_stereo_def clamp_pan_idem)

lemma script_pan_to_stereo_clamp:
  "script_pan_to_stereo (max (- 1) (min 1 pan)) = script_pan_to_stereo pan"
  by (simp only: script_pan_to_stereo_def clamp_pan_idem)

lemma script_pan_to_stereo_eq: "script_pan_to_stereo pan = pan_to_stereo pan"
proof -
  let ?p = "max (- 1) (min 1 pan)"
  have "script_pan_to_stereo ?p = pan_to_stereo ?p"
    by (simp only: pan_to_stereo_in_range [OF clamp_pan] script_pan_to_stereo_in_range [OF clamp_pan])
  then show ?thesis by (simp only: pan_to_stereo_clamp script_pan_to_stereo_clamp)
qed

lemma falloff_unit:
  assumes "0 < D"
  shows "0 \<le> fsub 1 (fdiv (max 0 (min D d)) D) \<and> fsub 1 (fdiv (max 0 (min D d)) D) \<le> 1"
proof -
  let ?x = "max 0 (min D d)"
  have "0 \<le> ?x / D" "?x / D \<le> 1" using assms by (simp_all add: divide_le_eq)
  then have "0 \<le> fdiv ?x D \<and> fdiv ?x D \<le> 1" unfolding fdiv_def by (rule double_round_unit)
  then show ?thesis by (intro fsub_1_unit) simp_all
qed

lemma falloff_error:
  assumes "0 < D"
  shows "\<bar>fsub 1 (fdiv (max 0 (min D d)) D) - (1 - max 0 (min D d) / D)\<bar> \<le> 1 / 2 ^ 52"
proof -
  define q where "q = max 0 (min D d) / D"
  define a where "a = double_round q"
  have q: "0 \<le> q" "q \<le> 1" unfolding q_def using assms by (simp_all add: divide_le_eq)
  have a: "0 \<le> a \<and> a \<le> 1" unfolding a_def using q by (rule double_round_unit)
  have "\<bar>a - q\<bar> \<le> \<bar>q\<bar> / 2 ^ 53" unfolding a_def by (rule double_round_error)
  also have "\<dots> \<le> 1 / 2 ^ 53" using q by (intro divide_right_mono) simp_all
  finally have e1: "\<bar>a - q\<bar> \<le> 1 / 2 ^ 53" .
  have "\<bar>double_round (1 - a) - (1 - a)\<bar> \<le> \<bar>1 - a\<bar> / 2 ^ 53" by (rule double_round_error)
  also have "\<dots> \<le> 1 / 2 ^ 53" using a by (intro divide_right_mono) simp_all
  finally have e2: "\<bar>double_round (1 - a) - (1 - a)\<bar> \<le> 1 / 2 ^ 53" .
  have "(1::real) / 2 ^ 53 + 1 / 2 ^ 53 = 1 / 2 ^ 52" by simp
  with e1 e2 have "\<bar>double_round (1 - a) - (1 - q)\<bar> \<le> 1 / 2 ^ 52" by linarith
  then show ?thesis unfolding a_def q_def fsub_def fdiv_def .
qed

lemma distance_to_volume_formula:
  "0 < max_distance cfg \<Longrightarrow>
   distance_to_volume cfg d =
     Inr (fsub 1 (fdiv (max 0 (min (max_distance cfg) d)) (max_distance cfg)))"
  using falloff_unit [of "max_distance cfg" d] by (simp add: distance_to_volume_def Let_def)

lemma distance_to_volume_far:
  "0 < max_distance cfg \<Longrightarrow> max_distance cfg \<le> d \<Longrightarrow> distance_to_volume cfg d = Inr 0"
  by (simp add: distance_to_volume_formula)

lemma distance_to_volume_near:
  "0 < max_distance cfg \<Longrightarrow> d \<le> 0 \<Longrightarrow> distance_to_volume cfg d = Inr 1"
  by (simp add: distance_to_volume_formula)

lemma pan_volumes_far:
  "0 < max_distance cfg \<Longrightarrow> pan_volumes cfg sfx pan (max_distance cfg) = Inr (0, 0)"
  by (simp add: pan_volumes_def distance_to_volume_far Let_def split: prod.splits)

lemma script_distance_to_volume_far: "MAX_DISTANCE \<le> d \<Longrightarrow> script_distance_to_volume d = 0"
  by (simp add: script_distance_to_volume_def MAX_DISTANCE_def Let_def)

lemma script_distance_to_volume_near: "d \<le> 0 \<Longrightarrow> script_distance_to_volume d = 1"
  by (simp add: script_distance_to_volume_def MAX_DISTANCE_def Let_def)

lemma script_distance_to_volume_error:
  "\<bar>script_distance_to_volume d - (1 - max 0 (min MAX_DISTANCE d) / MAX_DISTANCE)\<bar> \<le> 1 / 2 ^ 52"
  using falloff_error [of MAX_DISTANCE d]
  by (simp add: script_distance_to_volume_def MAX_DISTANCE_def Let_def)

lemma script_distance_to_volume_eq:
  "max_distance cfg = MAX_DISTANCE \<Longrightarrow>
   distance_to_volume cfg d = Inr (script_distance_to_volume d)"
proof -
  assume m: "max_distance cfg = MAX_DISTANCE"
  then have "0 < max_distance cfg" by (simp add: MAX_DISTANCE_def)
  then show ?thesis
    by (simp add: distance_to_volume_formula script_distance_to_volume_def Let_def m)
qed

lemma right_gain: "fadd 1 (- (7205759403792794 / 2 ^ 53)) = 1801439850948198 / 2 ^ 53"
  by (simp add: fadd_def double_round_scaled [where n = 55] round_even_def Let_def)

lemma pan_to_stereo_left_lane:
  "pan_to_stereo (double_round (- (8 / 10))) = (1, 1801439850948198 / 2 ^ 53)"
proof -
  have r: "- 1 \<le> - (7205759403792794 / 2 ^ 53 :: real)" "- (7205759403792794 / 2 ^ 53 :: real) \<le> 1"
    by simp_all
  have a: "max 0 (- (7205759403792794 / 2 ^ 53 :: real)) = 0" by simp
  have b: "min 0 (- (7205759403792794 / 2 ^ 53 :: real)) = - (7205759403792794 / 2 ^ 53)" by simp
  show ?thesis
    by (simp only: double_minus_0_8 pan_to_stereo_in_range [OF r] a b fsub_1_0 right_gain)
qed

text \<open>
  Claim C6, as the code computes it. The pan -0.8 is the double nearest to it, and for
  it the stereo pair is left = 1.0 and right = 1.0 + (-0.8) rounded, which is
  \<^verbatim>\<open>1801439850948198 / 2^53\<close> (0.19999999999999996): within \<^verbatim>\<open>2^-54\<close> of 0.2. The package
  and the script compute the same pair for every pan; within [-1, 1] it is
  (1 - max(0, pan), 1 + min(0, pan)), each rounded. With a positive maximum distance the
  volume factor is 1 - clamp(distance, 0, D_max) / D_max with the division and the
  subtraction rounded (within \<^verbatim>\<open>2^-52\<close> of the exact value): it is 0 at D_max and
  beyond, 1 at 0 and below, and at D_max both channel volumes are 0 for every pan, lane
  and effects volume. The script's factor has the same three properties and is the
  package's factor when the maximum distance is the script's. At distance 0 in the left
  lane of the default configuration the channels get the effects volume times 1.0 and
  times the right gain above.
\<close>

theorem C6_pan_and_distance:
  "pan_to_stereo (double_round (- (8 / 10))) = (1, 1801439850948198 / 2 ^ 53) \<and>
   script_pan_to_stereo (double_round (- (8 / 10))) = (1, 1801439850948198 / 2 ^ 53) \<and>
   \<bar>snd (pan_to_stereo (double_round (- (8 / 10)))) - 2 / 10\<bar> < 1 / 2 ^ 54 \<and>
   (- 1 \<le> pan \<and> pan \<le> 1 \<longrightarrow>
      pan_to_stereo pan = (fsub 1 (max 0 pan), fadd 1 (min 0 pan))) \<and>
   script_pan_to_stereo pan = pan_to_stereo pan \<and>
   (0 < max_distance cfg \<longrightarrow>
      distance_to_volume cfg (max_distance cfg) = Inr 0 \<and>
      pan_volumes cfg sfx pan (max_distance cfg) = Inr (0, 0) \<and>
      lane_volumes cfg sfx lane_no (max_distance cfg) = Inr (0, 0) \<and>
      distance_to_volume cfg d =
        Inr (fsub 1 (fdiv (max 0 (min (max_distance cfg) d)) (max_distance cfg))) \<and>
      \<bar>fsub 1 (fdiv (max 0 (min (max_distance cfg) d)) (max_distance cfg)) -
         (1 - max 0 (min (max_distance cfg) d) / max_distance cfg)\<bar> \<le> 1 / 2 ^ 52 \<and>
      (max_distance cfg \<le> d \<longrightarrow> distance_to_volume cfg d = Inr 0) \<and>
      (d \<le> 0 \<longrightarrow> distance_to_volume cfg d = Inr 1)) \<and>
   (MAX_DISTANCE \<le> d \<longrightarrow> script_distance_to_volume d = 0) \<and>
   (d \<le> 0 \<longrightarrow> script_distance_to_volume d = 1) \<and>
   \<bar>script_distance_to_volume d - (1 - max 0 (min MAX_DISTANCE d) / MAX_DISTANCE)\<bar>
     \<le> 1 / 2 ^ 52 \<and>
   (max_distance cfg = MAX_DISTANCE \<longrightarrow>
      distance_to_volume cfg d = Inr (script_distance_to_volume d)) \<and>
   lane_volumes GameConfig_default sfx 0 0 =
     Inr (fmul 1 (fmul 1 sfx), fmul (1801439850948198 / 2 ^ 53) (fmul 1 sfx))"
proof (intro conjI impI)
  show "pan_to_stereo (double_round (- (8 / 10))) = (1, 1801439850948198 / 2 ^ 53)"
    by (rule pan_to_stereo_left_lane)
  show "script_pan_to_stereo (double_round (- (8 / 10))) = (1, 1801439850948198 / 2 ^ 53)"
    by (simp only: script_pan_to_stereo_eq pan_to_stereo_left_lane)
  show "\<bar>snd (pan_to_stereo (double_round (- (8 / 10)))) - 2 / 10\<bar> < 1 / 2 ^ 54"
    unfolding pan_to_stereo_left_lane by simp
  show "script_pan_to_stereo pan = pan_to_stereo pan"
    by (rule script_pan_to_stereo_eq)
  show "\<bar>script_distance_to_volume d - (1 - max 0 (min MAX_DISTANCE d) / MAX_DISTANCE)\<bar>
     \<le> 1 / 2 ^ 52"
    by (rule script_distance_to_volume_error)
  have nv: "distance_to_volume GameConfig_default 0 = Inr 1"
    by (rule distance_to_volume_near) (simp_all add: GameConfig_default_def)
  have lp: "dict_get (lane_pan GameConfig_default) 0 0 = double_round (- (8 / 10))"
    by (simp add: GameConfig_default_def dict_get_def)
  show "lane_volumes GameConfig_default sfx 0 0 =
     Inr (fmul 1 (fmul 1 sfx), fmul (1801439850948198 / 2 ^ 53) (fmul 1 sfx))"
    unfolding lane_volumes_def lp pan_volumes_def pan_to_stereo_left_lane nv
    by (simp add: Let_def)
next
  assume "- 1 \<le> pan \<and> pan \<le> 1"
  then show "pan_to_stereo pan = (fsub 1 (max 0 pan), fadd 1 (min 0 pan))"
    by (simp add: pan_to_stereo_in_range)
next
  assume p: "0 < max_distance cfg"
  then show "distance_to_volume cfg (max_distance cfg) = Inr 0"
    by (simp add: distance_to_volume_far)
  from p show "pan_volumes cfg sfx pan (max_distance cfg) = Inr (0, 0)"
    by (rule pan_volumes_far)
  from p show "lane_volumes cfg sfx lane_no (max_distance cfg) = Inr (0, 0)"
    by (simp add: lane_volumes_def pan_volumes_far)
  from p show "distance_to_volume cfg d =
        Inr (fsub 1 (fdiv (max 0 (min (max_distance cfg) d)) (max_distance cfg)))"
    by (rule distance_to_volume_formula)
  from p show "\<bar>fsub 1 (fdiv (max 0 (min (max_distance cfg) d)) (max_distance cfg)) -
         (1 - max 0 (min (max_distance cfg) d) / max_distance cfg)\<bar> \<le> 1 / 2 ^ 52"
    by (rule falloff_error)
  { assume "max_distance cfg \<le> d"
    with p show "distance_to_volume cfg d = Inr 0" by (rule distance_to_volume_far) }
  { assume "d \<le> 0"
    with p show "distance_to_volume cfg d = Inr 1" by (rule distance_to_volume_near) }
next
  assume "MAX_DISTANCE \<le> d"
  then show "script_distance_to_volume d = 0" by (rule script_distance_to_volume_far)
next
  assume "d \<le> 0"
  then show "script_distance_to_volume d = 1" by (rule script_distance_to_volume_near)
next
  assume "max_distance cfg = MAX_DISTANCE"
  then show "distance_to_volume cfg d = Inr (script_distance_to_volume d)"
    by (rule script_distance_to_volume_eq)
qed

theorem C6_pan_and_distance_witness:
  "- 1 \<le> (1 / 2 :: real) \<and> (1 / 2 :: real) \<le> 1 \<and>
   0 < max_distance GameConfig_default \<and> max_distance GameConfig_default = MAX_DISTANCE \<and>
   max_distance GameConfig_default \<le> 100 \<and> MAX_DISTANCE \<le> 100 \<and> (0 :: real) \<le> 0 \<and>
   pan_to_stereo (1 / 2) = (1 / 2, 1) \<and>
   distance_to_volume GameConfig_default 100 = Inr 0 \<and>
   lane_volumes GameConfig_default (double_round (9 / 10)) 0 100 = Inr (0, 0) \<and>
   lane_volumes GameConfig_default (double_round (9 / 10)) 2 100 = Inr (0, 0) \<and>
   distance_to_volume GameConfig_default 0 = Inr 1 \<and>
   distance_to_volume GameConfig_default 25 = Inr (3 / 4) \<and>
   script_distance_to_volume 100 = 0 \<and>
   script_distance_to_volume 0 = 1 \<and>
   script_distance_to_volume 25 = 3 / 4"
proof -
  let ?sfx = "double_round (9 / 10)"
  have p: "0 < max_distance GameConfig_default" by (simp add: GameConfig_default_def)
  have m: "max_distance GameConfig_default = 100" by (simp add: GameConfig_default_def)
  have e: "max_distance GameConfig_default = MAX_DISTANCE"
    by (simp add: GameConfig_default_def MAX_DISTANCE_def)
  have far: "max_distance GameConfig_default \<le> 100" by (simp add: m)
  have sfar: "MAX_DISTANCE \<le> 100" by (simp add: MAX_DISTANCE_def)
  have near: "(0 :: real) \<le> 0" by simp
  have r: "- 1 \<le> (1 / 2 :: real) \<and> (1 / 2 :: real) \<le> 1" by simp
  note t0 = C6_pan_and_distance [of "1 / 2" GameConfig_default ?sfx 0 100]
  note t2 = C6_pan_and_distance [of "1 / 2" GameConfig_default ?sfx 2 100]
  note n0 = C6_pan_and_distance [of "1 / 2" GameConfig_default ?sfx 0 0]
  note q0 = C6_pan_and_distance [of "1 / 2" GameConfig_default ?sfx 0 25]
  note pkg = conjunct2 [THEN conjunct2, THEN conjunct2, THEN conjunct2, THEN conjunct2]
  note d0 = t0 [THEN pkg, THEN conjunct1, rule_format, OF p]
  note d2 = t2 [THEN pkg, THEN conjunct1, rule_format, OF p]
  note dn = n0 [THEN pkg, THEN conjunct1, rule_format, OF p]
  note dq = q0 [THEN pkg, THEN conjunct1, rule_format, OF p]
  note s0 = t0 [THEN conjunct2, THEN conjunct2, THEN conjunct2, THEN conjunct1, rule_format, OF r]
  note sf = t0 [THEN pkg, THEN conjunct2, THEN conjunct1, rule_format, OF sfar]
  note sn = n0 [THEN pkg, THEN conjunct2, THEN conjunct2, THEN conjunct1, rule_format, OF near]
  note sq = q0 [THEN pkg, THEN conjunct2, THEN conjunct2, THEN conjunct2, THEN conjunct2,
      THEN conjunct1, rule_format, OF e]
  note far0 = d0 [THEN conjunct2, THEN conjunct2, THEN conjunct2, THEN conjunct2, THEN conjunct2,
      THEN conjunct1, rule_format, OF far]
  note near0 = dn [THEN conjunct2, THEN conjunct2, THEN conjunct2, THEN conjunct2, THEN conjunct2,
      THEN conjunct2, rule_format, OF near]
  have q: "distance_to_volume GameConfig_default 25 = Inr (3 / 4)"
    using dq [THEN conjunct2, THEN conjunct2, THEN conjunct2, THEN conjunct1]
    by (simp add: m fsub_def fdiv_def)
  have "pan_to_stereo (1 / 2) = (1 / 2, 1)" using s0 by (simp add: fsub_def)
  moreover have "distance_to_volume GameConfig_default 100 = Inr 0" by (rule far0)
  moreover from d0 have "lane_volumes GameConfig_default ?sfx 0 100 = Inr (0, 0)"
    by (simp add: m)
  moreover from d2 have "lane_volumes GameConfig_default ?sfx 2 100 = Inr (0, 0)"
    by (simp add: m)
  moreover have "distance_to_volume GameConfig_default 0 = Inr 1" by (rule near0)
  moreover note q
  moreover have "script_distance_to_volume 100 = 0" by (rule sf)
  moreover have "script_distance_to_volume 0 = 1" by (rule sn)
  moreover have "script_distance_to_volume 25 = 3 / 4" using sq q by simp
  ultimately show ?thesis using p e far sfar r by simp
qed

text \<open>
  The claim as stated gives the right gain as 0.2. The sum 1.0 + (-0.8) of doubles is
  not 0.2 and not the double nearest to 0.2 (\<^verbatim>\<open>7205759403792794 / 2^55\<close>), in the package
  and in the script.
\<close>

theorem C6_right_gain_counterexample:
  "snd (pan_to_stereo (double_round (- (8 / 10)))) = 1801439850948198 / 2 ^ 53 \<and>
   snd (pan_to_stereo (double_round (- (8 / 10)))) < 2 / 10 \<and>
   snd (pan_to_stereo (double_round (- (8 / 10)))) \<noteq> double_round (2 / 10) \<and>
   snd (script_pan_to_stereo (double_round (- (8 / 10)))) < 2 / 10 \<and>
   snd (script_pan_to_stereo (double_round (- (8 / 10)))) \<noteq> double_round (2 / 10)"
  unfolding script_pan_to_stereo_eq pan_to_stereo_left_lane double_0_2 by simp

subsection \<open>Word hunt\<close>

lemma WordHunt_collect_signal:
  "fst (WordHunt_collect x w) = (length (collected w) + 1 = length (wh_letters w))"
  by (simp add: WordHunt_collect_def Let_def)

lemma WordHunt_collect_progress:
  "collected (snd (WordHunt_collect x w)) =
     (if length (collected w) + 1 = length (wh_letters w) then [] else collected w @ [x])"
  by (simp add: WordHunt_collect_def Let_def)

lemma script_collect_letter_signal:
  "fst (script_collect_letter x target progress) = (progress @ [x] = target)"
  by (simp add: script_collect_letter_def Let_def)

text \<open>
  Claim C7 is not what \<^verbatim>\<open>WordHunt.collect\<close> does: the signal of a call depends on
  the number of letters collected and on nothing else (\<open>WordHunt_collect_signal\<close>).
  With the target H, U, N, T, collecting H, H, N, T, which is what the game collects
  when two letters are spawned before the first is picked up, completes the hunt at
  the fourth letter and clears the progress; \<^verbatim>\<open>update_letters\<close> then announces the
  completion and adds 500 coins. The script \<^verbatim>\<open>blind_surfers.py\<close> compares the
  progress with the target and does not complete on these letters. The right letters
  in the right order complete in both.
\<close>

theorem C7_wrong_letters_complete:
  "collect_all [''H'', ''H'', ''N'', ''T''] (WordHunt_init [''H'', ''U'', ''N'', ''T'']) =
     ([False, False, False, True], WordHunt_init [''H'', ''U'', ''N'', ''T'']) \<and>
   [''H'', ''H'', ''N'', ''T''] \<noteq> [''H'', ''U'', ''N'', ''T''] \<and>
   script_collect_all [''H'', ''H'', ''N'', ''T''] [''H'', ''U'', ''N'', ''T''] [] =
     ([False, False, False, False], [''H'', ''H'', ''N'', ''T'']) \<and>
   collect_all [''H'', ''U'', ''N'', ''T''] (WordHunt_init [''H'', ''U'', ''N'', ''T'']) =
     ([False, False, False, True], WordHunt_init [''H'', ''U'', ''N'', ''T'']) \<and>
   script_collect_all [''H'', ''U'', ''N'', ''T''] [''H'', ''U'', ''N'', ''T''] [] =
     ([False, False, False, True], []) \<and>
   coins (economy (snd (letter_step (1 / 60)
       \<lparr> l_lane = 1, l_distance = 1 / 4, l_letter = ''T'', l_active = True \<rparr>
       (running_game\<lparr>word_hunt := \<lparr> wh_letters = [''H'', ''U'', ''N'', ''T''],
                                    collected = [''H'', ''H'', ''N''] \<rparr>\<rparr>)))) = 500"
  by (simp add: WordHunt_init_def WordHunt_collect_def script_collect_letter_def Let_def
      letter_step_def running_game_simps Player_init_def)

subsection \<open>Coins and the magnet\<close>

lemma coin_step_snd:
  "snd (coin_step dt coin g) = (if coin_collected dt g coin then collect_coin (c_lane coin) g else g)"
  by (simp add: coin_step_def coin_collected_def coin_arrives_def Let_def)

lemma collect_coin_fields [simp]:
  "total_coins (stats (collect_coin l g)) = total_coins (stats g) + 1"
  "coins (economy (collect_coin l g)) = coins (economy g) + 1"
  "speed (collect_coin l g) = speed g" "player (collect_coin l g) = player g"
  "active_powerups (collect_coin l g) = active_powerups g"
  "state (collect_coin l g) = state g"
  by (simp_all add: collect_coin_def)

lemma coin_collected_cong:
  "speed g' = speed g \<Longrightarrow> player g' = player g \<Longrightarrow> active_powerups g' = active_powerups g \<Longrightarrow>
   coin_collected dt g' = coin_collected dt g"
  by (rule ext) (simp add: coin_collected_def coin_arrives_def magnet_active_def)

lemma coin_step_keeps:
  "speed (snd (coin_step dt coin g)) = speed g"
  "player (snd (coin_step dt coin g)) = player g"
  "active_powerups (snd (coin_step dt coin g)) = active_powerups g"
  by (simp_all add: coin_step_snd)

lemma coins_loop_total:
  "total_coins (stats (snd (coins_loop dt cs g))) =
     total_coins (stats g) + int (length (filter (coin_collected dt g) cs)) \<and>
   speed (snd (coins_loop dt cs g)) = speed g \<and>
   player (snd (coins_loop dt cs g)) = player g \<and>
   active_powerups (snd (coins_loop dt cs g)) = active_powerups g"
proof (induction cs arbitrary: g)
  case Nil
  show ?case by simp
next
  case (Cons c cs)
  obtain c1 g1 where s: "coin_step dt c g = (c1, g1)" by (cases "coin_step dt c g")
  obtain r g2 where l: "coins_loop dt cs g1 = (r, g2)" by (cases "coins_loop dt cs g1")
  have g1: "g1 = snd (coin_step dt c g)" using s by simp
  have k: "speed g1 = speed g" "player g1 = player g" "active_powerups g1 = active_powerups g"
    unfolding g1 by (rule coin_step_keeps)+
  have same: "coin_collected dt g1 = coin_collected dt g"
    using k by (rule coin_collected_cong)
  have t1: "total_coins (stats g1) = total_coins (stats g) + (if coin_collected dt g c then 1 else 0)"
    unfolding g1 by (simp add: coin_step_snd)
  from Cons.IH [of g1] l same k
  have "total_coins (stats g2) = total_coins (stats g1) + int (length (filter (coin_collected dt g) cs))"
    and "speed g2 = speed g" and "player g2 = player g"
    and "active_powerups g2 = active_powerups g"
    by simp_all
  with t1 s l show ?case by simp
qed

lemma update_coins_total:
  "total_coins (stats (update_coins dt g)) =
     total_coins (stats g) + int (length (filter (coin_collected dt g) (g_coins g)))"
proof -
  obtain cs g1 where l: "coins_loop dt (g_coins g) g = (cs, g1)"
    by (cases "coins_loop dt (g_coins g) g")
  from coins_loop_total [of dt "g_coins g" g] l show ?thesis
    by (simp add: update_coins_def)
qed

lemma coin_frame_refl [simp]: "coin_frame g g"
  by (simp add: coin_frame_def)

lemma coin_frame_trans: "coin_frame a b \<Longrightarrow> coin_frame b c \<Longrightarrow> coin_frame a c"
  by (simp add: coin_frame_def)

lemma coin_frame_emit [simp]: "coin_frame g (emit e g)"
  by (simp add: coin_frame_def emit_def)

lemma coin_frame_handle_collision: "coin_frame g (handle_collision obstacle g)"
  by (simp add: coin_frame_def handle_collision_def emit_def Let_def)

lemma coin_frame_expire: "coin_frame g (expire kind g)"
  by (simp add: coin_frame_def expire_def emit_def Let_def)

lemma coin_frame_fold_expire: "coin_frame g (fold expire ks g)"
proof (induction ks arbitrary: g)
  case Nil
  show ?case by simp
next
  case (Cons k ks)
  have "coin_frame g (expire k g)" by (rule coin_frame_expire)
  moreover have "coin_frame (expire k g) (fold expire ks (expire k g))" by (rule Cons.IH)
  ultimately show ?case by (simp add: coin_frame_trans)
qed

lemma coin_frame_update_powerups: "coin_frame g (update_powerups dt g)"
proof -
  obtain l ks where s: "sweep dt (active_powerups g) = (l, ks)"
    by (cases "sweep dt (active_powerups g)")
  have "coin_frame g (g\<lparr>active_powerups := l\<rparr>)" by (simp add: coin_frame_def)
  moreover have "coin_frame (g\<lparr>active_powerups := l\<rparr>) (fold expire ks (g\<lparr>active_powerups := l\<rparr>))"
    by (rule coin_frame_fold_expire)
  ultimately show ?thesis using s by (simp add: update_powerups_def coin_frame_trans)
qed

lemma coin_frame_stop_obstacle_loop: "coin_frame g (stop_obstacle_loop obstacle g)"
  by (cases "o_sound_tag obstacle") (simp_all add: stop_obstacle_loop_def)

lemma coin_frame_obstacle_sound: "coin_frame g (snd (obstacle_sound obstacle g))"
proof (cases "o_sound_tag obstacle")
  case None
  then show ?thesis by (simp add: obstacle_sound_def)
next
  case (Some tag)
  have "coin_frame g (emit a (emit b g))" for a b
    using coin_frame_emit [of g b] coin_frame_emit [of "emit b g" a] by (rule coin_frame_trans)
  with Some show ?thesis by (simp add: obstacle_sound_def Let_def)
qed

lemma coin_frame_obstacle_arrival: "coin_frame g (snd (obstacle_arrival obstacle g))"
proof -
  let ?o = "obstacle\<lparr>o_active := False\<rparr>"
  have a: "coin_frame g (stop_obstacle_loop ?o g)" by (rule coin_frame_stop_obstacle_loop)
  have b: "coin_frame (stop_obstacle_loop ?o g) (handle_collision ?o (stop_obstacle_loop ?o g))"
    by (rule coin_frame_handle_collision)
  from a coin_frame_trans [OF a b] show ?thesis
    by (simp add: obstacle_arrival_def Let_def)
qed

lemma coin_frame_obstacle_step: "coin_frame g (snd (obstacle_step dt obstacle g))"
proof -
  let ?o = "obstacle\<lparr>o_distance := o_distance obstacle - speed g * dt\<rparr>"
  obtain o1 g1 where s: "obstacle_sound ?o g = (o1, g1)" by (cases "obstacle_sound ?o g")
  have a: "coin_frame g g1" using coin_frame_obstacle_sound [of g ?o] s by simp
  have b: "coin_frame g1 (snd (obstacle_arrival o1 g1))" by (rule coin_frame_obstacle_arrival)
  from a coin_frame_trans [OF a b] s show ?thesis
    by (simp add: obstacle_step_def Let_def)
qed

lemma coin_frame_obstacles_loop: "coin_frame g (snd (obstacles_loop dt os g))"
proof (induction os arbitrary: g)
  case Nil
  show ?case by simp
next
  case (Cons a os)
  obtain o1 g1 where s: "obstacle_step dt a g = (o1, g1)" by (cases "obstacle_step dt a g")
  obtain r g2 where l: "obstacles_loop dt os g1 = (r, g2)" by (cases "obstacles_loop dt os g1")
  have "coin_frame g g1" using coin_frame_obstacle_step [of g dt a] s by simp
  moreover have "coin_frame g1 g2" using Cons.IH [of g1] l by simp
  ultimately show ?case using s l by (simp add: coin_frame_trans)
qed

lemma coin_frame_update_obstacles: "coin_frame g (update_obstacles dt g)"
proof -
  obtain r g1 where l: "obstacles_loop dt (obstacles g) g = (r, g1)"
    by (cases "obstacles_loop dt (obstacles g) g")
  have "coin_frame g g1" using coin_frame_obstacles_loop [of g dt "obstacles g"] l by simp
  then show ?thesis using l by (simp add: update_obstacles_def coin_frame_def)
qed

lemma coin_frame_activate_powerup: "coin_frame g (activate_powerup powerup g)"
  by (simp add: coin_frame_def activate_powerup_def emit_def Let_def)

lemma coin_frame_powerup_step: "coin_frame g (snd (powerup_step dt powerup g))"
  by (simp add: powerup_step_def Let_def coin_frame_activate_powerup)

lemma coin_frame_powerups_loop: "coin_frame g (snd (powerups_loop dt ps g))"
proof (induction ps arbitrary: g)
  case Nil
  show ?case by simp
next
  case (Cons a ps)
  obtain p1 g1 where s: "powerup_step dt a g = (p1, g1)" by (cases "powerup_step dt a g")
  obtain r g2 where l: "powerups_loop dt ps g1 = (r, g2)" by (cases "powerups_loop dt ps g1")
  have "coin_frame g g1" using coin_frame_powerup_step [of g dt a] s by simp
  moreover have "coin_frame g1 g2" using Cons.IH [of g1] l by simp
  ultimately show ?case using s l by (simp add: coin_frame_trans)
qed

lemma coin_frame_update_powerup_objects: "coin_frame g (update_powerup_objects dt g)"
proof -
  obtain r g1 where l: "powerups_loop dt (powerups g) g = (r, g1)"
    by (cases "powerups_loop dt (powerups g) g")
  have "coin_frame g g1" using coin_frame_powerups_loop [of g dt "powerups g"] l by simp
  then show ?thesis using l by (simp add: update_powerup_objects_def coin_frame_def)
qed

lemma coin_frame_letter_step: "coin_frame g (snd (letter_step dt letter g))"
  by (simp add: letter_step_def Let_def coin_frame_def emit_def split: prod.splits)

lemma coin_frame_letters_loop: "coin_frame g (snd (letters_loop dt ls g))"
proof (induction ls arbitrary: g)
  case Nil
  show ?case by simp
next
  case (Cons a ls)
  obtain l1 g1 where s: "letter_step dt a g = (l1, g1)" by (cases "letter_step dt a g")
  obtain r g2 where l: "letters_loop dt ls g1 = (r, g2)" by (cases "letters_loop dt ls g1")
  have "coin_frame g g1" using coin_frame_letter_step [of g dt a] s by simp
  moreover have "coin_frame g1 g2" using Cons.IH [of g1] l by simp
  ultimately show ?case using s l by (simp add: coin_frame_trans)
qed

lemma coin_frame_update_letters: "coin_frame g (update_letters dt g)"
proof -
  obtain r g1 where l: "letters_loop dt (letters g) g = (r, g1)"
    by (cases "letters_loop dt (letters g) g")
  have "coin_frame g g1" using coin_frame_letters_loop [of g dt "letters g"] l by simp
  then show ?thesis using l by (simp add: update_letters_def coin_frame_def)
qed

lemma lane_Player_update [simp]: "lane (Player_update dt p) = lane p"
  by (simp add: Player_update_def update_jump_def update_roll_def update_hoverboard_def Let_def)

lemma coin_frame_before_coins: "coin_frame g (before_coins dt g)"
proof -
  let ?g1 = "g\<lparr>player := Player_update dt (player g)\<rparr>"
  let ?g2 = "update_powerups dt ?g1"
  let ?g3 = "update_obstacles dt ?g2"
  let ?g4 = "update_powerup_objects dt ?g3"
  have a: "coin_frame g ?g1" by (simp add: coin_frame_def)
  have b: "coin_frame ?g1 ?g2" by (rule coin_frame_update_powerups)
  have c: "coin_frame ?g2 ?g3" by (rule coin_frame_update_obstacles)
  have d: "coin_frame ?g3 ?g4" by (rule coin_frame_update_powerup_objects)
  have e: "coin_frame ?g4 (update_letters dt ?g4)" by (rule coin_frame_update_letters)
  have "coin_frame g (update_letters dt ?g4)"
    by (rule coin_frame_trans [OF coin_frame_trans [OF coin_frame_trans
          [OF coin_frame_trans [OF a b] c] d] e])
  then show ?thesis by (simp add: before_coins_def)
qed

lemma total_coins_update_score [simp]:
  "total_coins (stats (update_score dt g)) = total_coins (stats g)"
  by (simp add: update_score_def Let_def)

lemma total_coins_spawns [simp]: "total_coins (stats (spawns d g)) = total_coins (stats g)"
  by (simp add: spawns_def spawn_obstacle_def spawn_powerup_def spawn_letter_def
      spawn_season_token_def spawn_coin_def emit_def Let_def)

lemma total_coins_check_achievements [simp]:
  "total_coins (stats (check_achievements g)) = total_coins (stats g)"
  by (simp add: check_achievements_def emit_def Let_def split: prod.splits)

lemma update_running:
  "state g = RUNNING \<Longrightarrow>
   update dt d g =
     check_achievements (spawns d (update_score dt (update_coins dt (before_coins dt g))))"
  by (simp add: update_def before_coins_def Let_def)

lemma coin_collected_before_coins:
  "coin_collected dt (before_coins dt g) coin =
     (coin_arrives dt g coin \<and> (c_lane coin = lane (player g) \<or> magnet_active (before_coins dt g)))"
  using coin_frame_before_coins [of g dt]
  by (simp add: coin_frame_def coin_collected_def coin_arrives_def)

lemma update_total_coins:
  assumes "state g = RUNNING"
  shows "total_coins (stats (update dt d g)) =
     total_coins (stats g) +
     int (length (filter (\<lambda>coin. coin_arrives dt g coin \<and>
        (c_lane coin = lane (player g) \<or> magnet_active (before_coins dt g))) (g_coins g)))"
proof -
  have f: "coin_frame g (before_coins dt g)" by (rule coin_frame_before_coins)
  have "total_coins (stats (update dt d g)) =
      total_coins (stats (update_coins dt (before_coins dt g)))"
    using assms by (simp add: update_running)
  also have "\<dots> = total_coins (stats (before_coins dt g)) +
      int (length (filter (coin_collected dt (before_coins dt g)) (g_coins (before_coins dt g))))"
    by (rule update_coins_total)
  also have "\<dots> = total_coins (stats g) +
      int (length (filter (coin_collected dt (before_coins dt g)) (g_coins g)))"
    using f by (simp add: coin_frame_def)
  finally have t: "total_coins (stats (update dt d g)) =
      total_coins (stats g) +
      int (length (filter (coin_collected dt (before_coins dt g)) (g_coins g)))" .
  have "coin_collected dt (before_coins dt g) =
      (\<lambda>coin. coin_arrives dt g coin \<and>
        (c_lane coin = lane (player g) \<or> magnet_active (before_coins dt g)))"
    by (rule ext) (rule coin_collected_before_coins)
  with t show ?thesis by simp
qed

lemma coin_step_total:
  "total_coins (stats (snd (coin_step dt coin g))) =
     total_coins (stats g) + (if coin_collected dt g coin then 1 else 0)"
  by (simp add: coin_step_snd)

lemma coin_step_not_arriving: "\<not> coin_arrives dt g coin \<Longrightarrow> snd (coin_step dt coin g) = g"
  by (simp add: coin_step_snd coin_collected_def)

lemma coin_step_gone: "coin_arrives dt g coin \<Longrightarrow> \<not> c_active (fst (coin_step dt coin g))"
  by (simp add: coin_step_def coin_arrives_def Let_def)

text \<open>
  Claim C3, as the package has it. A coin that arrives (active, brought to distance
  \<open>\<le> 0\<close> by the frame) while a magnet entry is in the ledger is collected whatever
  its lane; with no magnet entry it is collected exactly when its lane is the player's;
  an arriving coin is deactivated; a coin that does not arrive leaves the game
  unchanged, magnet or not. \<^verbatim>\<open>update_coins\<close> raises the count of collected coins by
  the number of arriving coins that pass this test, and a whole frame of
  \<^verbatim>\<open>Game.update\<close> raises it by the same number, the magnet being looked up after the
  frame's expiry sweep and pickups: nothing else in the frame collects a coin. Outside
  the RUNNING state a frame changes nothing.
\<close>

theorem C3_coin_collection:
  "(coin_arrives dt g coin \<and> magnet_active g \<longrightarrow>
      snd (coin_step dt coin g) = collect_coin (c_lane coin) g \<and>
      total_coins (stats (snd (coin_step dt coin g))) = total_coins (stats g) + 1) \<and>
   (coin_arrives dt g coin \<and> \<not> magnet_active g \<longrightarrow>
      (c_lane coin = lane (player g) \<longrightarrow>
         snd (coin_step dt coin g) = collect_coin (c_lane coin) g \<and>
         total_coins (stats (snd (coin_step dt coin g))) = total_coins (stats g) + 1) \<and>
      (c_lane coin \<noteq> lane (player g) \<longrightarrow> snd (coin_step dt coin g) = g)) \<and>
   (coin_arrives dt g coin \<longrightarrow> \<not> c_active (fst (coin_step dt coin g))) \<and>
   (\<not> coin_arrives dt g coin \<longrightarrow> snd (coin_step dt coin g) = g) \<and>
   total_coins (stats (update_coins dt g)) =
     total_coins (stats g) +
     int (length (filter (\<lambda>c. coin_arrives dt g c \<and>
        (c_lane c = lane (player g) \<or> magnet_active g)) (g_coins g))) \<and>
   (state g = RUNNING \<longrightarrow>
      total_coins (stats (update dt d g)) =
        total_coins (stats g) +
        int (length (filter (\<lambda>c. coin_arrives dt g c \<and>
           (c_lane c = lane (player g) \<or> magnet_active (before_coins dt g))) (g_coins g)))) \<and>
   (state g \<noteq> RUNNING \<longrightarrow> update dt d g = g)"
proof (intro conjI impI)
  assume "coin_arrives dt g coin \<and> magnet_active g"
  then show "snd (coin_step dt coin g) = collect_coin (c_lane coin) g"
    and "total_coins (stats (snd (coin_step dt coin g))) = total_coins (stats g) + 1"
    by (simp_all add: coin_step_snd coin_collected_def)
next
  assume "coin_arrives dt g coin \<and> \<not> magnet_active g" and "c_lane coin = lane (player g)"
  then show "snd (coin_step dt coin g) = collect_coin (c_lane coin) g"
    and "total_coins (stats (snd (coin_step dt coin g))) = total_coins (stats g) + 1"
    by (simp_all add: coin_step_snd coin_collected_def)
next
  assume "coin_arrives dt g coin \<and> \<not> magnet_active g" and "c_lane coin \<noteq> lane (player g)"
  then show "snd (coin_step dt coin g) = g"
    by (simp add: coin_step_snd coin_collected_def)
next
  assume "coin_arrives dt g coin"
  then show "\<not> c_active (fst (coin_step dt coin g))" by (rule coin_step_gone)
next
  assume "\<not> coin_arrives dt g coin"
  then show "snd (coin_step dt coin g) = g" by (rule coin_step_not_arriving)
next
  have "coin_collected dt g =
      (\<lambda>c. coin_arrives dt g c \<and> (c_lane c = lane (player g) \<or> magnet_active g))"
    by (rule ext) (simp add: coin_collected_def)
  with update_coins_total [of dt g]
  show "total_coins (stats (update_coins dt g)) =
     total_coins (stats g) +
     int (length (filter (\<lambda>c. coin_arrives dt g c \<and>
        (c_lane c = lane (player g) \<or> magnet_active g)) (g_coins g)))"
    by simp
next
  assume "state g = RUNNING"
  then show "total_coins (stats (update dt d g)) =
        total_coins (stats g) +
        int (length (filter (\<lambda>c. coin_arrives dt g c \<and>
           (c_lane c = lane (player g) \<or> magnet_active (before_coins dt g))) (g_coins g)))"
    by (rule update_total_coins)
next
  assume "state g \<noteq> RUNNING"
  then show "update dt d g = g" by (simp add: update_def)
qed

lemma magnet_run_simps:
  "state magnet_run = RUNNING" "player magnet_run = Player_init" "speed magnet_run = 25"
  "active_powerups magnet_run = [(''magnet'', 10)]" "total_coins (stats magnet_run) = 0"
  "g_coins magnet_run = []" "obstacles magnet_run = []" "powerups magnet_run = []"
  "letters magnet_run = []" "multiplier magnet_run = 1"
  by (simp_all add: magnet_run_def running_game_def reset_run_def emit_def Game_init_def
      config_def AppConfig_default_def GameplayConfig_default_def)

lemma before_coins_magnet_run:
  "active_powerups (before_coins (1 / 60) (magnet_run\<lparr>g_coins := cs\<rparr>)) =
     [(''magnet'', fsub 10 (1 / 60))]"
  by (simp add: before_coins_def update_letters_def update_powerup_objects_def
      update_obstacles_def update_powerups_def sweep_def magnet_run_simps fsub_le_0_iff)

theorem C3_coin_collection_witness:
  "total_coins (stats (snd (coin_step (1 / 60) left_coin magnet_run))) = 1 \<and>
   snd (coin_step (1 / 60) left_coin running_game) = running_game \<and>
   total_coins (stats (snd (coin_step (1 / 60) (left_coin\<lparr>c_lane := 1\<rparr>) running_game))) = 1 \<and>
   snd (coin_step (1 / 60) (left_coin\<lparr>c_distance := 50\<rparr>) magnet_run) = magnet_run \<and>
   total_coins (stats (update (1 / 60) no_spawn
      (magnet_run\<lparr>g_coins := [left_coin, left_coin\<lparr>c_distance := 50\<rparr>]\<rparr>))) = 1 \<and>
   total_coins (stats (update (1 / 60) no_spawn magnet_run)) = 0"
proof -
  let ?G = "magnet_run\<lparr>g_coins := [left_coin, left_coin\<lparr>c_distance := 50\<rparr>]\<rparr>"
  have m: "magnet_active magnet_run" "\<not> magnet_active running_game"
    by (simp_all add: magnet_active_def magnet_run_simps running_game_simps)
  have a1: "coin_arrives (1 / 60) magnet_run left_coin \<and> magnet_active magnet_run"
    using m by (simp add: coin_arrives_def left_coin_def magnet_run_simps)
  have a2: "coin_arrives (1 / 60) running_game left_coin \<and> \<not> magnet_active running_game"
    using m by (simp add: coin_arrives_def left_coin_def running_game_simps)
  have a3: "coin_arrives (1 / 60) running_game (left_coin\<lparr>c_lane := 1\<rparr>) \<and>
      \<not> magnet_active running_game"
    using m by (simp add: coin_arrives_def left_coin_def running_game_simps)
  have l2: "c_lane left_coin \<noteq> lane (player running_game)"
    by (simp add: left_coin_def running_game_simps Player_init_def)
  have l3: "c_lane (left_coin\<lparr>c_lane := 1\<rparr>) = lane (player running_game)"
    by (simp add: running_game_simps Player_init_def)
  have a4: "\<not> coin_arrives (1 / 60) magnet_run (left_coin\<lparr>c_distance := 50\<rparr>)"
    by (simp add: coin_arrives_def left_coin_def magnet_run_simps)
  have r: "state ?G = RUNNING" "state magnet_run = RUNNING" by (simp_all add: magnet_run_simps)
  have "total_coins (stats (snd (coin_step (1 / 60) left_coin magnet_run))) = 1"
    using C3_coin_collection [of "1 / 60" magnet_run left_coin no_spawn, THEN conjunct1,
        rule_format, OF a1]
    by (simp add: magnet_run_simps)
  moreover have "snd (coin_step (1 / 60) left_coin running_game) = running_game"
    using C3_coin_collection [of "1 / 60" running_game left_coin no_spawn, THEN conjunct2,
        THEN conjunct1, rule_format, OF a2, THEN conjunct2, rule_format, OF l2] .
  moreover have "total_coins (stats (snd (coin_step (1 / 60) (left_coin\<lparr>c_lane := 1\<rparr>) running_game))) = 1"
    using C3_coin_collection [of "1 / 60" running_game "left_coin\<lparr>c_lane := 1\<rparr>" no_spawn,
        THEN conjunct2, THEN conjunct1, rule_format, OF a3, THEN conjunct1, rule_format, OF l3]
    by (simp add: running_game_simps)
  moreover have "snd (coin_step (1 / 60) (left_coin\<lparr>c_distance := 50\<rparr>) magnet_run) = magnet_run"
    using C3_coin_collection [of "1 / 60" magnet_run "left_coin\<lparr>c_distance := 50\<rparr>" no_spawn,
        THEN conjunct2, THEN conjunct2, THEN conjunct2, THEN conjunct1, rule_format, OF a4] .
  moreover have "total_coins (stats (update (1 / 60) no_spawn ?G)) = 1"
    using C3_coin_collection [of "1 / 60" ?G left_coin no_spawn, THEN conjunct2, THEN conjunct2,
        THEN conjunct2, THEN conjunct2, THEN conjunct2, THEN conjunct1, rule_format, OF r(1)]
    by (simp add: magnet_run_simps coin_arrives_def left_coin_def magnet_active_def
        before_coins_magnet_run)
  moreover have "total_coins (stats (update (1 / 60) no_spawn magnet_run)) = 0"
    using C3_coin_collection [of "1 / 60" magnet_run left_coin no_spawn, THEN conjunct2,
        THEN conjunct2, THEN conjunct2, THEN conjunct2, THEN conjunct2, THEN conjunct1,
        rule_format, OF r(2)]
    by (simp add: magnet_run_simps)
  ultimately show ?thesis by blast
qed

lemma script_magnet_run_simps:
  "in_game script_magnet_run" "s_obstacles script_magnet_run = []"
  "s_powerups script_magnet_run = []" "s_letters script_magnet_run = []"
  "s_active_powerups script_magnet_run = [(''magnet'', 10)]"
  "total_coins (s_stats script_magnet_run) = 0" "s_coins (s_economy script_magnet_run) = 0"
  by (simp_all add: script_magnet_run_def script_reset_run_def script_Game_init_def s_emit_def)

lemma s_emit_fields [simp]:
  "s_stats (s_emit e g) = s_stats g" "s_economy (s_emit e g) = s_economy g"
  "s_active_powerups (s_emit e g) = s_active_powerups g" "in_game (s_emit e g) = in_game g"
  "s_obstacles (s_emit e g) = s_obstacles g" "s_powerups (s_emit e g) = s_powerups g"
  "s_letters (s_emit e g) = s_letters g" "s_player (s_emit e g) = s_player g"
  by (simp_all add: s_emit_def)

lemma script_check_achievements_fields [simp]:
  "total_coins (s_stats (script_check_achievements g)) = total_coins (s_stats g)"
  "s_economy (script_check_achievements g) = s_economy g"
  "s_active_powerups (script_check_achievements g) = s_active_powerups g"
  "in_game (script_check_achievements g) = in_game g"
  "s_obstacles (script_check_achievements g) = s_obstacles g"
  "s_powerups (script_check_achievements g) = s_powerups g"
  "s_letters (script_check_achievements g) = s_letters g"
  by (simp_all add: script_check_achievements_def Let_def split: prod.splits)

lemma script_magnet_fields [simp]:
  "total_coins (s_stats (script_magnet g)) =
     total_coins (s_stats g) + (if ''magnet'' \<in> fst ` set (s_active_powerups g) then 1 else 0)"
  "s_coins (s_economy (script_magnet g)) =
     s_coins (s_economy g) + (if ''magnet'' \<in> fst ` set (s_active_powerups g) then 1 else 0)"
  "s_active_powerups (script_magnet g) = s_active_powerups g"
  "in_game (script_magnet g) = in_game g"
  "s_obstacles (script_magnet g) = s_obstacles g"
  "s_powerups (script_magnet g) = s_powerups g"
  "s_letters (script_magnet g) = s_letters g"
  by (simp_all add: script_magnet_def script_collect_coin_def)

lemma script_spawns_no_spawn [simp]: "script_spawns no_spawn g = g"
  by (simp add: script_spawns_def no_spawn_def)

lemma script_update_score_fields [simp]:
  "total_coins (s_stats (script_update_score dt g)) = total_coins (s_stats g)"
  "s_economy (script_update_score dt g) = s_economy g"
  "s_active_powerups (script_update_score dt g) = s_active_powerups g"
  "in_game (script_update_score dt g) = in_game g"
  "s_obstacles (script_update_score dt g) = s_obstacles g"
  "s_powerups (script_update_score dt g) = s_powerups g"
  "s_letters (script_update_score dt g) = s_letters g"
  by (simp_all add: script_update_score_def Let_def)

lemma script_empty_lists:
  "s_letters g = [] \<Longrightarrow> script_update_letters dt g = g"
  "s_powerups g = [] \<Longrightarrow> script_update_powerup_objects dt g = g"
  "s_obstacles g = [] \<Longrightarrow> script_update_obstacles dt g = g"
  by (cases g; simp add: script_update_letters_def script_update_powerup_objects_def
      script_update_obstacles_def)+

text \<open>A frame of the script with nothing on the track, no spawn and a magnet that stays.\<close>

lemma script_update_magnet_only:
  assumes "in_game g" "s_obstacles g = []" "s_powerups g = []" "s_letters g = []"
    and "s_active_powerups g = [(''magnet'', r)]" "dt < r"
  shows "total_coins (s_stats (script_update dt no_spawn g)) = total_coins (s_stats g) + 1"
    and "s_coins (s_economy (script_update dt no_spawn g)) = s_coins (s_economy g) + 1"
    and "in_game (script_update dt no_spawn g)"
    and "s_obstacles (script_update dt no_spawn g) = []"
    and "s_powerups (script_update dt no_spawn g) = []"
    and "s_letters (script_update dt no_spawn g) = []"
    and "s_active_powerups (script_update dt no_spawn g) = [(''magnet'', fsub r dt)]"
proof -
  let ?g1 = "g\<lparr>s_player := Player_update dt (s_player g)\<rparr>"
  have p: "script_update_powerups dt ?g1 = ?g1\<lparr>s_active_powerups := [(''magnet'', fsub r dt)]\<rparr>"
    using assms(5,6) by (simp add: script_update_powerups_def sweep_def fsub_le_0_iff)
  let ?g2 = "?g1\<lparr>s_active_powerups := [(''magnet'', fsub r dt)]\<rparr>"
  have e: "s_obstacles ?g2 = []" "s_powerups ?g2 = []" "s_letters ?g2 = []"
    using assms(2-4) by simp_all
  have u: "script_update dt no_spawn g =
      script_check_achievements (script_magnet (script_update_score dt ?g2))"
    using assms(1) by (simp add: script_update_def Let_def p script_empty_lists e)
  show "total_coins (s_stats (script_update dt no_spawn g)) = total_coins (s_stats g) + 1"
    and "s_coins (s_economy (script_update dt no_spawn g)) = s_coins (s_economy g) + 1"
    and "in_game (script_update dt no_spawn g)"
    and "s_obstacles (script_update dt no_spawn g) = []"
    and "s_powerups (script_update dt no_spawn g) = []"
    and "s_letters (script_update dt no_spawn g) = []"
    and "s_active_powerups (script_update dt no_spawn g) = [(''magnet'', fsub r dt)]"
    unfolding u using assms(1-4) by simp_all
qed

text \<open>
  The claim as stated also says that the magnet collects a coin at no other time than a
  coin's arrival. The script \<^verbatim>\<open>blind_surfers.py\<close> has no coin entities; its
  \<^verbatim>\<open>Game.update\<close> collects one coin in every frame in which a magnet is in the ledger.
  Two frames of a run with a magnet and nothing else on the track collect two coins.
\<close>

theorem C3_script_magnet_counterexample:
  "s_obstacles script_magnet_run = [] \<and> s_powerups script_magnet_run = [] \<and>
   s_letters script_magnet_run = [] \<and>
   total_coins (s_stats script_magnet_run) = 0 \<and>
   total_coins (s_stats (script_update (1 / 60) no_spawn script_magnet_run)) = 1 \<and>
   s_coins (s_economy (script_update (1 / 60) no_spawn script_magnet_run)) = 1 \<and>
   total_coins (s_stats (script_update (1 / 60) no_spawn
      (script_update (1 / 60) no_spawn script_magnet_run))) = 2"
proof -
  note s = script_magnet_run_simps
  have d: "(1 / 60 :: real) < 10" "(1 / 60 :: real) < fsub 10 (1 / 60)"
    using fsub_lower [of "1 / 60" 10] by simp_all
  note f1 = script_update_magnet_only [OF s(1) s(2) s(3) s(4) s(5) d(1)]
  note f2 = script_update_magnet_only [OF f1(3) f1(4) f1(5) f1(6) f1(7) d(2)]
  from f1(1) have a: "total_coins (s_stats (script_update (1 / 60) no_spawn script_magnet_run)) = 1"
    by (simp add: s)
  from f1(2) have b: "s_coins (s_economy (script_update (1 / 60) no_spawn script_magnet_run)) = 1"
    by (simp add: s)
  from f2(1) a have c: "total_coins (s_stats (script_update (1 / 60) no_spawn
      (script_update (1 / 60) no_spawn script_magnet_run))) = 2"
    by simp
  from a b c s show ?thesis by simp
qed

subsection \<open>Expiry of power-ups\<close>

lemma sweep_fst: "fst (sweep dt al) = map (\<lambda>(kind, remaining). (kind, fsub remaining dt)) al"
  by (simp add: sweep_def Let_def)

lemma sweep_keys: "map fst (fst (sweep dt al)) = map fst al"
  by (induction al) (auto simp: sweep_fst)

lemma sweep_map_of:
  "map_of (fst (sweep dt al)) k = map_option (\<lambda>r. fsub r dt) (map_of al k)"
  by (induction al) (auto simp: sweep_fst)

lemma sweep_snd:
  "snd (sweep dt al) = map fst (filter (\<lambda>(kind, remaining). fsub remaining dt \<le> 0) al)"
  by (induction al) (auto simp: sweep_def Let_def)

lemma sweep_snd_distinct: "distinct (map fst al) \<Longrightarrow> distinct (snd (sweep dt al))"
  unfolding sweep_snd by (rule distinct_map_filter)

lemma sweep_snd_member:
  "distinct (map fst al) \<Longrightarrow>
   (k \<in> set (snd (sweep dt al))) = (\<exists>r. map_of al k = Some r \<and> fsub r dt \<le> 0)"
  unfolding sweep_snd by (induction al) (auto simp: rev_image_eqI)

lemma count_list_distinct:
  "distinct xs \<Longrightarrow> count_list xs x = (if x \<in> set xs then 1 else 0)"
  by (induction xs) auto

lemma expire_ledger: "active_powerups (expire k g) = AList.delete k (active_powerups g)"
  by (simp add: expire_def Let_def)

lemma fold_expire_ledger:
  "active_powerups (fold expire ks g) = fold AList.delete ks (active_powerups g)"
  by (induction ks arbitrary: g) (simp_all add: expire_ledger)

lemma fold_delete_map_of:
  "map_of (fold AList.delete ks al) k = (if k \<in> set ks then None else map_of al k)"
  by (induction ks arbitrary: al) (auto simp: delete_conv)

lemma fold_delete_distinct:
  "distinct (map fst al) \<Longrightarrow> distinct (map fst (fold AList.delete ks al))"
  by (induction ks arbitrary: al) (simp_all add: distinct_delete)

lemma update_powerups_unfold:
  "update_powerups dt g =
     fold expire (snd (sweep dt (active_powerups g)))
       (g\<lparr>active_powerups := fst (sweep dt (active_powerups g))\<rparr>)"
  by (simp add: update_powerups_def split: prod.splits)

lemma update_powerups_distinct:
  "distinct (map fst (active_powerups g)) \<Longrightarrow>
   distinct (map fst (active_powerups (update_powerups dt g)))"
  by (simp add: update_powerups_unfold fold_expire_ledger fold_delete_distinct sweep_keys)

lemma update_powerups_map_of:
  assumes "distinct (map fst (active_powerups g))"
  shows "map_of (active_powerups (update_powerups dt g)) k =
     (case map_of (active_powerups g) k of
        None \<Rightarrow> None
      | Some r \<Rightarrow> if fsub r dt \<le> 0 then None else Some (fsub r dt))"
  using sweep_snd_member [OF assms, of k dt]
  by (auto simp: update_powerups_unfold fold_expire_ledger fold_delete_map_of sweep_map_of
      split: option.splits)

lemma sweeps_absent:
  "distinct (map fst (active_powerups g)) \<Longrightarrow> map_of (active_powerups g) k = None \<Longrightarrow>
   map_of (active_powerups (sweeps dts g)) k = None \<and> k \<notin> set (teardowns dts g)"
proof (induction dts arbitrary: g)
  case Nil
  then show ?case by simp
next
  case (Cons dt dts)
  have a: "distinct (map fst (active_powerups (update_powerups dt g)))"
    using Cons.prems(1) by (rule update_powerups_distinct)
  have b: "map_of (active_powerups (update_powerups dt g)) k = None"
    using Cons.prems by (simp add: update_powerups_map_of)
  have c: "k \<notin> set (snd (sweep dt (active_powerups g)))"
    using Cons.prems by (simp add: sweep_snd_member)
  from Cons.IH [OF a b] c show ?case by simp
qed

lemma sweeps_expire_once:
  "distinct (map fst (active_powerups g)) \<Longrightarrow> map_of (active_powerups g) k = Some d \<Longrightarrow>
   expires_within d dts \<Longrightarrow>
   map_of (active_powerups (sweeps dts g)) k = None \<and> count_list (teardowns dts g) k = 1"
proof (induction dts arbitrary: g d)
  case Nil
  then show ?case by simp
next
  case (Cons dt dts)
  have a: "distinct (map fst (active_powerups (update_powerups dt g)))"
    using Cons.prems(1) by (rule update_powerups_distinct)
  have dx: "distinct (snd (sweep dt (active_powerups g)))"
    using Cons.prems(1) by (rule sweep_snd_distinct)
  show ?case
  proof (cases "fsub d dt \<le> 0")
    case True
    have b: "map_of (active_powerups (update_powerups dt g)) k = None"
      using Cons.prems(1,2) True by (simp add: update_powerups_map_of)
    have c: "k \<in> set (snd (sweep dt (active_powerups g)))"
      using Cons.prems(1,2) True by (simp add: sweep_snd_member)
    have "count_list (snd (sweep dt (active_powerups g))) k = 1"
      using dx c by (simp add: count_list_distinct)
    moreover have "count_list (teardowns dts (update_powerups dt g)) k = 0"
      using sweeps_absent [OF a b, of dts] by (simp add: count_list_0_iff)
    ultimately show ?thesis using sweeps_absent [OF a b, of dts] by simp
  next
    case False
    have b: "map_of (active_powerups (update_powerups dt g)) k = Some (fsub d dt)"
      using Cons.prems(1,2) False by (simp add: update_powerups_map_of)
    have c: "k \<notin> set (snd (sweep dt (active_powerups g)))"
      using Cons.prems(1,2) False by (simp add: sweep_snd_member)
    have e: "expires_within (fsub d dt) dts" using Cons.prems(3) False by simp
    from Cons.IH [OF a b e] c show ?thesis by (simp add: count_list_0_iff)
  qed
qed

lemma sweeps_not_expired:
  "distinct (map fst (active_powerups g)) \<Longrightarrow> map_of (active_powerups g) k = Some d \<Longrightarrow>
   \<not> expires_within d dts \<Longrightarrow>
   map_of (active_powerups (sweeps dts g)) k = Some (countdown d dts) \<and>
   k \<notin> set (teardowns dts g)"
proof (induction dts arbitrary: g d)
  case Nil
  then show ?case by simp
next
  case (Cons dt dts)
  have a: "distinct (map fst (active_powerups (update_powerups dt g)))"
    using Cons.prems(1) by (rule update_powerups_distinct)
  have f: "\<not> fsub d dt \<le> 0" using Cons.prems(3) by simp
  have b: "map_of (active_powerups (update_powerups dt g)) k = Some (fsub d dt)"
    using Cons.prems(1,2) f by (simp add: update_powerups_map_of)
  have c: "k \<notin> set (snd (sweep dt (active_powerups g)))"
    using Cons.prems(1,2) f by (simp add: sweep_snd_member)
  have e: "\<not> expires_within (fsub d dt) dts" using Cons.prems(3) by simp
  from Cons.IH [OF a b e] c show ?case by simp
qed

text \<open>
  How far the rounding can delay an expiry: every subtraction errs by at most
  \<^verbatim>\<open>2^-53\<close> of its result, so an entry that survives \<open>n\<close> sweeps of non-negative
  deltas holds at most \<^verbatim>\<open>(1 + 2^-53)^n * d\<close> minus their total.
\<close>

lemma fsub_upper: "b < a \<Longrightarrow> fsub a b \<le> (1 + 1 / 2 ^ 53) * (a - b)"
proof -
  assume l: "b < a"
  define x where "x = a - b"
  define c where "c = (2 :: real) ^ 53"
  have p: "0 < x" unfolding x_def using l by simp
  have "\<bar>double_round x - x\<bar> \<le> \<bar>x\<bar> / c" unfolding c_def by (rule double_round_error)
  then have "double_round x - x \<le> x / c" using p by linarith
  then have "double_round x \<le> (1 + 1 / c) * x" by (simp add: algebra_simps)
  then show ?thesis unfolding x_def c_def fsub_def .
qed

lemma countdown_bound:
  "\<forall>dt \<in> set dts. 0 \<le> dt \<Longrightarrow> 0 < d \<Longrightarrow> \<not> expires_within d dts \<Longrightarrow>
   0 < countdown d dts \<and> countdown d dts \<le> (1 + 1 / 2 ^ 53) ^ length dts * d - sum_list dts"
proof (induction dts arbitrary: d)
  case Nil
  then show ?case by simp
next
  case (Cons dt dts)
  define e where "e = (1 + 1 / 2 ^ 53 :: real)"
  have e1: "1 \<le> e" unfolding e_def by simp
  have en: "1 \<le> e ^ n" for n using e1 by (rule one_le_power)
  have f: "0 < fsub d dt" using Cons.prems(3) by simp
  then have l: "dt < d" by (simp add: fsub_le_0_iff not_le [symmetric])
  have u: "fsub d dt \<le> e * (d - dt)" unfolding e_def using l by (rule fsub_upper)
  have ne: "\<not> expires_within (fsub d dt) dts" using Cons.prems(3) by simp
  have nn: "\<forall>x \<in> set dts. 0 \<le> x" "0 \<le> dt" using Cons.prems(1) by simp_all
  from Cons.IH [OF nn(1) f ne]
  have ih: "0 < countdown (fsub d dt) dts"
    "countdown (fsub d dt) dts \<le> e ^ length dts * fsub d dt - sum_list dts"
    unfolding e_def by simp_all
  have "e ^ length dts * fsub d dt \<le> e ^ length dts * (e * (d - dt))"
    using u en [of "length dts"] by (intro mult_left_mono) simp_all
  also have "\<dots> = e ^ Suc (length dts) * d - e ^ Suc (length dts) * dt"
    by (simp add: algebra_simps)
  also have "\<dots> \<le> e ^ Suc (length dts) * d - dt"
  proof -
    have "1 * dt \<le> e ^ Suc (length dts) * dt"
      using en [of "Suc (length dts)"] nn(2) by (intro mult_right_mono)
    then show ?thesis by simp
  qed
  finally have "e ^ length dts * fsub d dt \<le> e ^ Suc (length dts) * d - dt" .
  with ih show ?case unfolding e_def by simp
qed

lemma expires_when_total_exceeds:
  "\<forall>dt \<in> set dts. 0 \<le> dt \<Longrightarrow> 0 < d \<Longrightarrow> (1 + 1 / 2 ^ 53) ^ length dts * d \<le> sum_list dts \<Longrightarrow>
   expires_within d dts"
  using countdown_bound [of dts d] by fastforce

lemma fold_expire_player:
  "jetpack (player (fold expire ks g)) = (jetpack (player g) \<and> ''jetpack'' \<notin> set ks)"
  "super_sneakers (player (fold expire ks g)) =
     (super_sneakers (player g) \<and> ''super_sneakers'' \<notin> set ks)"
  "multiplier (fold expire ks g) = (if ''multiplier'' \<in> set ks then 1 else multiplier g)"
  "events (fold expire ks g) = events g @ concat (map teardown_events ks)"
  by (induction ks arbitrary: g; simp add: expire_def Let_def emit_def teardown_events_def)+

lemma update_powerups_effects:
  "jetpack (player (update_powerups dt g)) =
     (jetpack (player g) \<and> ''jetpack'' \<notin> set (snd (sweep dt (active_powerups g))))"
  "super_sneakers (player (update_powerups dt g)) =
     (super_sneakers (player g) \<and> ''super_sneakers'' \<notin> set (snd (sweep dt (active_powerups g))))"
  "multiplier (update_powerups dt g) =
     (if ''multiplier'' \<in> set (snd (sweep dt (active_powerups g))) then 1 else multiplier g)"
  "events (update_powerups dt g) =
     events g @ concat (map teardown_events (snd (sweep dt (active_powerups g))))"
  by (simp_all add: update_powerups_unfold fold_expire_player)

lemma sweeps_effects:
  "jetpack (player (sweeps dts g)) = (jetpack (player g) \<and> ''jetpack'' \<notin> set (teardowns dts g))"
  "super_sneakers (player (sweeps dts g)) =
     (super_sneakers (player g) \<and> ''super_sneakers'' \<notin> set (teardowns dts g))"
  "multiplier (sweeps dts g) = (if ''multiplier'' \<in> set (teardowns dts g) then 1 else multiplier g)"
  "events (sweeps dts g) = events g @ concat (map teardown_events (teardowns dts g))"
  by (induction dts arbitrary: g; auto simp: update_powerups_effects)+

lemma count_stop_loop:
  "count_list (concat (map teardown_events ks)) (Stop_loop (Named_tag ''jetpack'')) =
     count_list ks ''jetpack''"
  "count_list (concat (map teardown_events ks)) (Stop_loop (Named_tag ''magnet'')) =
     count_list ks ''magnet''"
  by (induction ks; simp add: teardown_events_def)+

lemma ledger_frame_refl [simp]: "ledger_frame g g"
  by (simp add: ledger_frame_def)

lemma ledger_frame_trans: "ledger_frame a b \<Longrightarrow> ledger_frame b c \<Longrightarrow> ledger_frame a c"
  by (simp add: ledger_frame_def)

lemma ledger_frame_matches: "ledger_frame g g' \<Longrightarrow> ledger_matches g \<Longrightarrow> ledger_matches g'"
  by (simp add: ledger_frame_def ledger_matches_def ledger_keys_def)

lemma ledger_frame_emit [simp]: "ledger_frame g (emit e g)"
  by (simp add: ledger_frame_def emit_def)

lemma ledger_frame_handle_collision: "ledger_frame g (handle_collision obstacle g)"
  by (simp add: ledger_frame_def handle_collision_def emit_def Let_def)

lemma ledger_frame_stop_obstacle_loop: "ledger_frame g (stop_obstacle_loop obstacle g)"
  by (cases "o_sound_tag obstacle") (simp_all add: stop_obstacle_loop_def)

lemma ledger_frame_obstacle_sound: "ledger_frame g (snd (obstacle_sound obstacle g))"
proof (cases "o_sound_tag obstacle")
  case None
  then show ?thesis by (simp add: obstacle_sound_def)
next
  case (Some tag)
  have "ledger_frame g (emit a (emit b g))" for a b
    using ledger_frame_emit [of g b] ledger_frame_emit [of "emit b g" a]
    by (rule ledger_frame_trans)
  with Some show ?thesis by (simp add: obstacle_sound_def Let_def)
qed

lemma ledger_frame_obstacle_arrival: "ledger_frame g (snd (obstacle_arrival obstacle g))"
proof -
  let ?o = "obstacle\<lparr>o_active := False\<rparr>"
  have a: "ledger_frame g (stop_obstacle_loop ?o g)" by (rule ledger_frame_stop_obstacle_loop)
  have b: "ledger_frame (stop_obstacle_loop ?o g) (handle_collision ?o (stop_obstacle_loop ?o g))"
    by (rule ledger_frame_handle_collision)
  from a ledger_frame_trans [OF a b] show ?thesis
    by (simp add: obstacle_arrival_def Let_def)
qed

lemma ledger_frame_obstacle_step: "ledger_frame g (snd (obstacle_step dt obstacle g))"
proof -
  let ?o = "obstacle\<lparr>o_distance := o_distance obstacle - speed g * dt\<rparr>"
  obtain o1 g1 where s: "obstacle_sound ?o g = (o1, g1)" by (cases "obstacle_sound ?o g")
  have a: "ledger_frame g g1" using ledger_frame_obstacle_sound [of g ?o] s by simp
  have b: "ledger_frame g1 (snd (obstacle_arrival o1 g1))" by (rule ledger_frame_obstacle_arrival)
  from a ledger_frame_trans [OF a b] s show ?thesis
    by (simp add: obstacle_step_def Let_def)
qed

lemma ledger_frame_update_obstacles: "ledger_frame g (update_obstacles dt g)"
proof -
  have loop: "ledger_frame g (snd (obstacles_loop dt os g))" for os g
  proof (induction os arbitrary: g)
    case Nil
    show ?case by simp
  next
    case (Cons a os)
    obtain o1 g1 where s: "obstacle_step dt a g = (o1, g1)" by (cases "obstacle_step dt a g")
    obtain r g2 where l: "obstacles_loop dt os g1 = (r, g2)" by (cases "obstacles_loop dt os g1")
    have "ledger_frame g g1" using ledger_frame_obstacle_step [of g dt a] s by simp
    moreover have "ledger_frame g1 g2" using Cons.IH [of g1] l by simp
    ultimately show ?case using s l by (simp add: ledger_frame_trans)
  qed
  obtain r g1 where l: "obstacles_loop dt (obstacles g) g = (r, g1)"
    by (cases "obstacles_loop dt (obstacles g) g")
  have "ledger_frame g g1" using loop [of g "obstacles g"] l by simp
  then show ?thesis using l by (simp add: update_obstacles_def ledger_frame_def)
qed

lemma ledger_frame_letter_step: "ledger_frame g (snd (letter_step dt letter g))"
  by (simp add: letter_step_def Let_def ledger_frame_def emit_def split: prod.splits)

lemma ledger_frame_update_letters: "ledger_frame g (update_letters dt g)"
proof -
  have loop: "ledger_frame g (snd (letters_loop dt ls g))" for ls g
  proof (induction ls arbitrary: g)
    case Nil
    show ?case by simp
  next
    case (Cons a ls)
    obtain l1 g1 where s: "letter_step dt a g = (l1, g1)" by (cases "letter_step dt a g")
    obtain r g2 where l: "letters_loop dt ls g1 = (r, g2)" by (cases "letters_loop dt ls g1")
    have "ledger_frame g g1" using ledger_frame_letter_step [of g dt a] s by simp
    moreover have "ledger_frame g1 g2" using Cons.IH [of g1] l by simp
    ultimately show ?case using s l by (simp add: ledger_frame_trans)
  qed
  obtain r g1 where l: "letters_loop dt (letters g) g = (r, g1)"
    by (cases "letters_loop dt (letters g) g")
  have "ledger_frame g g1" using loop [of g "letters g"] l by simp
  then show ?thesis using l by (simp add: update_letters_def ledger_frame_def)
qed

lemma ledger_frame_coin_step: "ledger_frame g (snd (coin_step dt coin g))"
  by (simp add: coin_step_snd collect_coin_def emit_def ledger_frame_def)

lemma ledger_frame_update_coins: "ledger_frame g (update_coins dt g)"
proof -
  have loop: "ledger_frame g (snd (coins_loop dt cs g))" for cs g
  proof (induction cs arbitrary: g)
    case Nil
    show ?case by simp
  next
    case (Cons a cs)
    obtain c1 g1 where s: "coin_step dt a g = (c1, g1)" by (cases "coin_step dt a g")
    obtain r g2 where l: "coins_loop dt cs g1 = (r, g2)" by (cases "coins_loop dt cs g1")
    have "ledger_frame g g1" using ledger_frame_coin_step [of g dt a] s by simp
    moreover have "ledger_frame g1 g2" using Cons.IH [of g1] l by simp
    ultimately show ?case using s l by (simp add: ledger_frame_trans)
  qed
  obtain r g1 where l: "coins_loop dt (g_coins g) g = (r, g1)"
    by (cases "coins_loop dt (g_coins g) g")
  have "ledger_frame g g1" using loop [of g "g_coins g"] l by simp
  then show ?thesis using l by (simp add: update_coins_def ledger_frame_def)
qed

lemma ledger_frame_update_score: "ledger_frame g (update_score dt g)"
  by (simp add: update_score_def ledger_frame_def Let_def)

lemma ledger_frame_spawns: "ledger_frame g (spawns d g)"
  by (simp add: spawns_def spawn_obstacle_def spawn_powerup_def spawn_letter_def
      spawn_season_token_def spawn_coin_def emit_def Let_def ledger_frame_def)

lemma ledger_frame_check_achievements: "ledger_frame g (check_achievements g)"
  by (simp add: check_achievements_def emit_def Let_def ledger_frame_def split: prod.splits)

lemma Player_update_flags [simp]:
  "jetpack (Player_update dt p) = jetpack p"
  "super_sneakers (Player_update dt p) = super_sneakers p"
  by (simp_all add: Player_update_def update_jump_def update_roll_def update_hoverboard_def
      Let_def)

lemma delete_key_set: "fst ` set (AList.delete k al) = fst ` set al - {k}"
proof -
  have "fst ` set (AList.delete k al) = set (map fst (AList.delete k al))" by simp
  also have "\<dots> = set (removeAll k (map fst al))" by (simp only: delete_keys)
  also have "\<dots> = fst ` set al - {k}" by simp
  finally show ?thesis .
qed

lemma expire_matches: "ledger_matches g \<Longrightarrow> ledger_matches (expire k g)"
  by (auto simp: ledger_matches_def ledger_keys_def expire_def Let_def emit_def
      delete_key_set distinct_delete)

lemma fold_expire_matches: "ledger_matches g \<Longrightarrow> ledger_matches (fold expire ks g)"
  by (induction ks arbitrary: g) (simp_all add: expire_matches)

lemma update_powerups_matches: "ledger_matches g \<Longrightarrow> ledger_matches (update_powerups dt g)"
proof -
  assume m: "ledger_matches g"
  have "map fst (fst (sweep dt (active_powerups g))) = map fst (active_powerups g)"
    by (rule sweep_keys)
  then have k: "fst ` set (fst (sweep dt (active_powerups g))) = fst ` set (active_powerups g)"
    by (metis set_map)
  have "ledger_matches (g\<lparr>active_powerups := fst (sweep dt (active_powerups g))\<rparr>)"
    using m k by (simp add: ledger_matches_def ledger_keys_def sweep_keys)
  then show ?thesis unfolding update_powerups_unfold by (rule fold_expire_matches)
qed

lemma activate_powerup_matches: "ledger_matches g \<Longrightarrow> ledger_matches (activate_powerup powerup g)"
  by (auto simp: ledger_matches_def ledger_keys_def activate_powerup_def Let_def emit_def
      dom_update distinct_update)

lemma powerup_step_matches: "ledger_matches g \<Longrightarrow> ledger_matches (snd (powerup_step dt powerup g))"
  by (simp add: powerup_step_def Let_def activate_powerup_matches)

lemma powerups_loop_matches: "ledger_matches g \<Longrightarrow> ledger_matches (snd (powerups_loop dt ps g))"
proof (induction ps arbitrary: g)
  case Nil
  then show ?case by simp
next
  case (Cons a ps)
  obtain p1 g1 where s: "powerup_step dt a g = (p1, g1)" by (cases "powerup_step dt a g")
  obtain r g2 where l: "powerups_loop dt ps g1 = (r, g2)" by (cases "powerups_loop dt ps g1")
  have "ledger_matches g1" using powerup_step_matches [OF Cons.prems, of dt a] s by simp
  then have "ledger_matches g2" using Cons.IH [of g1] l by simp
  then show ?case using s l by simp
qed

lemma update_powerup_objects_matches:
  "ledger_matches g \<Longrightarrow> ledger_matches (update_powerup_objects dt g)"
proof -
  assume m: "ledger_matches g"
  obtain r g1 where l: "powerups_loop dt (powerups g) g = (r, g1)"
    by (cases "powerups_loop dt (powerups g) g")
  have "ledger_matches g1" using powerups_loop_matches [OF m, of dt "powerups g"] l by simp
  then show ?thesis using l
    by (simp add: update_powerup_objects_def ledger_matches_def ledger_keys_def)
qed

lemma update_matches: "ledger_matches g \<Longrightarrow> ledger_matches (update dt d g)"
proof (cases "state g = RUNNING")
  case False
  assume "ledger_matches g"
  with False show ?thesis by (simp add: update_def)
next
  case True
  assume m: "ledger_matches g"
  let ?g1 = "g\<lparr>player := Player_update dt (player g)\<rparr>"
  let ?g2 = "update_powerups dt ?g1"
  let ?g3 = "update_obstacles dt ?g2"
  let ?g4 = "update_powerup_objects dt ?g3"
  let ?g5 = "update_letters dt ?g4"
  let ?g6 = "update_coins dt ?g5"
  let ?g7 = "update_score dt ?g6"
  let ?g8 = "spawns d ?g7"
  have "ledger_matches ?g1" using m by (simp add: ledger_matches_def ledger_keys_def)
  then have "ledger_matches ?g2" by (rule update_powerups_matches)
  then have "ledger_matches ?g3" by (rule ledger_frame_matches [OF ledger_frame_update_obstacles])
  then have "ledger_matches ?g4" by (rule update_powerup_objects_matches)
  then have "ledger_matches ?g5" by (rule ledger_frame_matches [OF ledger_frame_update_letters])
  then have "ledger_matches ?g6" by (rule ledger_frame_matches [OF ledger_frame_update_coins])
  then have "ledger_matches ?g7" by (rule ledger_frame_matches [OF ledger_frame_update_score])
  then have "ledger_matches ?g8" by (rule ledger_frame_matches [OF ledger_frame_spawns])
  then have "ledger_matches (check_achievements ?g8)"
    by (rule ledger_frame_matches [OF ledger_frame_check_achievements])
  with True show ?thesis by (simp add: update_def Let_def)
qed

lemma reachable_matches: "reachable g \<Longrightarrow> ledger_matches g"
proof (induction rule: reachable.induct)
  case start
  show ?case by (simp add: ledger_matches_def ledger_keys_def Game_init_def Player_init_def)
next
  case (restart g)
  show ?case
    by (simp add: ledger_matches_def ledger_keys_def reset_run_def emit_def Player_init_def)
next
  case (frame g dt d)
  then show ?case by (simp add: update_matches)
next
  case (continue g)
  then show ?case
    by (simp add: ledger_matches_def ledger_keys_def continue_run_with_key_def emit_def Let_def)
next
  case (to_menu g)
  then show ?case by (simp add: ledger_matches_def ledger_keys_def)
next
  case (left g)
  then show ?case
    by (simp add: ledger_matches_def ledger_keys_def press_left_def move_left_def emit_def Let_def)
next
  case (right g)
  then show ?case
    by (simp add: ledger_matches_def ledger_keys_def press_right_def move_right_def emit_def Let_def)
next
  case (up g)
  then show ?case
    by (simp add: ledger_matches_def ledger_keys_def press_up_def jump_def emit_def Let_def)
next
  case (down g)
  then show ?case
    by (simp add: ledger_matches_def ledger_keys_def press_down_def roll_def emit_def Let_def)
next
  case (upgrade g powerup)
  then show ?case
    by (simp add: ledger_matches_def ledger_keys_def handle_upgrade_def emit_def Let_def
        split: prod.splits)
qed

lemma hoverboard_never_in_ledger_step:
  "''hoverboard'' \<notin> ledger_keys g \<Longrightarrow> ''hoverboard'' \<notin> ledger_keys (activate_powerup powerup g)"
  by (auto simp: ledger_keys_def activate_powerup_def Let_def emit_def dom_update)

text \<open>
  Claim C4, as the code computes it. Take a ledger (no kind twice) with an entry holding
  \<open>d\<close> for a kind, and run expiry sweeps. The entry is removed by the first sweep
  that leaves it at or below zero, each subtraction being rounded to a double. If that
  happens during the sweeps, the entry is gone afterwards and the teardown of that kind
  has run exactly once: for the jetpack the player's flag is clear and its loop was
  stopped once, for the super sneakers the flag is clear, for the magnet its loop was
  stopped once and the magnet is no longer active, for the multiplier the multiplier is
  1. The log gains exactly the loop stops of the teardowns. If it does not happen, the
  entry is still there, holding the rounded countdown, and no teardown of the kind has
  run. Non-negative deltas whose total is at least \<^verbatim>\<open>(1 + 2^-53)^n * d\<close>, \<open>n\<close> the
  number of sweeps, do remove an entry holding \<open>d > 0\<close>. In every state the game
  reaches, the ledger and the effects agree: the jetpack and super-sneakers entries
  exist exactly when the flags are set and the multiplier entry exactly when the
  multiplier is 2.
\<close>

theorem C4_expiry:
  "(distinct (map fst (active_powerups g)) \<and> map_of (active_powerups g) kind = Some d \<and>
    expires_within d dts \<longrightarrow>
      kind \<notin> ledger_keys (sweeps dts g) \<and>
      count_list (teardowns dts g) kind = 1 \<and>
      events (sweeps dts g) = events g @ concat (map teardown_events (teardowns dts g)) \<and>
      (kind = ''jetpack'' \<longrightarrow>
         \<not> jetpack (player (sweeps dts g)) \<and>
         count_list (drop (length (events g)) (events (sweeps dts g)))
           (Stop_loop (Named_tag ''jetpack'')) = 1) \<and>
      (kind = ''super_sneakers'' \<longrightarrow> \<not> super_sneakers (player (sweeps dts g))) \<and>
      (kind = ''magnet'' \<longrightarrow>
         \<not> magnet_active (sweeps dts g) \<and>
         count_list (drop (length (events g)) (events (sweeps dts g)))
           (Stop_loop (Named_tag ''magnet'')) = 1) \<and>
      (kind = ''multiplier'' \<longrightarrow> multiplier (sweeps dts g) = 1)) \<and>
   (distinct (map fst (active_powerups g)) \<and> map_of (active_powerups g) kind = Some d \<and>
    \<not> expires_within d dts \<longrightarrow>
      map_of (active_powerups (sweeps dts g)) kind = Some (countdown d dts) \<and>
      kind \<notin> set (teardowns dts g)) \<and>
   ((\<forall>dt \<in> set dts. 0 \<le> dt) \<and> 0 < d \<and>
    (1 + 1 / 2 ^ 53) ^ length dts * d \<le> sum_list dts \<longrightarrow> expires_within d dts) \<and>
   (reachable g \<longrightarrow> ledger_matches g)"
proof (intro conjI impI)
  assume a: "distinct (map fst (active_powerups g)) \<and>
    map_of (active_powerups g) kind = Some d \<and> expires_within d dts"
  then have once: "map_of (active_powerups (sweeps dts g)) kind = None"
      "count_list (teardowns dts g) kind = 1"
    using sweeps_expire_once [of g kind d dts] by simp_all
  from once(1) show gone: "kind \<notin> ledger_keys (sweeps dts g)"
    by (simp add: ledger_keys_def map_of_eq_None_iff)
  from once(2) show "count_list (teardowns dts g) kind = 1" .
  from once(2) have mem: "kind \<in> set (teardowns dts g)"
    by (metis count_list_0_iff zero_neq_one)
  show ev: "events (sweeps dts g) = events g @ concat (map teardown_events (teardowns dts g))"
    by (rule sweeps_effects(4))
  {
    assume k: "kind = ''jetpack''"
    from k mem show "\<not> jetpack (player (sweeps dts g))" by (simp add: sweeps_effects(1))
    from k once(2) show "count_list (drop (length (events g)) (events (sweeps dts g)))
           (Stop_loop (Named_tag ''jetpack'')) = 1"
      by (simp add: ev count_stop_loop)
  }
  {
    assume k: "kind = ''super_sneakers''"
    from k mem show "\<not> super_sneakers (player (sweeps dts g))" by (simp add: sweeps_effects(2))
  }
  {
    assume k: "kind = ''magnet''"
    from k gone show "\<not> magnet_active (sweeps dts g)"
      by (simp add: magnet_active_def ledger_keys_def)
    from k once(2) show "count_list (drop (length (events g)) (events (sweeps dts g)))
           (Stop_loop (Named_tag ''magnet'')) = 1"
      by (simp add: ev count_stop_loop)
  }
  {
    assume k: "kind = ''multiplier''"
    from k mem show "multiplier (sweeps dts g) = 1" by (simp add: sweeps_effects(3))
  }
next
  assume a: "distinct (map fst (active_powerups g)) \<and>
    map_of (active_powerups g) kind = Some d \<and> \<not> expires_within d dts"
  then show "map_of (active_powerups (sweeps dts g)) kind = Some (countdown d dts)"
    and "kind \<notin> set (teardowns dts g)"
    using sweeps_not_expired [of g kind d dts] by simp_all
next
  assume "(\<forall>dt \<in> set dts. 0 \<le> dt) \<and> 0 < d \<and>
    (1 + 1 / 2 ^ 53) ^ length dts * d \<le> sum_list dts"
  then show "expires_within d dts" by (simp add: expires_when_total_exceeds)
next
  assume "reachable g"
  then show "ledger_matches g" by (rule reachable_matches)
qed

theorem C4_expiry_witness:
  "expires_within 10 [4, 4, 4] \<and> \<not> expires_within 10 [4, 4] \<and>
   ''magnet'' \<notin> ledger_keys (sweeps [4, 4, 4] magnet_run) \<and>
   count_list (teardowns [4, 4, 4] magnet_run) ''magnet'' = 1 \<and>
   \<not> magnet_active (sweeps [4, 4, 4] magnet_run) \<and>
   count_list (drop (length (events magnet_run)) (events (sweeps [4, 4, 4] magnet_run)))
     (Stop_loop (Named_tag ''magnet'')) = 1 \<and>
   map_of (active_powerups (sweeps [4, 4] magnet_run)) ''magnet'' = Some 2 \<and>
   ''magnet'' \<notin> set (teardowns [4, 4] magnet_run) \<and>
   ledger_matches running_game"
proof -
  have h: "(\<forall>dt \<in> set [4, 4, 4 :: real]. 0 \<le> dt) \<and> (0 :: real) < 10 \<and>
      (1 + 1 / 2 ^ 53) ^ length [4, 4, 4 :: real] * 10 \<le> sum_list [4, 4, 4 :: real]"
    by simp
  have e: "expires_within 10 [4, 4, 4]"
    by (rule C4_expiry [of magnet_run "''magnet''" 10 "[4, 4, 4]", THEN conjunct2, THEN conjunct2,
          THEN conjunct1, rule_format, OF h])
  have f4: "fsub 10 4 = 6" "fsub 6 4 = 2" by (simp_all add: fsub_def)
  have n: "\<not> expires_within 10 [4, 4]" by (simp add: f4)
  have c: "countdown 10 [4, 4] = 2" by (simp add: f4)
  have a: "distinct (map fst (active_powerups magnet_run)) \<and>
      map_of (active_powerups magnet_run) ''magnet'' = Some 10 \<and> expires_within 10 [4, 4, 4]"
    using e by (simp add: magnet_run_simps)
  have b: "distinct (map fst (active_powerups magnet_run)) \<and>
      map_of (active_powerups magnet_run) ''magnet'' = Some 10 \<and> \<not> expires_within 10 [4, 4]"
    using n by (simp add: magnet_run_simps)
  have r: "reachable running_game"
    unfolding running_game_def by (rule reachable.restart [OF reachable.start])
  note t = C4_expiry [of magnet_run "''magnet''" 10 "[4, 4, 4]", THEN conjunct1, rule_format, OF a]
  note m = t [THEN conjunct2, THEN conjunct2, THEN conjunct2, THEN conjunct2, THEN conjunct2,
      THEN conjunct1, rule_format, OF refl]
  note s = C4_expiry [of magnet_run "''magnet''" 10 "[4, 4]", THEN conjunct2, THEN conjunct1,
      rule_format, OF b]
  have "''magnet'' \<notin> ledger_keys (sweeps [4, 4, 4] magnet_run)" by (rule t [THEN conjunct1])
  moreover have "count_list (teardowns [4, 4, 4] magnet_run) ''magnet'' = 1"
    by (rule t [THEN conjunct2, THEN conjunct1])
  moreover have "\<not> magnet_active (sweeps [4, 4, 4] magnet_run)" by (rule m [THEN conjunct1])
  moreover have "count_list (drop (length (events magnet_run)) (events (sweeps [4, 4, 4] magnet_run)))
     (Stop_loop (Named_tag ''magnet'')) = 1"
    by (rule m [THEN conjunct2])
  moreover have "map_of (active_powerups (sweeps [4, 4] magnet_run)) ''magnet'' = Some 2"
    using s [THEN conjunct1] by (simp only: c)
  moreover have "''magnet'' \<notin> set (teardowns [4, 4] magnet_run)" by (rule s [THEN conjunct2])
  moreover have "ledger_matches running_game"
    by (rule C4_expiry [of running_game "''magnet''" 10 "[4, 4, 4]", THEN conjunct2, THEN conjunct2,
          THEN conjunct2, rule_format, OF r])
  ultimately show ?thesis using e n by blast
qed

text \<open>
  The claim as stated says that sweeps whose deltas total at least \<open>d\<close> remove the
  entry. A magnet entry of 10.0 swept with the deltas 0.1, 9.0 and 0.9 (the doubles
  nearest to them, whose exact total is above 10) still holds \<^verbatim>\<open>3 / 2^53\<close> afterwards:
  the magnet is still active and its teardown has not run.
\<close>

lemma countdown_steps:
  "fsub 10 (3602879701896397 / 2 ^ 55) = 5573204538870989 / 2 ^ 49"
  "fsub (5573204538870989 / 2 ^ 49) 9 = 506654958079181 / 2 ^ 49"
  "fsub (506654958079181 / 2 ^ 49) (8106479329266893 / 2 ^ 53) = 3 / 2 ^ 53"
  by (simp add: fsub_def double_round_scaled [where n = 49] round_even_def Let_def,
      simp add: fsub_def double_round_scaled [where n = 53] round_even_def Let_def,
      simp add: fsub_def double_round_scaled [where n = 104] round_even_def Let_def)

theorem C4_rounding_counterexample:
  "map_of (active_powerups magnet_run) ''magnet'' = Some 10 \<and>
   (10 :: real) \<le> sum_list [double_round (1 / 10), 9, double_round (9 / 10)] \<and>
   map_of (active_powerups (sweeps [double_round (1 / 10), 9, double_round (9 / 10)] magnet_run))
     ''magnet'' = Some (3 / 2 ^ 53) \<and>
   magnet_active (sweeps [double_round (1 / 10), 9, double_round (9 / 10)] magnet_run) \<and>
   ''magnet'' \<notin> set (teardowns [double_round (1 / 10), 9, double_round (9 / 10)] magnet_run)"
proof -
  let ?dts = "[double_round (1 / 10), 9, double_round (9 / 10)]"
  have l: "distinct (map fst (active_powerups magnet_run))"
      "map_of (active_powerups magnet_run) ''magnet'' = Some 10"
    by (simp_all add: magnet_run_simps)
  have "expires_within 10 ?dts =
      (5573204538870989 / 2 ^ 49 \<le> (0 :: real) \<or> 506654958079181 / 2 ^ 49 \<le> (0 :: real) \<or>
       3 / 2 ^ 53 \<le> (0 :: real) \<or> False)"
    by (simp only: expires_within.simps double_0_1 double_0_9 countdown_steps)
  then have n: "\<not> expires_within 10 ?dts" by simp
  have c: "countdown 10 ?dts = 3 / 2 ^ 53"
    by (simp only: countdown.simps double_0_1 double_0_9 countdown_steps)
  have t: "(10 :: real) \<le> sum_list ?dts" unfolding double_0_1 double_0_9 by simp
  note s = sweeps_not_expired [OF l n]
  have m: "map_of (active_powerups (sweeps ?dts magnet_run)) ''magnet'' = Some (3 / 2 ^ 53)"
    using s [THEN conjunct1] by (simp only: c)
  then have "(''magnet'', 3 / 2 ^ 53) \<in> set (active_powerups (sweeps ?dts magnet_run))"
    by (rule map_of_SomeD)
  then have "fst (''magnet'', 3 / 2 ^ 53 :: real) \<in> fst ` set (active_powerups (sweeps ?dts magnet_run))"
    by (rule imageI)
  then have a: "magnet_active (sweeps ?dts magnet_run)" by (simp add: magnet_active_def)
  from l(2) t m a s [THEN conjunct2] show ?thesis by blast
qed


end
